theory Spec2Isabelle
  imports Main "HOL-Library.Word"
begin

unbundle bit_operations_syntax

section \<open>The machine model under gpkg.c\<close>

text \<open>
  The geometry decoder of \<^verbatim>\<open>gpkg.c\<close> walks a byte array with a cursor.  The
  embedding keeps the C signatures: \<^verbatim>\<open>p_blob\<close> is a list of bytes, \<^verbatim>\<open>n_bytes\<close>
  the length the caller passes, \<^verbatim>\<open>*index\<close> the cursor (passed in and returned),
  \<^verbatim>\<open>*res\<close> the out-parameter (its old content is passed in, its new content
  returned).  A C \<^verbatim>\<open>int\<close> is a HOL \<open>int\<close> and every C addition and multiplication
  on it is wrapped to 32 bits by \<open>i32\<close>.  A C \<^verbatim>\<open>double\<close> is its 64-bit pattern;
  the comparisons of the source are the IEEE-754 ones on that pattern.  A read
  outside the array is the value \<open>Inl OutOfBounds\<close>, so that it cannot be
  mistaken for a result.
\<close>

type_synonym byte = "8 word"
type_synonym double = "64 word"

datatype error = OutOfFuel | OutOfBounds

datatype machine = LittleEndianCPU | BigEndianCPU

definition i32 :: "int \<Rightarrow> int" where
  "i32 x = (x + 2147483648) mod 4294967296 - 2147483648"

definition bnd :: "error + 'a \<Rightarrow> ('a \<Rightarrow> error + 'b) \<Rightarrow> error + 'b" where
  "bnd m f = (case m of Inl e \<Rightarrow> Inl e | Inr x \<Rightarrow> f x)"

text \<open>\<^verbatim>\<open>p_blob[i]\<close>\<close>

definition peek :: "byte list \<Rightarrow> int \<Rightarrow> error + byte" where
  "peek p_blob i =
     (if 0 \<le> i \<and> i < int (length p_blob) then Inr (p_blob ! nat i) else Inl OutOfBounds)"

fun peeks :: "byte list \<Rightarrow> int list \<Rightarrow> error + byte list" where
  "peeks p_blob [] = Inr []"
| "peeks p_blob (i # js) =
     bnd (peek p_blob i) (\<lambda>b. bnd (peeks p_blob js) (\<lambda>bs. Inr (b # bs)))"

subsection \<open>Constants of the source\<close>

abbreviation (input) GPKG_MAGIC1 :: byte where "GPKG_MAGIC1 \<equiv> 0x47"
abbreviation (input) GPKG_MAGIC2 :: byte where "GPKG_MAGIC2 \<equiv> 0x50"
abbreviation (input) GPKG_VERSION :: byte where "GPKG_VERSION \<equiv> 0x00"
abbreviation (input) GPKG_EMPTY_BIT :: byte where "GPKG_EMPTY_BIT \<equiv> 0x10"
abbreviation (input) GPKG_ENV_BITS :: byte where "GPKG_ENV_BITS \<equiv> 0x0E"
abbreviation (input) GPKG_BYTEORDER_BIT :: byte where "GPKG_BYTEORDER_BIT \<equiv> 0x01"

abbreviation (input) LITTLE_ENDIAN :: byte where "LITTLE_ENDIAN \<equiv> 1"
abbreviation (input) BIG_ENDIAN :: byte where "BIG_ENDIAN \<equiv> 0"

abbreviation (input) wkbGeometry :: int where "wkbGeometry \<equiv> 0"
abbreviation (input) wkbPoint :: int where "wkbPoint \<equiv> 1"
abbreviation (input) wkbLineString :: int where "wkbLineString \<equiv> 2"
abbreviation (input) wkbPolygon :: int where "wkbPolygon \<equiv> 3"
abbreviation (input) wkbMultiPoint :: int where "wkbMultiPoint \<equiv> 4"
abbreviation (input) wkbMultiLineString :: int where "wkbMultiLineString \<equiv> 5"
abbreviation (input) wkbMultiPolygon :: int where "wkbMultiPolygon \<equiv> 6"
abbreviation (input) wkbGeometryCollection :: int where "wkbGeometryCollection \<equiv> 7"

abbreviation (input) ord_X :: int where "ord_X \<equiv> 0"
abbreviation (input) ord_Y :: int where "ord_Y \<equiv> 1"
abbreviation (input) ord_Z :: int where "ord_Z \<equiv> 2"
abbreviation (input) ord_M :: int where "ord_M \<equiv> 3"

abbreviation (input) fn_MIN :: int where "fn_MIN \<equiv> 0"
abbreviation (input) fn_MAX :: int where "fn_MAX \<equiv> 1"

subsection \<open>Integers and doubles in memory\<close>

text \<open>
  \<open>le_value bs\<close> is the number whose base-256 digits are \<open>bs\<close>, least significant
  first.  \<open>load_int m bs\<close> is what \<^verbatim>\<open>*(int*)bs\<close> yields on machine \<open>m\<close> for the
  four bytes \<open>bs\<close> in ascending address order; \<open>load_double\<close> likewise for
  \<^verbatim>\<open>*(double*)bs\<close>, as a bit pattern.
\<close>

fun le_value :: "byte list \<Rightarrow> int" where
  "le_value [] = 0"
| "le_value (b # bs) = uint b + 256 * le_value bs"

definition in_memory_order :: "machine \<Rightarrow> byte list \<Rightarrow> byte list" where
  "in_memory_order m bs = (case m of LittleEndianCPU \<Rightarrow> bs | BigEndianCPU \<Rightarrow> rev bs)"

definition load_int :: "machine \<Rightarrow> byte list \<Rightarrow> int" where
  "load_int m bs = i32 (le_value (in_memory_order m bs))"

definition load_double :: "machine \<Rightarrow> byte list \<Rightarrow> double" where
  "load_double m bs = word_of_int (le_value (in_memory_order m bs))"

text \<open>\<^verbatim>\<open>endian()\<close>: the first byte of the stored \<^verbatim>\<open>0x01234567\<close> is \<^verbatim>\<open>0x67\<close>
  exactly on a little-endian machine.\<close>

definition endian :: "machine \<Rightarrow> byte" where
  "endian m = (case m of LittleEndianCPU \<Rightarrow> LITTLE_ENDIAN | BigEndianCPU \<Rightarrow> BIG_ENDIAN)"

text \<open>IEEE-754 binary64 on bit patterns: a NaN has all exponent bits set and a
  non-zero fraction; numbers that are not NaN compare as sign and magnitude,
  the two zeros being equal.\<close>

definition isnan :: "double \<Rightarrow> bool" where
  "isnan d = (0x7FF0000000000000 < (d AND 0x7FFFFFFFFFFFFFFF))"

definition dbl_key :: "double \<Rightarrow> int" where
  "dbl_key d =
     (if d AND 0x8000000000000000 = 0 then uint (d AND 0x7FFFFFFFFFFFFFFF)
      else - uint (d AND 0x7FFFFFFFFFFFFFFF))"

definition dbl_lt :: "double \<Rightarrow> double \<Rightarrow> bool" where
  "dbl_lt a b = (\<not> isnan a \<and> \<not> isnan b \<and> dbl_key a < dbl_key b)"

definition dbl_le :: "double \<Rightarrow> double \<Rightarrow> bool" where
  "dbl_le a b = (\<not> isnan a \<and> \<not> isnan b \<and> dbl_key a \<le> dbl_key b)"

section \<open>Primitive reader\<close>

definition getInt :: "machine \<Rightarrow> byte list \<Rightarrow> int \<Rightarrow> byte \<Rightarrow> error + (int \<times> int)" where
  "getInt m p_blob index byteOrder =
     bnd (peeks p_blob
            (if byteOrder = endian m
             then [index, index + 1, index + 2, index + 3]
             else [i32 (index + 3), i32 (index + 2), i32 (index + 1), index]))
       (\<lambda>bytes. Inr (load_int m bytes, i32 (index + 4)))"

definition getDouble :: "machine \<Rightarrow> byte list \<Rightarrow> int \<Rightarrow> byte \<Rightarrow> error + (double \<times> int)" where
  "getDouble m p_blob index byteOrder =
     bnd (peeks p_blob
            (if byteOrder = endian m
             then [index, index + 1, index + 2, index + 3,
                   index + 4, index + 5, index + 6, index + 7]
             else [i32 (index + 7), i32 (index + 6), i32 (index + 5), i32 (index + 4),
                   i32 (index + 3), i32 (index + 2), i32 (index + 1), index]))
       (\<lambda>bytes. Inr (load_double m bytes, i32 (index + 8)))"

text \<open>Re-encoding one field in the other byte order: the \<open>w\<close> bytes at \<open>index\<close>
  reversed, and the marker \<open>0\<close> for \<open>1\<close> and \<open>1\<close> for \<open>0\<close>.\<close>

definition swap_field :: "byte list \<Rightarrow> nat \<Rightarrow> nat \<Rightarrow> byte list" where
  "swap_field p_blob index w =
     take index p_blob @ rev (take w (drop index p_blob)) @ drop (index + w) p_blob"

definition opposite :: "byte \<Rightarrow> byte" where
  "opposite byteOrder = (if byteOrder = LITTLE_ENDIAN then BIG_ENDIAN else LITTLE_ENDIAN)"

section \<open>WKB geometry walker\<close>

text \<open>
  Results are \<open>(return value, *index, *res)\<close> for the envelope readers and
  \<open>(return value, *index)\<close> for the skippers and the emptiness tests.  A
  \<^verbatim>\<open>for\<close> loop is a function on the number of iterations left.  An arithmetic
  expression of the source is wrapped once, as a whole: \<open>i32\<close> commutes with
  \<open>+\<close>, \<open>-\<close> and \<open>*\<close> (lemma \<open>i32_arith\<close>).  The local \<^verbatim>\<open>double res2\<close> of the
  source starts with the content \<open>uninitialised\<close>; it is read only after a
  callee has stored into it.
\<close>

abbreviation (input) uninitialised :: double where "uninitialised \<equiv> 0"

text \<open>The update of \<^verbatim>\<open>*res\<close> by \<^verbatim>\<open>res2\<close> that every loop of the source spells out:
  \<^verbatim>\<open>if (maxmin == MIN) { if (res2 < *res) *res = res2; } else { if (res2 > *res) *res = res2; }\<close>\<close>

definition keep_extreme :: "int \<Rightarrow> double \<Rightarrow> double \<Rightarrow> double" where
  "keep_extreme maxmin res2 res =
     (if maxmin = fn_MIN then (if dbl_lt res2 res then res2 else res)
      else (if dbl_lt res res2 then res2 else res))"

definition readWKBPointOrd ::
  "machine \<Rightarrow> byte list \<Rightarrow> int \<Rightarrow> int \<Rightarrow> byte \<Rightarrow> int \<Rightarrow> int \<Rightarrow> double
     \<Rightarrow> error + (int \<times> int \<times> double)" where
  "readWKBPointOrd m p_blob n_bytes index byteOrder dimension ordinate res =
     (if i32 (index + dimension * 8) > n_bytes then Inr (0, index, res)
      else bnd (getDouble m p_blob (i32 (index + ordinate * 8)) byteOrder)
             (\<lambda>(d, index). Inr (1, i32 (index + (dimension - ordinate - 1) * 8), d)))"

fun isEmptyWKBPoint_loop ::
  "machine \<Rightarrow> byte list \<Rightarrow> byte \<Rightarrow> int \<Rightarrow> int \<Rightarrow> nat \<Rightarrow> int \<Rightarrow> error + (int \<times> int)" where
  "isEmptyWKBPoint_loop m p_blob byteOrder dimension i 0 index = Inr (1, index)"
| "isEmptyWKBPoint_loop m p_blob byteOrder dimension i (Suc k) index =
     bnd (getDouble m p_blob index byteOrder)
       (\<lambda>(d, index).
          if \<not> isnan d then Inr (0, i32 (index + (dimension - i - 1) * 8))
          else isEmptyWKBPoint_loop m p_blob byteOrder dimension (i32 (i + 1)) k index)"

definition isEmptyWKBPoint ::
  "machine \<Rightarrow> byte list \<Rightarrow> int \<Rightarrow> int \<Rightarrow> byte \<Rightarrow> int \<Rightarrow> error + (int \<times> int)" where
  "isEmptyWKBPoint m p_blob n_bytes index byteOrder dimension =
     (if i32 (index + dimension * 8) > n_bytes then Inr (- 1, index)
      else isEmptyWKBPoint_loop m p_blob byteOrder dimension 0 (nat dimension) index)"

fun readWKBLineStringEnv_loop ::
  "machine \<Rightarrow> byte list \<Rightarrow> int \<Rightarrow> byte \<Rightarrow> int \<Rightarrow> int \<Rightarrow> int \<Rightarrow> nat \<Rightarrow> int \<Rightarrow> double \<Rightarrow> double
     \<Rightarrow> error + (int \<times> int \<times> double)" where
  "readWKBLineStringEnv_loop m p_blob n_bytes byteOrder dimension ordinate maxmin 0 index res res2 =
     Inr (1, index, res)"
| "readWKBLineStringEnv_loop m p_blob n_bytes byteOrder dimension ordinate maxmin (Suc k) index res res2 =
     bnd (readWKBPointOrd m p_blob n_bytes index byteOrder dimension ordinate res2)
       (\<lambda>(ok, index, res2).
          if ok = 0 then Inr (0, index, res)
          else readWKBLineStringEnv_loop m p_blob n_bytes byteOrder dimension ordinate maxmin k
                 index (keep_extreme maxmin res2 res) res2)"

definition readWKBLineStringEnv ::
  "machine \<Rightarrow> byte list \<Rightarrow> int \<Rightarrow> int \<Rightarrow> byte \<Rightarrow> int \<Rightarrow> int \<Rightarrow> int \<Rightarrow> double
     \<Rightarrow> error + (int \<times> int \<times> double)" where
  "readWKBLineStringEnv m p_blob n_bytes index byteOrder dimension ordinate maxmin res =
     bnd (getInt m p_blob index byteOrder)
       (\<lambda>(numPoints, index).
          if numPoints < 1 then Inr (0, index, res)
          else if i32 (index + numPoints * dimension * 8) > n_bytes then Inr (0, index, res)
          else bnd (readWKBPointOrd m p_blob n_bytes index byteOrder dimension ordinate res)
                 (\<lambda>(ok, index, res).
                    if ok = 0 then Inr (0, index, res)
                    else readWKBLineStringEnv_loop m p_blob n_bytes byteOrder dimension ordinate
                           maxmin (nat (numPoints - 1)) index res uninitialised))"

definition isEmptyWKBLineString ::
  "machine \<Rightarrow> byte list \<Rightarrow> int \<Rightarrow> int \<Rightarrow> byte \<Rightarrow> int \<Rightarrow> error + (int \<times> int)" where
  "isEmptyWKBLineString m p_blob n_bytes index byteOrder dimension =
     bnd (getInt m p_blob index byteOrder)
       (\<lambda>(numPoints, index).
          if numPoints < 1 then Inr (1, index)
          else if i32 (index + numPoints * dimension * 8) > n_bytes then Inr (- 1, index)
          else Inr (0, i32 (index + numPoints * dimension * 8)))"

definition skipWKBLineString ::
  "machine \<Rightarrow> byte list \<Rightarrow> int \<Rightarrow> int \<Rightarrow> byte \<Rightarrow> int \<Rightarrow> error + (int \<times> int)" where
  "skipWKBLineString m p_blob n_bytes index byteOrder dimension =
     bnd (getInt m p_blob index byteOrder)
       (\<lambda>(numPoints, index).
          if numPoints < 1 then Inr (0, index)
          else if i32 (index + numPoints * dimension * 8) > n_bytes then Inr (0, index)
          else Inr (1, i32 (index + numPoints * dimension * 8)))"

text \<open>The two loops of \<^verbatim>\<open>readWKBPolygonEnv\<close> over the rings after the first: for
  X and Y the rings are skipped, for Z and M they are read.\<close>

fun readWKBPolygonEnv_skip ::
  "machine \<Rightarrow> byte list \<Rightarrow> int \<Rightarrow> byte \<Rightarrow> int \<Rightarrow> nat \<Rightarrow> int \<Rightarrow> double
     \<Rightarrow> error + (int \<times> int \<times> double)" where
  "readWKBPolygonEnv_skip m p_blob n_bytes byteOrder dimension 0 index res = Inr (1, index, res)"
| "readWKBPolygonEnv_skip m p_blob n_bytes byteOrder dimension (Suc k) index res =
     bnd (skipWKBLineString m p_blob n_bytes index byteOrder dimension)
       (\<lambda>(ok, index).
          if ok = 0 then Inr (0, index, res)
          else readWKBPolygonEnv_skip m p_blob n_bytes byteOrder dimension k index res)"

fun readWKBPolygonEnv_read ::
  "machine \<Rightarrow> byte list \<Rightarrow> int \<Rightarrow> byte \<Rightarrow> int \<Rightarrow> int \<Rightarrow> int \<Rightarrow> nat \<Rightarrow> int \<Rightarrow> double \<Rightarrow> double
     \<Rightarrow> error + (int \<times> int \<times> double)" where
  "readWKBPolygonEnv_read m p_blob n_bytes byteOrder dimension ordinate maxmin 0 index res res2 =
     Inr (1, index, res)"
| "readWKBPolygonEnv_read m p_blob n_bytes byteOrder dimension ordinate maxmin (Suc k) index res res2 =
     bnd (readWKBLineStringEnv m p_blob n_bytes index byteOrder dimension ordinate maxmin res2)
       (\<lambda>(ok, index, res2).
          if ok = 0 then Inr (0, index, res)
          else readWKBPolygonEnv_read m p_blob n_bytes byteOrder dimension ordinate maxmin k
                 index (keep_extreme maxmin res2 res) res2)"

definition readWKBPolygonEnv ::
  "machine \<Rightarrow> byte list \<Rightarrow> int \<Rightarrow> int \<Rightarrow> byte \<Rightarrow> int \<Rightarrow> int \<Rightarrow> int \<Rightarrow> double
     \<Rightarrow> error + (int \<times> int \<times> double)" where
  "readWKBPolygonEnv m p_blob n_bytes index byteOrder dimension ordinate maxmin res =
     bnd (getInt m p_blob index byteOrder)
       (\<lambda>(numRings, index).
          if numRings < 1 then Inr (0, index, res)
          else bnd (readWKBLineStringEnv m p_blob n_bytes index byteOrder dimension ordinate
                      maxmin res)
                 (\<lambda>(ok, index, res).
                    if ok = 0 then Inr (0, index, res)
                    else if ordinate < ord_Z
                    then readWKBPolygonEnv_skip m p_blob n_bytes byteOrder dimension
                           (nat (numRings - 1)) index res
                    else readWKBPolygonEnv_read m p_blob n_bytes byteOrder dimension ordinate
                           maxmin (nat (numRings - 1)) index res uninitialised))"

fun isEmptyWKBPolygon_loop ::
  "machine \<Rightarrow> byte list \<Rightarrow> int \<Rightarrow> byte \<Rightarrow> int \<Rightarrow> nat \<Rightarrow> int \<Rightarrow> error + (int \<times> int)" where
  "isEmptyWKBPolygon_loop m p_blob n_bytes byteOrder dimension 0 index = Inr (0, index)"
| "isEmptyWKBPolygon_loop m p_blob n_bytes byteOrder dimension (Suc k) index =
     bnd (skipWKBLineString m p_blob n_bytes index byteOrder dimension)
       (\<lambda>(ok, index).
          if ok = 0 then Inr (- 1, index)
          else isEmptyWKBPolygon_loop m p_blob n_bytes byteOrder dimension k index)"

definition isEmptyWKBPolygon ::
  "machine \<Rightarrow> byte list \<Rightarrow> int \<Rightarrow> int \<Rightarrow> byte \<Rightarrow> int \<Rightarrow> error + (int \<times> int)" where
  "isEmptyWKBPolygon m p_blob n_bytes index byteOrder dimension =
     bnd (getInt m p_blob index byteOrder)
       (\<lambda>(numRings, index).
          if numRings < 1 then Inr (- 1, index)
          else if numRings = 1
          then isEmptyWKBLineString m p_blob n_bytes index byteOrder dimension
          else isEmptyWKBPolygon_loop m p_blob n_bytes byteOrder dimension (nat numRings) index)"

text \<open>
  \<^verbatim>\<open>readWKBGeometryEnv\<close> and the four readers of the kinds with elements call
  each other.  The depth of that recursion is not bounded by the source, so the
  model takes it as \<open>fuel\<close>: one unit per nested \<^verbatim>\<open>readWKBGeometryEnv\<close>, and
  \<open>Inl OutOfFuel\<close> when it is used up.  The recursion is tied in
  \<open>readWKBGeometryEnv\<close>, by primitive recursion on the fuel; a reader of a kind
  with elements is first written with the \<^verbatim>\<open>readWKBGeometryEnv\<close> it calls as
  its argument \<open>geometryEnv\<close> (the \<open>_with\<close> definitions), and gets its own name
  afterwards.  The loop over the elements after the first is the same text in the
  four readers but for the kind expected; \<open>readWKBElementsEnv_loop\<close> takes that
  kind as \<open>geometryTypeExpected\<close>.
\<close>

type_synonym env_reader =
  "machine \<Rightarrow> byte list \<Rightarrow> int \<Rightarrow> int \<Rightarrow> byte \<Rightarrow> int \<Rightarrow> int \<Rightarrow> int \<Rightarrow> double
     \<Rightarrow> error + (int \<times> int \<times> double)"

fun readWKBElementsEnv_loop ::
  "env_reader \<Rightarrow> machine \<Rightarrow> byte list \<Rightarrow> int \<Rightarrow> byte \<Rightarrow> int \<Rightarrow> int \<Rightarrow> int \<Rightarrow> nat \<Rightarrow> int
     \<Rightarrow> double \<Rightarrow> double \<Rightarrow> error + (int \<times> int \<times> double)" where
  "readWKBElementsEnv_loop geometryEnv m p_blob n_bytes byteOrder ordinate maxmin
     geometryTypeExpected 0 index res res2 = Inr (1, index, res)"
| "readWKBElementsEnv_loop geometryEnv m p_blob n_bytes byteOrder ordinate maxmin
     geometryTypeExpected (Suc k) index res res2 =
     bnd (geometryEnv m p_blob n_bytes index byteOrder ordinate maxmin geometryTypeExpected res2)
       (\<lambda>(ok, index, res2).
          if ok = 0 then Inr (0, index, res)
          else readWKBElementsEnv_loop geometryEnv m p_blob n_bytes byteOrder ordinate maxmin
                 geometryTypeExpected k index (keep_extreme maxmin res2 res) res2)"

definition readWKBMultiPointEnv_with ::
  "env_reader \<Rightarrow> machine \<Rightarrow> byte list \<Rightarrow> int \<Rightarrow> int \<Rightarrow> byte \<Rightarrow> int \<Rightarrow> int \<Rightarrow> int \<Rightarrow> double
     \<Rightarrow> error + (int \<times> int \<times> double)" where
  "readWKBMultiPointEnv_with geometryEnv m p_blob n_bytes index byteOrder dimension ordinate maxmin res =
     bnd (getInt m p_blob index byteOrder)
       (\<lambda>(numGeoms, index).
          if numGeoms < 1 then Inr (0, index, res)
          else bnd (geometryEnv m p_blob n_bytes index byteOrder ordinate maxmin wkbPoint res)
                 (\<lambda>(ok, index, res).
                    if ok = 0 then Inr (0, index, res)
                    else readWKBElementsEnv_loop geometryEnv m p_blob n_bytes byteOrder ordinate
                           maxmin wkbPoint (nat (numGeoms - 1)) index res uninitialised))"

definition readWKBMultiLineStringEnv_with ::
  "env_reader \<Rightarrow> machine \<Rightarrow> byte list \<Rightarrow> int \<Rightarrow> int \<Rightarrow> byte \<Rightarrow> int \<Rightarrow> int \<Rightarrow> int \<Rightarrow> double
     \<Rightarrow> error + (int \<times> int \<times> double)" where
  "readWKBMultiLineStringEnv_with geometryEnv m p_blob n_bytes index byteOrder dimension ordinate maxmin res =
     bnd (getInt m p_blob index byteOrder)
       (\<lambda>(numGeoms, index).
          if numGeoms < 1 then Inr (0, index, res)
          else bnd (geometryEnv m p_blob n_bytes index byteOrder ordinate maxmin wkbLineString res)
                 (\<lambda>(ok, index, res).
                    if ok = 0 then Inr (0, index, res)
                    else readWKBElementsEnv_loop geometryEnv m p_blob n_bytes byteOrder ordinate
                           maxmin wkbLineString (nat (numGeoms - 1)) index res uninitialised))"

definition readWKBMultiPolygonEnv_with ::
  "env_reader \<Rightarrow> machine \<Rightarrow> byte list \<Rightarrow> int \<Rightarrow> int \<Rightarrow> byte \<Rightarrow> int \<Rightarrow> int \<Rightarrow> int \<Rightarrow> double
     \<Rightarrow> error + (int \<times> int \<times> double)" where
  "readWKBMultiPolygonEnv_with geometryEnv m p_blob n_bytes index byteOrder dimension ordinate maxmin res =
     bnd (getInt m p_blob index byteOrder)
       (\<lambda>(numGeoms, index).
          if numGeoms < 1 then Inr (0, index, res)
          else bnd (geometryEnv m p_blob n_bytes index byteOrder ordinate maxmin wkbPolygon res)
                 (\<lambda>(ok, index, res).
                    if ok = 0 then Inr (0, index, res)
                    else readWKBElementsEnv_loop geometryEnv m p_blob n_bytes byteOrder ordinate
                           maxmin wkbPolygon (nat (numGeoms - 1)) index res uninitialised))"

definition readWKBGeometryCollectionEnv_with ::
  "env_reader \<Rightarrow> machine \<Rightarrow> byte list \<Rightarrow> int \<Rightarrow> int \<Rightarrow> byte \<Rightarrow> int \<Rightarrow> int \<Rightarrow> int \<Rightarrow> double
     \<Rightarrow> error + (int \<times> int \<times> double)" where
  "readWKBGeometryCollectionEnv_with geometryEnv m p_blob n_bytes index byteOrder dimension ordinate maxmin res =
     bnd (getInt m p_blob index byteOrder)
       (\<lambda>(numGeoms, index).
          if numGeoms < 1 then Inr (0, index, res)
          else bnd (geometryEnv m p_blob n_bytes index byteOrder ordinate maxmin wkbGeometry res)
                 (\<lambda>(ok, index, res).
                    if ok = 0 then Inr (0, index, res)
                    else readWKBElementsEnv_loop geometryEnv m p_blob n_bytes byteOrder ordinate
                           maxmin wkbGeometry (nat (numGeoms - 1)) index res uninitialised))"

primrec readWKBGeometryEnv :: "nat \<Rightarrow> env_reader" where
  "readWKBGeometryEnv 0 m p_blob n_bytes index byteOrder ordinate maxmin geometryTypeExpected res =
     Inl OutOfFuel"
| "readWKBGeometryEnv (Suc fuel) m p_blob n_bytes index byteOrder ordinate maxmin
     geometryTypeExpected res =
     bnd (peek p_blob index)
       (\<lambda>newByteOrder.
          let index = i32 (index + 1);
              byteOrder = (if newByteOrder = LITTLE_ENDIAN \<or> newByteOrder = BIG_ENDIAN
                           then newByteOrder else byteOrder)
          in bnd (getInt m p_blob index byteOrder)
               (\<lambda>(typeInt, index).
                  let hasZ = (typeInt AND 0x80000000 \<noteq> 0 \<or> (typeInt AND 0xffff) div 1000 = 1
                                \<or> (typeInt AND 0xffff) div 1000 = 3);
                      hasM = (typeInt AND 0x40000000 \<noteq> 0 \<or> (typeInt AND 0xffff) div 1000 = 2
                                \<or> (typeInt AND 0xffff) div 1000 = 3);
                      dimension = 2 + (if hasZ then 1 else 0) + (if hasM then 1 else 0)
                  in if \<not> (dimension = 3 \<and> ordinate = ord_M) \<and> dimension < ordinate
                     then Inr (0, index, res)
                     else
                       let ordinate = (if dimension = 3 \<and> ordinate = ord_M then ord_Z
                                       else ordinate);
                           hasSRID = (typeInt AND 0x20000000 \<noteq> 0);
                           index = (if hasSRID then i32 (index + 4) else index);
                           geometryType = (typeInt AND 0xffff) mod 1000
                       in if geometryTypeExpected \<noteq> wkbGeometry
                               \<and> geometryTypeExpected \<noteq> geometryType
                          then Inr (0, index, res)
                          else bnd
                            (if geometryType = wkbPoint
                             then readWKBPointOrd m p_blob n_bytes index byteOrder dimension
                                    ordinate res
                             else if geometryType = wkbLineString
                             then readWKBLineStringEnv m p_blob n_bytes index byteOrder dimension
                                    ordinate maxmin res
                             else if geometryType = wkbPolygon
                             then readWKBPolygonEnv m p_blob n_bytes index byteOrder dimension
                                    ordinate maxmin res
                             else if geometryType = wkbMultiPoint
                             then readWKBMultiPointEnv_with (readWKBGeometryEnv fuel) m p_blob
                                    n_bytes index byteOrder dimension ordinate maxmin res
                             else if geometryType = wkbMultiLineString
                             then readWKBMultiLineStringEnv_with (readWKBGeometryEnv fuel) m p_blob
                                    n_bytes index byteOrder dimension ordinate maxmin res
                             else if geometryType = wkbMultiPolygon
                             then readWKBMultiPolygonEnv_with (readWKBGeometryEnv fuel) m p_blob
                                    n_bytes index byteOrder dimension ordinate maxmin res
                             else if geometryType = wkbGeometryCollection
                             then readWKBGeometryCollectionEnv_with (readWKBGeometryEnv fuel) m
                                    p_blob n_bytes index byteOrder dimension ordinate maxmin res
                             else Inr (0, index, res))
                            (\<lambda>(ok, index, res). Inr (if ok = 0 then 0 else 1, index, res))))"






text \<open>The emptiness tests, tied in \<open>isEmptyWKBGeometry\<close> the same way.  The loop
  carries the local \<^verbatim>\<open>res\<close> of the source, which starts at 1.\<close>

type_synonym empty_test =
  "machine \<Rightarrow> byte list \<Rightarrow> int \<Rightarrow> int \<Rightarrow> byte \<Rightarrow> int \<Rightarrow> error + (int \<times> int)"

fun isEmptyWKBElements_loop ::
  "empty_test \<Rightarrow> machine \<Rightarrow> byte list \<Rightarrow> int \<Rightarrow> byte \<Rightarrow> int \<Rightarrow> nat \<Rightarrow> int \<Rightarrow> int
     \<Rightarrow> error + (int \<times> int)" where
  "isEmptyWKBElements_loop geometryEmpty m p_blob n_bytes byteOrder geometryTypeExpected
     0 index res = Inr (res, index)"
| "isEmptyWKBElements_loop geometryEmpty m p_blob n_bytes byteOrder geometryTypeExpected
     (Suc k) index res =
     bnd (geometryEmpty m p_blob n_bytes index byteOrder geometryTypeExpected)
       (\<lambda>(res2, index).
          if res2 < 0 then Inr (res2, index)
          else isEmptyWKBElements_loop geometryEmpty m p_blob n_bytes byteOrder
                 geometryTypeExpected k index (if res2 = 0 then res2 else res))"

definition isEmptyWKBMultiPoint_with ::
  "empty_test \<Rightarrow> machine \<Rightarrow> byte list \<Rightarrow> int \<Rightarrow> int \<Rightarrow> byte \<Rightarrow> int \<Rightarrow> error + (int \<times> int)" where
  "isEmptyWKBMultiPoint_with geometryEmpty m p_blob n_bytes index byteOrder dimension =
     bnd (getInt m p_blob index byteOrder)
       (\<lambda>(numGeoms, index).
          if numGeoms < 1 then Inr (1, index)
          else isEmptyWKBElements_loop geometryEmpty m p_blob n_bytes byteOrder wkbPoint
                 (nat numGeoms) index 1)"

definition isEmptyWKBMultiLineString_with ::
  "empty_test \<Rightarrow> machine \<Rightarrow> byte list \<Rightarrow> int \<Rightarrow> int \<Rightarrow> byte \<Rightarrow> int \<Rightarrow> error + (int \<times> int)" where
  "isEmptyWKBMultiLineString_with geometryEmpty m p_blob n_bytes index byteOrder dimension =
     bnd (getInt m p_blob index byteOrder)
       (\<lambda>(numGeoms, index).
          if numGeoms < 1 then Inr (1, index)
          else isEmptyWKBElements_loop geometryEmpty m p_blob n_bytes byteOrder wkbLineString
                 (nat numGeoms) index 1)"

definition isEmptyWKBMultiPolygon_with ::
  "empty_test \<Rightarrow> machine \<Rightarrow> byte list \<Rightarrow> int \<Rightarrow> int \<Rightarrow> byte \<Rightarrow> int \<Rightarrow> error + (int \<times> int)" where
  "isEmptyWKBMultiPolygon_with geometryEmpty m p_blob n_bytes index byteOrder dimension =
     bnd (getInt m p_blob index byteOrder)
       (\<lambda>(numGeoms, index).
          if numGeoms < 1 then Inr (1, index)
          else isEmptyWKBElements_loop geometryEmpty m p_blob n_bytes byteOrder wkbPolygon
                 (nat numGeoms) index 1)"

definition isEmptyWKBGeometryCollection_with ::
  "empty_test \<Rightarrow> machine \<Rightarrow> byte list \<Rightarrow> int \<Rightarrow> int \<Rightarrow> byte \<Rightarrow> int \<Rightarrow> error + (int \<times> int)" where
  "isEmptyWKBGeometryCollection_with geometryEmpty m p_blob n_bytes index byteOrder dimension =
     bnd (getInt m p_blob index byteOrder)
       (\<lambda>(numGeoms, index).
          if numGeoms < 1 then Inr (1, index)
          else isEmptyWKBElements_loop geometryEmpty m p_blob n_bytes byteOrder wkbGeometry
                 (nat numGeoms) index 1)"

primrec isEmptyWKBGeometry :: "nat \<Rightarrow> empty_test" where
  "isEmptyWKBGeometry 0 m p_blob n_bytes index byteOrder geometryTypeExpected = Inl OutOfFuel"
| "isEmptyWKBGeometry (Suc fuel) m p_blob n_bytes index byteOrder geometryTypeExpected =
     bnd (peek p_blob index)
       (\<lambda>newByteOrder.
          let index = i32 (index + 1);
              byteOrder = (if newByteOrder = LITTLE_ENDIAN \<or> newByteOrder = BIG_ENDIAN
                           then newByteOrder else byteOrder)
          in bnd (getInt m p_blob index byteOrder)
               (\<lambda>(typeInt, index).
                  let hasZ = (typeInt AND 0x80000000 \<noteq> 0 \<or> (typeInt AND 0xffff) div 1000 = 1
                                \<or> (typeInt AND 0xffff) div 1000 = 3);
                      hasM = (typeInt AND 0x40000000 \<noteq> 0 \<or> (typeInt AND 0xffff) div 1000 = 2
                                \<or> (typeInt AND 0xffff) div 1000 = 3);
                      dimension = 2 + (if hasZ then 1 else 0) + (if hasM then 1 else 0);
                      hasSRID = (typeInt AND 0x20000000 \<noteq> 0);
                      index = (if hasSRID then i32 (index + 4) else index);
                      geometryType = (typeInt AND 0xffff) mod 1000
                  in if geometryTypeExpected \<noteq> wkbGeometry
                          \<and> geometryTypeExpected \<noteq> geometryType
                     then Inr (- 1, index)
                     else if geometryType = wkbPoint
                     then isEmptyWKBPoint m p_blob n_bytes index byteOrder dimension
                     else if geometryType = wkbLineString
                     then isEmptyWKBLineString m p_blob n_bytes index byteOrder dimension
                     else if geometryType = wkbPolygon
                     then isEmptyWKBPolygon m p_blob n_bytes index byteOrder dimension
                     else if geometryType = wkbMultiPoint
                     then isEmptyWKBMultiPoint_with (isEmptyWKBGeometry fuel) m p_blob n_bytes
                            index byteOrder dimension
                     else if geometryType = wkbMultiLineString
                     then isEmptyWKBMultiLineString_with (isEmptyWKBGeometry fuel) m p_blob
                            n_bytes index byteOrder dimension
                     else if geometryType = wkbMultiPolygon
                     then isEmptyWKBMultiPolygon_with (isEmptyWKBGeometry fuel) m p_blob n_bytes
                            index byteOrder dimension
                     else if geometryType = wkbGeometryCollection
                     then isEmptyWKBGeometryCollection_with (isEmptyWKBGeometry fuel) m p_blob
                            n_bytes index byteOrder dimension
                     else Inr (- 1, index)))"





section \<open>Container header decoder\<close>

text \<open>The number of envelope bytes that the three header functions step over,
  by \<^verbatim>\<open>switch (envelopeType)\<close>; \<open>None\<close> is the \<^verbatim>\<open>default\<close> branch.\<close>

definition envelope_bytes :: "int \<Rightarrow> int option" where
  "envelope_bytes envelopeType =
     (if envelopeType = 0 then Some 0
      else if envelopeType = 1 then Some 32
      else if envelopeType = 2 then Some 48
      else if envelopeType = 3 then Some 48
      else if envelopeType = 4 then Some 64
      else None)"

definition readGPKGHeaderEnv ::
  "machine \<Rightarrow> byte list \<Rightarrow> int \<Rightarrow> int \<Rightarrow> int \<Rightarrow> int \<Rightarrow> double
     \<Rightarrow> error + (int \<times> int \<times> double)" where
  "readGPKGHeaderEnv m p_blob n_bytes index ordinate maxmin res =
     bnd (peek p_blob index) (\<lambda>magic1. let index = i32 (index + 1) in
     if magic1 \<noteq> GPKG_MAGIC1 then Inr (0, index, res) else
     bnd (peek p_blob index) (\<lambda>magic2. let index = i32 (index + 1) in
     if magic2 \<noteq> GPKG_MAGIC2 then Inr (0, index, res) else
     bnd (peek p_blob index) (\<lambda>version. let index = i32 (index + 1) in
     if version \<noteq> GPKG_VERSION then Inr (0, index, res) else
     bnd (peek p_blob index) (\<lambda>flags.
       let index = i32 (index + 1);
           isEmpty = uint (drop_bit 4 (flags AND GPKG_EMPTY_BIT));
           index = i32 (index + 4);
           envelopeType = uint (drop_bit 1 (flags AND GPKG_ENV_BITS))
       in if isEmpty \<noteq> 0
          then (case envelope_bytes envelopeType of
                  None \<Rightarrow> Inr (0, index, res)
                | Some k \<Rightarrow> Inr (1, i32 (index + k), res))
          else
            let byteOrder = flags AND GPKG_BYTEORDER_BIT
            in if envelopeType = 0 then Inr (- 1, index, res)
               else if envelopeType \<noteq> 1 \<and> envelopeType \<noteq> 2 \<and> envelopeType \<noteq> 3
                         \<and> envelopeType \<noteq> 4
               then Inr (0, index, res)
               else
                 let dimension = (if envelopeType = 1 then 2 else if envelopeType = 2 then 3
                                  else if envelopeType = 3 then 3 else 4)
                 in if ordinate = ord_Z \<and> (envelopeType = 1 \<or> envelopeType = 3)
                    then Inr (0, index, res)
                    else if ordinate = ord_M \<and> (envelopeType = 1 \<or> envelopeType = 2)
                    then Inr (0, index, res)
                    else
                      let ordinate = (if ordinate = ord_M \<and> envelopeType = 3 then ord_Z
                                      else ordinate)
                      in if maxmin = fn_MIN
                         then bnd (getDouble m p_blob (i32 (index + ordinate * 8)) byteOrder)
                                (\<lambda>(res, index).
                                   if isnan res
                                   then Inr (- 1,
                                          i32 (index + (dimension + dimension - ordinate - 1) * 8),
                                          res)
                                   else Inr (1, index, res))
                         else bnd (getDouble m p_blob (i32 (index + (dimension + ordinate * 8)))
                                     byteOrder)
                                (\<lambda>(res, index).
                                   if isnan res
                                   then Inr (- 1, i32 (index + (dimension - ordinate - 1) * 8),
                                          res)
                                   else Inr (1, index, res))))))"

definition skipGPKGHeader :: "byte list \<Rightarrow> int \<Rightarrow> int \<Rightarrow> error + (int \<times> int)" where
  "skipGPKGHeader p_blob n_bytes index =
     bnd (peek p_blob index) (\<lambda>magic1. let index = i32 (index + 1) in
     if magic1 \<noteq> GPKG_MAGIC1 then Inr (0, index) else
     bnd (peek p_blob index) (\<lambda>magic2. let index = i32 (index + 1) in
     if magic2 \<noteq> GPKG_MAGIC2 then Inr (0, index) else
     bnd (peek p_blob index) (\<lambda>version. let index = i32 (index + 1) in
     if version \<noteq> GPKG_VERSION then Inr (0, index) else
     bnd (peek p_blob index) (\<lambda>flags.
       let index = i32 (index + 1);
           index = i32 (index + 4);
           envelopeType = uint (drop_bit 1 (flags AND GPKG_ENV_BITS))
       in case envelope_bytes envelopeType of
            None \<Rightarrow> Inr (0, index)
          | Some k \<Rightarrow> Inr (1, i32 (index + k))))))"

text \<open>\<^verbatim>\<open>readEmptyGPKGHeader\<close> returns \<open>(return value, *index, *isEmpty)\<close>.\<close>

definition readEmptyGPKGHeader ::
  "byte list \<Rightarrow> int \<Rightarrow> int \<Rightarrow> int \<Rightarrow> error + (int \<times> int \<times> int)" where
  "readEmptyGPKGHeader p_blob n_bytes index isEmpty =
     bnd (peek p_blob index) (\<lambda>magic1. let index = i32 (index + 1) in
     if magic1 \<noteq> GPKG_MAGIC1 then Inr (0, index, - 1) else
     bnd (peek p_blob index) (\<lambda>magic2. let index = i32 (index + 1) in
     if magic2 \<noteq> GPKG_MAGIC2 then Inr (0, index, - 1) else
     bnd (peek p_blob index) (\<lambda>version. let index = i32 (index + 1) in
     if version \<noteq> GPKG_VERSION then Inr (0, index, - 1) else
     bnd (peek p_blob index) (\<lambda>flags.
       let index = i32 (index + 1);
           isEmpty = uint (drop_bit 4 (flags AND GPKG_EMPTY_BIT));
           index = i32 (index + 4);
           envelopeType = uint (drop_bit 1 (flags AND GPKG_ENV_BITS))
       in case envelope_bytes envelopeType of
            None \<Rightarrow> Inr (0, index, - 1)
          | Some k \<Rightarrow> Inr (1, i32 (index + k), isEmpty)))))"

text \<open>The two entry points.  \<open>use_header\<close> says whether the source was compiled
  with \<^verbatim>\<open>GPKG_ALLWAYS_USE_HEADER\<close> defined; as distributed it is not.\<close>

definition readGPKGGeometryEnv ::
  "bool \<Rightarrow> nat \<Rightarrow> machine \<Rightarrow> byte list \<Rightarrow> int \<Rightarrow> int \<Rightarrow> byte \<Rightarrow> int \<Rightarrow> int \<Rightarrow> int \<Rightarrow> double
     \<Rightarrow> error + (int \<times> int \<times> double)" where
  "readGPKGGeometryEnv use_header fuel m p_blob n_bytes index byteOrder ordinate maxmin
     geometryTypeExpected res =
     (if use_header
      then bnd (readGPKGHeaderEnv m p_blob n_bytes index ordinate maxmin res)
             (\<lambda>(headerOk, index, res).
                if headerOk = 1 then Inr (1, index, res)
                else readWKBGeometryEnv fuel m p_blob n_bytes index byteOrder ordinate maxmin
                       geometryTypeExpected res)
      else bnd (skipGPKGHeader p_blob n_bytes index)
             (\<lambda>(ok, index).
                if ok = 0 then Inr (0, index, res)
                else readWKBGeometryEnv fuel m p_blob n_bytes index byteOrder ordinate maxmin
                       geometryTypeExpected res))"

definition isEmptyGPKGGeometry ::
  "bool \<Rightarrow> nat \<Rightarrow> machine \<Rightarrow> byte list \<Rightarrow> int \<Rightarrow> int \<Rightarrow> byte \<Rightarrow> int \<Rightarrow> error + (int \<times> int)" where
  "isEmptyGPKGGeometry use_header fuel m p_blob n_bytes index byteOrder geometryTypeExpected =
     bnd (readEmptyGPKGHeader p_blob n_bytes index 0)
       (\<lambda>(ok, index, isEmpty).
          if ok = 0 then Inr (- 1, index)
          else if use_header then Inr (isEmpty, index)
          else if isEmpty = 1 then Inr (1, index)
          else isEmptyWKBGeometry fuel m p_blob n_bytes index byteOrder geometryTypeExpected)"

section \<open>Notions used to state the properties\<close>

text \<open>The \<open>w\<close> bytes of a field at \<open>index\<close>, least significant byte first when
  read in the declared byte order.\<close>

definition field :: "byte list \<Rightarrow> int \<Rightarrow> nat \<Rightarrow> byte \<Rightarrow> byte list" where
  "field p_blob index w byteOrder =
     (if byteOrder = LITTLE_ENDIAN then take w (drop (nat index) p_blob)
      else rev (take w (drop (nat index) p_blob)))"

text \<open>The ordinates that \<open>k\<close> consecutive calls of \<open>readWKBPointOrd\<close> deliver
  from the cursor \<open>index\<close> on, up to the first call that fails.\<close>

fun point_values ::
  "machine \<Rightarrow> byte list \<Rightarrow> int \<Rightarrow> byte \<Rightarrow> int \<Rightarrow> int \<Rightarrow> nat \<Rightarrow> int \<Rightarrow> double list" where
  "point_values m p_blob n_bytes byteOrder dimension ordinate 0 index = []"
| "point_values m p_blob n_bytes byteOrder dimension ordinate (Suc k) index =
     (case readWKBPointOrd m p_blob n_bytes index byteOrder dimension ordinate uninitialised of
        Inl e \<Rightarrow> []
      | Inr (ok, index, d) \<Rightarrow>
          if ok = 0 then []
          else d # point_values m p_blob n_bytes byteOrder dimension ordinate k index)"

text \<open>The cursor after \<open>k\<close> rings skipped by \<open>skipWKBLineString\<close> from \<open>index\<close>
  on; \<open>None\<close> when one of them cannot be skipped.\<close>

fun skip_rings ::
  "machine \<Rightarrow> byte list \<Rightarrow> int \<Rightarrow> byte \<Rightarrow> int \<Rightarrow> nat \<Rightarrow> int \<Rightarrow> int option" where
  "skip_rings m p_blob n_bytes byteOrder dimension 0 index = Some index"
| "skip_rings m p_blob n_bytes byteOrder dimension (Suc k) index =
     (case skipWKBLineString m p_blob n_bytes index byteOrder dimension of
        Inl e \<Rightarrow> None
      | Inr (ok, index) \<Rightarrow>
          if ok = 0 then None
          else skip_rings m p_blob n_bytes byteOrder dimension k index)"

text \<open>
  The kinds with elements, in the words of the specification.
  \<open>element_tests\<close> lists the results of the emptiness tests of \<open>k\<close> consecutive
  elements, each tested at the cursor that the one before it left; the list
  ends with the first test that fails (a negative return value, or a read
  outside the array).  \<open>elements_verdict\<close> draws the answer from that list: the
  failure, if the list ends with one; otherwise Empty (1) if every element
  tested Empty, and NotEmpty (0) if not, with the cursor behind the last
  element.  \<open>elements_emptiness\<close> is the answer for an element count \<open>numGeoms\<close>
  read just before the cursor \<open>index0\<close>: Empty for a count below 1.
\<close>

fun element_tests ::
  "empty_test \<Rightarrow> machine \<Rightarrow> byte list \<Rightarrow> int \<Rightarrow> byte \<Rightarrow> int \<Rightarrow> nat \<Rightarrow> int
     \<Rightarrow> (error + (int \<times> int)) list" where
  "element_tests geometryEmpty m p_blob n_bytes byteOrder kind 0 index = []"
| "element_tests geometryEmpty m p_blob n_bytes byteOrder kind (Suc k) index =
     (case geometryEmpty m p_blob n_bytes index byteOrder kind of
        Inl e \<Rightarrow> [Inl e]
      | Inr (r, index) \<Rightarrow>
          Inr (r, index) #
            (if r < 0 then []
             else element_tests geometryEmpty m p_blob n_bytes byteOrder kind k index))"

definition test_failed :: "error + (int \<times> int) \<Rightarrow> bool" where
  "test_failed x = (case x of Inl e \<Rightarrow> True | Inr (r, index) \<Rightarrow> r < 0)"

definition tested_empty :: "error + (int \<times> int) \<Rightarrow> bool" where
  "tested_empty x = (case x of Inl e \<Rightarrow> False | Inr (r, index) \<Rightarrow> r = 1)"


text \<open>
  The head of a WKB record as \<open>readWKBGeometryEnv\<close> and \<open>isEmptyWKBGeometry\<close>
  decode it, each part under a name: the byte order in force behind the
  byte-order byte, the dimension and the kind that the type code gives, and the
  cursor behind the optional spatial-reference id.  \<open>isEmptyWKB_dispatch\<close> is the
  \<^verbatim>\<open>switch\<close> of \<open>isEmptyWKBGeometry\<close> with the test of the expected kind before it.
  Lemma \<open>isEmptyWKBGeometry_Suc\<close> states \<open>isEmptyWKBGeometry\<close> in these terms.
\<close>

definition wkb_byteOrder :: "byte \<Rightarrow> byte \<Rightarrow> byte" where
  "wkb_byteOrder newByteOrder byteOrder =
     (if newByteOrder = LITTLE_ENDIAN \<or> newByteOrder = BIG_ENDIAN then newByteOrder
      else byteOrder)"

definition wkb_hasZ :: "int \<Rightarrow> bool" where
  "wkb_hasZ typeInt = (typeInt AND 0x80000000 \<noteq> 0 \<or> (typeInt AND 0xffff) div 1000 = 1
                        \<or> (typeInt AND 0xffff) div 1000 = 3)"

definition wkb_hasM :: "int \<Rightarrow> bool" where
  "wkb_hasM typeInt = (typeInt AND 0x40000000 \<noteq> 0 \<or> (typeInt AND 0xffff) div 1000 = 2
                        \<or> (typeInt AND 0xffff) div 1000 = 3)"

definition wkb_dimension :: "int \<Rightarrow> int" where
  "wkb_dimension typeInt =
     2 + (if wkb_hasZ typeInt then 1 else 0) + (if wkb_hasM typeInt then 1 else 0)"

definition wkb_body :: "int \<Rightarrow> int \<Rightarrow> int" where
  "wkb_body typeInt index = (if typeInt AND 0x20000000 \<noteq> 0 then i32 (index + 4) else index)"

definition wkb_geometryType :: "int \<Rightarrow> int" where
  "wkb_geometryType typeInt = (typeInt AND 0xffff) mod 1000"

definition isEmptyWKB_dispatch ::
  "empty_test \<Rightarrow> machine \<Rightarrow> byte list \<Rightarrow> int \<Rightarrow> int \<Rightarrow> byte \<Rightarrow> int \<Rightarrow> int \<Rightarrow> int
     \<Rightarrow> error + (int \<times> int)" where
  "isEmptyWKB_dispatch geometryEmpty m p_blob n_bytes index byteOrder geometryTypeExpected
     dimension geometryType =
     (if geometryTypeExpected \<noteq> wkbGeometry \<and> geometryTypeExpected \<noteq> geometryType
      then Inr (- 1, index)
      else if geometryType = wkbPoint
      then isEmptyWKBPoint m p_blob n_bytes index byteOrder dimension
      else if geometryType = wkbLineString
      then isEmptyWKBLineString m p_blob n_bytes index byteOrder dimension
      else if geometryType = wkbPolygon
      then isEmptyWKBPolygon m p_blob n_bytes index byteOrder dimension
      else if geometryType = wkbMultiPoint
      then isEmptyWKBMultiPoint_with geometryEmpty m p_blob n_bytes index byteOrder dimension
      else if geometryType = wkbMultiLineString
      then isEmptyWKBMultiLineString_with geometryEmpty m p_blob n_bytes index byteOrder dimension
      else if geometryType = wkbMultiPolygon
      then isEmptyWKBMultiPolygon_with geometryEmpty m p_blob n_bytes index byteOrder dimension
      else if geometryType = wkbGeometryCollection
      then isEmptyWKBGeometryCollection_with geometryEmpty m p_blob n_bytes index byteOrder
             dimension
      else Inr (- 1, index))"





text \<open>
  Two arrays that hold the same geometry in opposite byte orders.
  \<open>swapped p q index w\<close>: the \<open>w\<close> bytes at \<open>index\<close> lie inside \<open>p\<close> and stand in
  \<open>q\<close> in reverse.  \<open>int_at\<close> is the integer a 4-byte field denotes in its
  declared order.  \<open>reenc p q ord index j\<close>: the WKB record that starts at
  \<open>index\<close> in \<open>p\<close> and ends before \<open>j\<close> stands in \<open>q\<close> with its byte-order marker
  flipped and every integer and float of it swapped, and so for the records
  nested in it.  The ordinate \<open>ord\<close> is the one that will be asked for: a Point,
  LineString or Polygon of dimension 2 is admitted for every ordinate but Z.
  \<open>wkb_ordinate\<close> is the ordinate that \<open>readWKBGeometryEnv\<close> goes on with behind
  the type code, and hands to the elements of the record.
\<close>

definition wkb_ordinate :: "int \<Rightarrow> int \<Rightarrow> int" where
  "wkb_ordinate typeInt ordinate =
     (if wkb_dimension typeInt = 3 \<and> ordinate = ord_M then ord_Z else ordinate)"

definition int_at :: "byte list \<Rightarrow> int \<Rightarrow> byte \<Rightarrow> int" where
  "int_at p_blob index byteOrder = i32 (le_value (field p_blob index 4 byteOrder))"

definition swapped :: "byte list \<Rightarrow> byte list \<Rightarrow> int \<Rightarrow> nat \<Rightarrow> bool" where
  "swapped p q index w =
     (0 \<le> index \<and> nat index + w \<le> length p
      \<and> take w (drop (nat index) q) = rev (take w (drop (nat index) p)))"

definition swapped_floats :: "byte list \<Rightarrow> byte list \<Rightarrow> int \<Rightarrow> int \<Rightarrow> bool" where
  "swapped_floats p q index count =
     (\<forall>k. 0 \<le> k \<and> k < count \<longrightarrow> swapped p q (index + 8 * k) 8)"

definition record_head :: "byte list \<Rightarrow> byte list \<Rightarrow> int \<Rightarrow> byte \<Rightarrow> int \<Rightarrow> int \<Rightarrow> bool" where
  "record_head p q index byteOrder typeInt body =
     (peek p index = Inr byteOrder \<and> (byteOrder = LITTLE_ENDIAN \<or> byteOrder = BIG_ENDIAN)
      \<and> peek q index = Inr (opposite byteOrder)
      \<and> swapped p q (index + 1) 4 \<and> typeInt = int_at p (index + 1) byteOrder
      \<and> (typeInt AND 0x20000000 \<noteq> 0 \<longrightarrow> swapped p q (index + 5) 4)
      \<and> body = wkb_body typeInt (index + 5))"

definition reenc_linestring :: "byte list \<Rightarrow> byte list \<Rightarrow> int \<Rightarrow> byte \<Rightarrow> int \<Rightarrow> int \<Rightarrow> bool" where
  "reenc_linestring p q dimension byteOrder index j =
     (swapped p q index 4
      \<and> (if int_at p index byteOrder < 1 then j = index + 4
          else swapped_floats p q (index + 4) (int_at p index byteOrder * dimension)
               \<and> j = index + 4 + 8 * (int_at p index byteOrder * dimension)))"

inductive reenc_rings :: "byte list \<Rightarrow> byte list \<Rightarrow> int \<Rightarrow> byte \<Rightarrow> nat \<Rightarrow> int \<Rightarrow> int \<Rightarrow> bool"
  for p q dimension byteOrder where
  no_rings: "reenc_rings p q dimension byteOrder 0 index index"
| ring: "reenc_linestring p q dimension byteOrder index j \<Longrightarrow>
         reenc_rings p q dimension byteOrder k j j' \<Longrightarrow>
         reenc_rings p q dimension byteOrder (Suc k) index j'"

inductive reenc :: "byte list \<Rightarrow> byte list \<Rightarrow> int \<Rightarrow> int \<Rightarrow> int \<Rightarrow> bool"
  and reenc_elems :: "byte list \<Rightarrow> byte list \<Rightarrow> int \<Rightarrow> nat \<Rightarrow> int \<Rightarrow> int \<Rightarrow> bool"
  for p q where
  point:
    "record_head p q index byteOrder typeInt body \<Longrightarrow>
     wkb_geometryType typeInt = wkbPoint \<Longrightarrow>
     \<not> (wkb_dimension typeInt = 2 \<and> ord = ord_Z) \<Longrightarrow>
     swapped_floats p q body (wkb_dimension typeInt) \<Longrightarrow>
     j = body + 8 * wkb_dimension typeInt \<Longrightarrow>
     reenc p q ord index j"
| linestring:
    "record_head p q index byteOrder typeInt body \<Longrightarrow>
     wkb_geometryType typeInt = wkbLineString \<Longrightarrow>
     \<not> (wkb_dimension typeInt = 2 \<and> ord = ord_Z) \<Longrightarrow>
     reenc_linestring p q (wkb_dimension typeInt) byteOrder body j \<Longrightarrow>
     reenc p q ord index j"
| polygon:
    "record_head p q index byteOrder typeInt body \<Longrightarrow>
     wkb_geometryType typeInt = wkbPolygon \<Longrightarrow>
     \<not> (wkb_dimension typeInt = 2 \<and> ord = ord_Z) \<Longrightarrow>
     swapped p q body 4 \<Longrightarrow>
     reenc_rings p q (wkb_dimension typeInt) byteOrder (nat (int_at p body byteOrder))
       (body + 4) j \<Longrightarrow>
     reenc p q ord index j"
| elements:
    "record_head p q index byteOrder typeInt body \<Longrightarrow>
     wkb_geometryType typeInt = wkbMultiPoint \<or> wkb_geometryType typeInt = wkbMultiLineString
       \<or> wkb_geometryType typeInt = wkbMultiPolygon
       \<or> wkb_geometryType typeInt = wkbGeometryCollection \<Longrightarrow>
     swapped p q body 4 \<Longrightarrow>
     reenc_elems p q (wkb_ordinate typeInt ord) (nat (int_at p body byteOrder)) (body + 4) j \<Longrightarrow>
     reenc p q ord index j"
| no_elems: "reenc_elems p q ord 0 index index"
| elem: "reenc p q ord index j \<Longrightarrow> reenc_elems p q ord k j j' \<Longrightarrow>
         reenc_elems p q ord (Suc k) index j'"

text \<open>\<open>agree_at x y j\<close>: the emptiness tests \<open>x\<close> and \<open>y\<close> give the same result, and
  a result that is no failure leaves the cursor at \<open>j\<close>.  \<open>agree_env\<close> is the same
  for the envelope readers.\<close>

definition agree_at :: "error + (int \<times> int) \<Rightarrow> error + (int \<times> int) \<Rightarrow> int \<Rightarrow> bool" where
  "agree_at x y j = (x = y \<and> (\<forall>r c. y = Inr (r, c) \<and> 0 \<le> r \<longrightarrow> c = j))"

definition agree_env ::
  "error + (int \<times> int \<times> double) \<Rightarrow> error + (int \<times> int \<times> double) \<Rightarrow> int \<Rightarrow> bool" where
  "agree_env x y j = (x = y \<and> (\<forall>ok c d. y = Inr (ok, c, d) \<and> ok \<noteq> 0 \<longrightarrow> c = j))"

text \<open>\<open>readWKB_dispatch\<close> is the \<^verbatim>\<open>switch\<close> of \<open>readWKBGeometryEnv\<close> with the test of
  the expected kind before it and the \<^verbatim>\<open>return 1\<close> behind it.  Lemma
  \<open>readWKBGeometryEnv_Suc\<close> states \<open>readWKBGeometryEnv\<close> in these terms.\<close>

definition readWKB_dispatch ::
  "env_reader \<Rightarrow> machine \<Rightarrow> byte list \<Rightarrow> int \<Rightarrow> int \<Rightarrow> byte \<Rightarrow> int \<Rightarrow> int \<Rightarrow> int \<Rightarrow> int \<Rightarrow> int
     \<Rightarrow> double \<Rightarrow> error + (int \<times> int \<times> double)" where
  "readWKB_dispatch geometryEnv m p_blob n_bytes index byteOrder ordinate maxmin
     geometryTypeExpected dimension geometryType res =
     (if geometryTypeExpected \<noteq> wkbGeometry \<and> geometryTypeExpected \<noteq> geometryType
      then Inr (0, index, res)
      else bnd
        (if geometryType = wkbPoint
         then readWKBPointOrd m p_blob n_bytes index byteOrder dimension ordinate res
         else if geometryType = wkbLineString
         then readWKBLineStringEnv m p_blob n_bytes index byteOrder dimension ordinate maxmin res
         else if geometryType = wkbPolygon
         then readWKBPolygonEnv m p_blob n_bytes index byteOrder dimension ordinate maxmin res
         else if geometryType = wkbMultiPoint
         then readWKBMultiPointEnv_with geometryEnv m p_blob n_bytes index byteOrder dimension
                ordinate maxmin res
         else if geometryType = wkbMultiLineString
         then readWKBMultiLineStringEnv_with geometryEnv m p_blob n_bytes index byteOrder
                dimension ordinate maxmin res
         else if geometryType = wkbMultiPolygon
         then readWKBMultiPolygonEnv_with geometryEnv m p_blob n_bytes index byteOrder dimension
                ordinate maxmin res
         else if geometryType = wkbGeometryCollection
         then readWKBGeometryCollectionEnv_with geometryEnv m p_blob n_bytes index byteOrder
                dimension ordinate maxmin res
         else Inr (0, index, res))
        (\<lambda>(ok, index, res). Inr (if ok = 0 then 0 else 1, index, res)))"

text \<open>
  The header of a GeoPackage blob in the other byte order: the two magic bytes
  and the version as they are, and the byte-order bit of the flags flipped.
  \<open>gpkg_body\<close> is the cursor at which the WKB body starts, as \<open>skipGPKGHeader\<close>
  finds it; \<open>None\<close> for a header that it rejects.
\<close>

definition header_flipped :: "byte list \<Rightarrow> byte list \<Rightarrow> int \<Rightarrow> bool" where
  "header_flipped p q index =
     (0 \<le> index \<and> index + 4 \<le> int (length p)
      \<and> q ! nat index = p ! nat index
      \<and> q ! nat (index + 1) = p ! nat (index + 1)
      \<and> q ! nat (index + 2) = p ! nat (index + 2)
      \<and> q ! nat (index + 3) = p ! nat (index + 3) XOR GPKG_BYTEORDER_BIT)"

definition gpkg_body :: "byte list \<Rightarrow> int \<Rightarrow> int option" where
  "gpkg_body p_blob index =
     (case skipGPKGHeader p_blob (int (length p_blob)) index of
        Inl e \<Rightarrow> None
      | Inr (ok, body) \<Rightarrow> if ok = 0 then None else Some body)"

text \<open>
  The rings of a Polygon in the words of the specification, taken from the
  bytes of the array in unbounded arithmetic.  A ring is its point count, a
  4-byte integer in the declared order, followed by that many points of
  \<open>dimension\<close> floats.  \<open>walk_rings\<close> follows \<open>k\<close> rings from \<open>index\<close> on and
  stops at the first that is not a ring of at least one point inside the first
  \<open>n_bytes\<close> bytes:
  \<open>AllRings j\<close>, every ring has a point count of at least 1 and fits, and \<open>j\<close>
  is the end of the last;
  \<open>MalformedRing i\<close>, the ring at \<open>i\<close> has a point count below 1, or its points
  do not fit;
  \<open>RingOutside i\<close>, the point count of the ring at \<open>i\<close> does not lie inside the
  array;
  \<open>RingTooLong i\<close>, the end of the ring at \<open>i\<close> is beyond \<^verbatim>\<open>INT_MAX\<close>, so that
  the \<^verbatim>\<open>int\<close> arithmetic of the source does not compute it.
\<close>

datatype rings = AllRings int | MalformedRing int | RingOutside int | RingTooLong int

fun walk_rings :: "byte list \<Rightarrow> int \<Rightarrow> byte \<Rightarrow> int \<Rightarrow> nat \<Rightarrow> int \<Rightarrow> rings" where
  "walk_rings p_blob n_bytes byteOrder dimension 0 index = AllRings index"
| "walk_rings p_blob n_bytes byteOrder dimension (Suc k) index =
     (if int (length p_blob) < index + 4 then RingOutside index
      else if int_at p_blob index byteOrder < 1 then MalformedRing index
      else if 2147483647 < index + 4 + int_at p_blob index byteOrder * dimension * 8
      then RingTooLong index
      else if n_bytes < index + 4 + int_at p_blob index byteOrder * dimension * 8
      then MalformedRing index
      else walk_rings p_blob n_bytes byteOrder dimension k
             (index + 4 + int_at p_blob index byteOrder * dimension * 8))"

section \<open>Sample geometries\<close>

text \<open>Little-endian encodings used to run the model: the floats 1.0, 2.0, 3.0,
  7.0 and a NaN, and geometries built from them.\<close>

definition f64_0 :: "byte list" where "f64_0 = [0, 0, 0, 0, 0, 0, 0, 0]"
definition f64_1 :: "byte list" where "f64_1 = [0, 0, 0, 0, 0, 0, 0xF0, 0x3F]"
definition f64_2 :: "byte list" where "f64_2 = [0, 0, 0, 0, 0, 0, 0, 0x40]"
definition f64_3 :: "byte list" where "f64_3 = [0, 0, 0, 0, 0, 0, 0x08, 0x40]"
definition f64_7 :: "byte list" where "f64_7 = [0, 0, 0, 0, 0, 0, 0x1C, 0x40]"
definition f64_nan :: "byte list" where "f64_nan = [0, 0, 0, 0, 0, 0, 0xF8, 0x7F]"

text \<open>The body of a LineString (count, then points): (3.0, 0.0), (1.0, 0.0).\<close>

definition linestring_3_1 :: "byte list" where
  "linestring_3_1 = [2, 0, 0, 0] @ f64_3 @ f64_0 @ f64_1 @ f64_0"

text \<open>The body of a LineString with the single point (NaN, 0.0).\<close>

definition linestring_nan :: "byte list" where
  "linestring_nan = [1, 0, 0, 0] @ f64_nan @ f64_0"

text \<open>The body of a Polygon with two rings (count, then rings): an exterior
  ring of zero points and an interior ring with the point (1.0, 2.0).\<close>

definition polygon_empty_ring_and_hole :: "byte list" where
  "polygon_empty_ring_and_hole = [2, 0, 0, 0] @ [0, 0, 0, 0] @ [1, 0, 0, 0] @ f64_1 @ f64_2"

text \<open>The body of a Polygon with two rings of one point each.\<close>

definition polygon_two_rings :: "byte list" where
  "polygon_two_rings = [2, 0, 0, 0] @ [1, 0, 0, 0] @ f64_1 @ f64_2 @ [1, 0, 0, 0] @ f64_3 @ f64_7"

text \<open>WKB records, each with its byte-order byte and type code: the 2-D Point
  (1.0, 2.0), the Point Z (1.0, 2.0, 3.0) of type code 1001, and the 2-D
  LineString without points.\<close>

definition wkb_point_2d :: "byte list" where
  "wkb_point_2d = [1] @ [1, 0, 0, 0] @ f64_1 @ f64_2"

definition wkb_point_z :: "byte list" where
  "wkb_point_z = [1] @ [0xE9, 0x03, 0, 0] @ f64_1 @ f64_2 @ f64_3"

definition wkb_linestring_empty :: "byte list" where
  "wkb_linestring_empty = [1] @ [2, 0, 0, 0] @ [0, 0, 0, 0]"

text \<open>GeoPackage blobs: magic, version, flags, spatial-reference id, envelope,
  WKB body.  The flags are \<^verbatim>\<open>0x01\<close> for little-endian without envelope, \<^verbatim>\<open>0x03\<close>
  with an XY envelope, \<^verbatim>\<open>0x05\<close> with an XYZ envelope, and \<^verbatim>\<open>0x11\<close> for the empty
  flag set without envelope.\<close>

definition gpkg_point_2d :: "byte list" where
  "gpkg_point_2d = [0x47, 0x50, 0, 0x01] @ [0, 0, 0, 0] @ wkb_point_2d"

definition gpkg_point_2d_flagged_empty :: "byte list" where
  "gpkg_point_2d_flagged_empty = [0x47, 0x50, 0, 0x11] @ [0, 0, 0, 0] @ wkb_point_2d"

definition gpkg_linestring_empty :: "byte list" where
  "gpkg_linestring_empty = [0x47, 0x50, 0, 0x01] @ [0, 0, 0, 0] @ wkb_linestring_empty"

text \<open>The point (1.0, 1.0) with the envelope 1.0, 1.0, 1.0, 1.0: every extreme
  of the body is 1.0, whichever slot of the envelope holds it.\<close>

definition gpkg_point_1_1 :: "byte list" where
  "gpkg_point_1_1 = [0x47, 0x50, 0, 0x03] @ [0, 0, 0, 0] @ f64_1 @ f64_1 @ f64_1 @ f64_1
                      @ [1] @ [1, 0, 0, 0] @ f64_1 @ f64_1"

text \<open>An XY envelope holding the floats 1.0, 2.0, 3.0, 7.0 in this order, before
  the point (1.0, 2.0); and a header with an XYZ envelope of zeros.\<close>

definition gpkg_envelope_1_2_3_7 :: "byte list" where
  "gpkg_envelope_1_2_3_7 = [0x47, 0x50, 0, 0x03] @ [0, 0, 0, 0] @ f64_1 @ f64_2 @ f64_3 @ f64_7
                             @ wkb_point_2d"

definition gpkg_header_xyz :: "byte list" where
  "gpkg_header_xyz = [0x47, 0x50, 0, 0x05] @ [0, 0, 0, 0]
                       @ f64_0 @ f64_0 @ f64_0 @ f64_0 @ f64_0 @ f64_0"



text \<open>A GeometryCollection of the 2-D Point (1.0, 2.0) and the Point Z
  (1.0, 2.0, 3.0), little-endian, and the same collection big-endian: every
  byte-order byte 0, every integer and float with its bytes reversed.  Then
  the two as GeoPackage blobs without envelope, the header of the second
  big-endian as well (flags \<^verbatim>\<open>0x00\<close>).\<close>

definition wkb_collection_2d_z :: "byte list" where
  "wkb_collection_2d_z = [1] @ [7, 0, 0, 0] @ [2, 0, 0, 0] @ wkb_point_2d @ wkb_point_z"

definition wkb_collection_2d_z_swapped :: "byte list" where
  "wkb_collection_2d_z_swapped = [0] @ [0, 0, 0, 7] @ [0, 0, 0, 2]
     @ ([0] @ [0, 0, 0, 1] @ rev f64_1 @ rev f64_2)
     @ ([0] @ [0, 0, 0x03, 0xE9] @ rev f64_1 @ rev f64_2 @ rev f64_3)"

definition gpkg_collection_2d_z :: "byte list" where
  "gpkg_collection_2d_z = [0x47, 0x50, 0, 0x01] @ [0, 0, 0, 0] @ wkb_collection_2d_z"

definition gpkg_collection_2d_z_swapped :: "byte list" where
  "gpkg_collection_2d_z_swapped =
     [0x47, 0x50, 0, 0x00] @ [0, 0, 0, 0] @ wkb_collection_2d_z_swapped"

text \<open>The body of a Polygon with two rings that each announce \<^verbatim>\<open>0x10000000\<close>
  points, and nothing behind the two point counts.\<close>

definition polygon_two_long_rings :: "byte list" where
  "polygon_two_long_rings = [2, 0, 0, 0] @ [0, 0, 0, 0x10] @ [0, 0, 0, 0x10]"

section \<open>Basic facts\<close>

lemma bnd_Inl [simp]: "bnd (Inl e) f = Inl e"
  by (simp add: bnd_def)

lemma bnd_Inr [simp]: "bnd (Inr x) f = f x"
  by (simp add: bnd_def)

lemma bnd_eq_Inr:
  "bnd r f = Inr y \<longleftrightarrow> (\<exists>x. r = Inr x \<and> f x = Inr y)"
  by (cases r) auto

lemma i32_id: "- 2147483648 \<le> x \<Longrightarrow> x \<le> 2147483647 \<Longrightarrow> i32 x = x"
  by (simp add: i32_def)

lemma i32_range: "- 2147483648 \<le> i32 x \<and> i32 x \<le> 2147483647"
  unfolding i32_def
  using pos_mod_bound [of 4294967296 "x + 2147483648"]
    pos_mod_sign [of 4294967296 "x + 2147483648"]
  by linarith

lemma i32_idem [simp]: "i32 (i32 x) = i32 x"
  using i32_range [of x] by (simp add: i32_id)

lemma i32_mod: "i32 x mod 4294967296 = x mod 4294967296"
  by (simp add: i32_def mod_simps)

lemma i32_cong: "i32 x = i32 y \<longleftrightarrow> x mod 4294967296 = y mod 4294967296"
proof
  assume "i32 x = i32 y"
  then have "i32 x mod 4294967296 = i32 y mod 4294967296" by simp
  then show "x mod 4294967296 = y mod 4294967296" by (simp only: i32_mod)
next
  assume "x mod 4294967296 = y mod 4294967296"
  then have "(x + 2147483648) mod 4294967296 = (y + 2147483648) mod 4294967296"
    by (rule mod_add_cong) simp
  then show "i32 x = i32 y" by (simp add: i32_def)
qed

lemma i32_arith:
  "i32 (i32 a + b) = i32 (a + b)" "i32 (a + i32 b) = i32 (a + b)"
  "i32 (i32 a - b) = i32 (a - b)" "i32 (a - i32 b) = i32 (a - b)"
  "i32 (i32 a * b) = i32 (a * b)" "i32 (a * i32 b) = i32 (a * b)"
  unfolding i32_cong
  by (metis i32_mod mod_add_left_eq, metis i32_mod mod_add_right_eq,
      metis i32_mod mod_diff_left_eq, metis i32_mod mod_diff_right_eq,
      metis i32_mod mod_mult_left_eq, metis i32_mod mod_mult_right_eq)

section \<open>Reading consecutive bytes\<close>

lemma peeks_run:
  "nat i + w \<le> length p \<Longrightarrow> 0 \<le> i \<Longrightarrow>
   peeks p (map (\<lambda>k. i + int k) [0..<w]) = Inr (take w (drop (nat i) p))"
proof (induction w arbitrary: i)
  case 0
  then show ?case by simp
next
  case (Suc w)
  have split: "map (\<lambda>k. i + int k) [0..<Suc w] = i # map (\<lambda>k. (i + 1) + int k) [0..<w]"
    by (simp add: upt_conv_Cons map_Suc_upt [symmetric] del: upt_Suc)
  have here: "peek p i = Inr (p ! nat i)"
    using Suc.prems by (simp add: peek_def)
  have rest: "peeks p (map (\<lambda>k. (i + 1) + int k) [0..<w]) = Inr (take w (drop (nat (i + 1)) p))"
    using Suc.prems by (intro Suc.IH) auto
  have "take (Suc w) (drop (nat i) p) = p ! nat i # take w (drop (Suc (nat i)) p)"
    using Suc.prems by (simp add: Cons_nth_drop_Suc [symmetric])
  moreover have "nat (i + 1) = Suc (nat i)"
    using Suc.prems by simp
  ultimately show ?case
    unfolding split using here rest by simp
qed

lemma peeks_append:
  "peeks p (js @ ks) = bnd (peeks p js) (\<lambda>bs. bnd (peeks p ks) (\<lambda>cs. Inr (bs @ cs)))"
  by (induction js) (auto simp: bnd_def split: sum.splits)

lemma peeks_rev: "peeks p js = Inr bs \<Longrightarrow> peeks p (rev js) = Inr (rev bs)"
proof (induction js arbitrary: bs)
  case Nil
  then show ?case by simp
next
  case (Cons j js)
  then show ?case
    by (auto simp: peeks_append bnd_def split: sum.splits)
qed

lemma peeks_rrun:
  "nat i + w \<le> length p \<Longrightarrow> 0 \<le> i \<Longrightarrow>
   peeks p (rev (map (\<lambda>k. i + int k) [0..<w])) = Inr (rev (take w (drop (nat i) p)))"
  by (rule peeks_rev) (rule peeks_run)

lemma run4: "[i, i + 1, i + 2, i + 3] = map (\<lambda>k. i + int k) [0..<4]"
  by (simp add: upt_rec)

lemma run8:
  "[i, i + 1, i + 2, i + 3, i + 4, i + 5, i + 6, i + 7] = map (\<lambda>k. i + int k) [0..<8]"
  by (simp add: upt_rec)

lemma rrun4:
  "0 \<le> i \<Longrightarrow> i + 4 \<le> 2147483647 \<Longrightarrow>
   [i32 (i + 3), i32 (i + 2), i32 (i + 1), i] = rev (map (\<lambda>k. i + int k) [0..<4])"
  by (simp add: upt_rec i32_id)

lemma rrun8:
  "0 \<le> i \<Longrightarrow> i + 8 \<le> 2147483647 \<Longrightarrow>
   [i32 (i + 7), i32 (i + 6), i32 (i + 5), i32 (i + 4), i32 (i + 3), i32 (i + 2), i32 (i + 1), i]
     = rev (map (\<lambda>k. i + int k) [0..<8])"
  by (simp add: upt_rec i32_id)

text \<open>What the two readers return when the field lies inside the array: the
  bytes as they stand when the declared order is the machine's, reversed
  otherwise.\<close>

lemma getInt_raw:
  assumes "0 \<le> index" "index + 4 \<le> int (length p_blob)" "index + 4 \<le> 2147483647"
  shows "getInt m p_blob index byteOrder =
           Inr (load_int m (if byteOrder = endian m then take 4 (drop (nat index) p_blob)
                            else rev (take 4 (drop (nat index) p_blob))), index + 4)"
proof -
  have b: "nat index + 4 \<le> length p_blob" using assms by linarith
  show ?thesis
    by (simp add: getInt_def run4 rrun4 [OF assms(1,3)] peeks_run [OF b assms(1)]
        peeks_rrun [OF b assms(1)] i32_id assms del: upt_Suc)
qed

lemma getDouble_raw:
  assumes "0 \<le> index" "index + 8 \<le> int (length p_blob)" "index + 8 \<le> 2147483647"
  shows "getDouble m p_blob index byteOrder =
           Inr (load_double m (if byteOrder = endian m then take 8 (drop (nat index) p_blob)
                               else rev (take 8 (drop (nat index) p_blob))), index + 8)"
proof -
  have b: "nat index + 8 \<le> length p_blob" using assms by linarith
  show ?thesis
    by (simp add: getDouble_def run8 rrun8 [OF assms(1,3)] peeks_run [OF b assms(1)]
        peeks_rrun [OF b assms(1)] i32_id assms del: upt_Suc)
qed

text \<open>For a declared order of 0 or 1 the value does not depend on the machine.\<close>

lemma in_declared_order:
  assumes "byteOrder = LITTLE_ENDIAN \<or> byteOrder = BIG_ENDIAN"
  shows "in_memory_order m (if byteOrder = endian m then take w (drop (nat index) p_blob)
                            else rev (take w (drop (nat index) p_blob)))
           = field p_blob index w byteOrder"
  using assms by (cases m) (auto simp: in_memory_order_def endian_def field_def)

lemma getInt_value:
  assumes "byteOrder = LITTLE_ENDIAN \<or> byteOrder = BIG_ENDIAN" "0 \<le> index"
    "index + 4 \<le> int (length p_blob)" "int (length p_blob) \<le> 2147483647"
  shows "getInt m p_blob index byteOrder =
           Inr (i32 (le_value (field p_blob index 4 byteOrder)), index + 4)"
proof -
  have "index + 4 \<le> 2147483647" using assms by linarith
  then show ?thesis
    using getInt_raw [OF assms(2,3), of m byteOrder] in_declared_order [OF assms(1), of m 4 index p_blob]
    by (simp add: load_int_def)
qed

lemma getDouble_value:
  assumes "byteOrder = LITTLE_ENDIAN \<or> byteOrder = BIG_ENDIAN" "0 \<le> index"
    "index + 8 \<le> int (length p_blob)" "int (length p_blob) \<le> 2147483647"
  shows "getDouble m p_blob index byteOrder =
           Inr (word_of_int (le_value (field p_blob index 8 byteOrder)), index + 8)"
proof -
  have "index + 8 \<le> 2147483647" using assms by linarith
  then show ?thesis
    using getDouble_raw [OF assms(2,3), of m byteOrder] in_declared_order [OF assms(1), of m 8 index p_blob]
    by (simp add: load_double_def)
qed

lemma length_swap_field [simp]: "length (swap_field p n w) = length p"
  by (auto simp: swap_field_def)

lemma opposite_order:
  "byteOrder = LITTLE_ENDIAN \<or> byteOrder = BIG_ENDIAN \<Longrightarrow>
   opposite byteOrder = LITTLE_ENDIAN \<or> opposite byteOrder = BIG_ENDIAN"
  by (auto simp: opposite_def)

lemma field_swap_field:
  assumes "byteOrder = LITTLE_ENDIAN \<or> byteOrder = BIG_ENDIAN" "nat index + w \<le> length p_blob"
  shows "field (swap_field p_blob (nat index) w) index w (opposite byteOrder)
           = field p_blob index w byteOrder"
proof -
  have "take w (drop (nat index) (swap_field p_blob (nat index) w))
          = rev (take w (drop (nat index) p_blob))"
    using assms(2) by (simp add: swap_field_def)
  then show ?thesis
    using assms(1) by (auto simp: field_def opposite_def)
qed

section \<open>Byte order\<close>

text \<open>
  A 4-byte integer or an 8-byte float, re-encoded in the other byte
  order (its bytes reversed) and read under the other declared order, is read
  by \<open>getInt\<close> and \<open>getDouble\<close> as the same value and leaves the same cursor as
  the original field read under the original order; that value is the one the
  field's bytes denote in the declared order, whatever the machine's own order.
\<close>

theorem byte_order_reencoding:
  assumes "byteOrder = LITTLE_ENDIAN \<or> byteOrder = BIG_ENDIAN"
    and "0 \<le> index" and "int (length p_blob) \<le> 2147483647"
  shows "(index + 4 \<le> int (length p_blob) \<longrightarrow>
            getInt m (swap_field p_blob (nat index) 4) index (opposite byteOrder)
              = getInt m p_blob index byteOrder
          \<and> getInt m p_blob index byteOrder
              = Inr (i32 (le_value (field p_blob index 4 byteOrder)), index + 4))
       \<and> (index + 8 \<le> int (length p_blob) \<longrightarrow>
            getDouble m (swap_field p_blob (nat index) 8) index (opposite byteOrder)
              = getDouble m p_blob index byteOrder
          \<and> getDouble m p_blob index byteOrder
              = Inr (word_of_int (le_value (field p_blob index 8 byteOrder)), index + 8))"
proof (intro conjI impI)
  assume b: "index + 4 \<le> int (length p_blob)"
  then have n: "nat index + 4 \<le> length p_blob" using assms(2) by linarith
  show v: "getInt m p_blob index byteOrder
             = Inr (i32 (le_value (field p_blob index 4 byteOrder)), index + 4)"
    by (rule getInt_value [OF assms(1,2) b assms(3)])
  have "getInt m (swap_field p_blob (nat index) 4) index (opposite byteOrder)
          = Inr (i32 (le_value (field (swap_field p_blob (nat index) 4) index 4
                   (opposite byteOrder))), index + 4)"
    by (rule getInt_value [OF opposite_order [OF assms(1)] assms(2)]) (use b assms(3) in simp_all)
  then show "getInt m (swap_field p_blob (nat index) 4) index (opposite byteOrder)
               = getInt m p_blob index byteOrder"
    by (simp add: v field_swap_field [OF assms(1) n])
next
  assume b: "index + 8 \<le> int (length p_blob)"
  then have n: "nat index + 8 \<le> length p_blob" using assms(2) by linarith
  show v: "getDouble m p_blob index byteOrder
             = Inr (word_of_int (le_value (field p_blob index 8 byteOrder)), index + 8)"
    by (rule getDouble_value [OF assms(1,2) b assms(3)])
  have "getDouble m (swap_field p_blob (nat index) 8) index (opposite byteOrder)
          = Inr (word_of_int (le_value (field (swap_field p_blob (nat index) 8) index 8
                   (opposite byteOrder))), index + 8)"
    by (rule getDouble_value [OF opposite_order [OF assms(1)] assms(2)]) (use b assms(3) in simp_all)
  then show "getDouble m (swap_field p_blob (nat index) 8) index (opposite byteOrder)
               = getDouble m p_blob index byteOrder"
    by (simp add: v field_swap_field [OF assms(1) n])
qed

text \<open>The integer 258 and the float 1.0 in one array, little-endian; read on a
  big-endian machine.\<close>

theorem byte_order_reencoding_witness:
  "getInt BigEndianCPU (swap_field [2, 1, 0, 0, 0, 0, 0xF0, 0x3F] (nat 0) 4) 0 (opposite LITTLE_ENDIAN)
     = getInt BigEndianCPU [2, 1, 0, 0, 0, 0, 0xF0, 0x3F] 0 LITTLE_ENDIAN
   \<and> getInt BigEndianCPU [2, 1, 0, 0, 0, 0, 0xF0, 0x3F] 0 LITTLE_ENDIAN = Inr (258, 4)
   \<and> getDouble BigEndianCPU (swap_field [2, 1, 0, 0, 0, 0, 0xF0, 0x3F] (nat 0) 8) 0
        (opposite LITTLE_ENDIAN)
     = getDouble BigEndianCPU [2, 1, 0, 0, 0, 0, 0xF0, 0x3F] 0 LITTLE_ENDIAN
   \<and> getDouble BigEndianCPU [2, 1, 0, 0, 0, 0, 0xF0, 0x3F] 0 LITTLE_ENDIAN
     = Inr (0x3FF0000000000102, 8)"
  using byte_order_reencoding [of LITTLE_ENDIAN 0 "[2, 1, 0, 0, 0, 0, 0xF0, 0x3F]" BigEndianCPU]
  by (simp add: field_def i32_def)

section \<open>Reading one ordinate of a point\<close>

text \<open>
  Claim C10, as amended.  Let \<open>n_bytes\<close> be the length of the array, the cursor
  non-negative, the dimension 2, 3 or 4 and \<open>0 \<le> ordinate < dimension\<close>, and let
  \<open>index + dimension * 8\<close> not exceed the largest \<^verbatim>\<open>int\<close>.  Then
  \<open>readWKBPointOrd\<close> either returns 0 with the cursor and \<^verbatim>\<open>*res\<close> unchanged,
  exactly when the block of \<open>dimension * 8\<close> bytes does not fit, or it returns 1
  with the cursor exactly \<open>dimension * 8\<close> further and \<^verbatim>\<open>*res\<close> the float held by
  the 8 bytes at \<open>index + ordinate * 8\<close>, which lie inside the array.
\<close>

theorem readWKBPointOrd_inside_buffer:
  assumes "n_bytes = int (length p_blob)" and "0 \<le> index"
    and "dimension = 2 \<or> dimension = 3 \<or> dimension = 4"
    and "0 \<le> ordinate" and "ordinate < dimension"
    and "index + dimension * 8 \<le> 2147483647"
  shows "(n_bytes < index + dimension * 8
          \<and> readWKBPointOrd m p_blob n_bytes index byteOrder dimension ordinate res
              = Inr (0, index, res))
       \<or> (index + dimension * 8 \<le> n_bytes
          \<and> nat (index + ordinate * 8) + 8 \<le> length p_blob
          \<and> readWKBPointOrd m p_blob n_bytes index byteOrder dimension ordinate res
              = Inr (1, index + dimension * 8,
                     load_double m
                       (if byteOrder = endian m
                        then take 8 (drop (nat (index + ordinate * 8)) p_blob)
                        else rev (take 8 (drop (nat (index + ordinate * 8)) p_blob)))))"
proof (cases "n_bytes < index + dimension * 8")
  case True
  have "i32 (index + dimension * 8) = index + dimension * 8"
    using assms by (intro i32_id) auto
  then show ?thesis
    using True by (simp add: readWKBPointOrd_def)
next
  case False
  have whole: "i32 (index + dimension * 8) = index + dimension * 8"
    using assms by (intro i32_id) auto
  have start: "i32 (index + ordinate * 8) = index + ordinate * 8"
    using assms by (intro i32_id) auto
  have fits: "index + ordinate * 8 + 8 \<le> int (length p_blob)"
    using False assms by auto
  have small: "index + ordinate * 8 + 8 \<le> 2147483647"
    using assms by auto
  have nonneg: "0 \<le> index + ordinate * 8"
    using assms by auto
  have stop: "i32 (index + ordinate * 8 + 8 + (dimension - ordinate - 1) * 8)
                = index + dimension * 8"
    using assms by (subst i32_id) auto
  have inside: "nat (index + ordinate * 8) + 8 \<le> length p_blob"
    using fits nonneg by linarith
  show ?thesis
    using False inside
    by (simp add: readWKBPointOrd_def whole start stop
        getDouble_raw [OF nonneg fits small, of m byteOrder])
qed

text \<open>The point (1.0, 2.0), little-endian, as the whole array; its second
  ordinate is 2.0.\<close>

theorem readWKBPointOrd_inside_buffer_witness:
  "(16::int) = int (length [0, 0, 0, 0, 0, 0, 0xF0, 0x3F, 0, 0, 0, 0, 0, 0, 0, 0x40 :: byte])
   \<and> readWKBPointOrd LittleEndianCPU [0, 0, 0, 0, 0, 0, 0xF0, 0x3F, 0, 0, 0, 0, 0, 0, 0, 0x40]
         16 0 LITTLE_ENDIAN 2 ord_Y 0
       = Inr (1, 16, 0x4000000000000000)"
  using readWKBPointOrd_inside_buffer
    [of 16 "[0, 0, 0, 0, 0, 0, 0xF0, 0x3F, 0, 0, 0, 0, 0, 0, 0, 0x40]" 0 2 ord_Y
      LittleEndianCPU LITTLE_ENDIAN 0]
  by (simp add: endian_def load_double_def in_memory_order_def)

text \<open>
  Without the bound on \<open>index + dimension * 8\<close> the claim fails: for the empty
  array and the cursor 2147483640 the sum \<^verbatim>\<open>*index + (dimension * 8)\<close> wraps to
  a negative number, the test against \<^verbatim>\<open>n_bytes\<close> lets the read through, and the
  read is outside the array.
\<close>

theorem readWKBPointOrd_overflow_counterexample:
  "(0::int) = int (length ([] :: byte list)) \<and> (0::int) \<le> 2147483640
   \<and> readWKBPointOrd LittleEndianCPU [] 0 2147483640 LITTLE_ENDIAN 2 ord_X 0 = Inl OutOfBounds
   \<and> readWKBPointOrd LittleEndianCPU [] 0 2147483640 LITTLE_ENDIAN 2 ord_X 0
       \<noteq> Inr (0, 2147483640, 0)
   \<and> (\<forall>d. readWKBPointOrd LittleEndianCPU [] 0 2147483640 LITTLE_ENDIAN 2 ord_X 0
       \<noteq> Inr (1, 2147483640 + 2 * 8, d))"
  by (simp add: readWKBPointOrd_def i32_def getDouble_def endian_def peek_def)

section \<open>The envelope of a LineString\<close>

text \<open>The old content of \<^verbatim>\<open>*res\<close> matters only when \<open>readWKBPointOrd\<close> fails.\<close>

lemma readWKBPointOrd_res:
  "readWKBPointOrd m p_blob n_bytes index byteOrder dimension ordinate res =
     (case readWKBPointOrd m p_blob n_bytes index byteOrder dimension ordinate res' of
        Inl e \<Rightarrow> Inl e
      | Inr (ok, index', d) \<Rightarrow> Inr (ok, index', if ok = 0 then res else d))"
  by (auto simp: readWKBPointOrd_def bnd_def split: sum.splits)

lemma readWKBLineStringEnv_loop_fold:
  "readWKBLineStringEnv_loop m p_blob n_bytes byteOrder dimension ordinate maxmin k index res res2
     = Inr (1, index', r) \<Longrightarrow>
   length (point_values m p_blob n_bytes byteOrder dimension ordinate k index) = k
   \<and> r = foldl (\<lambda>acc v. keep_extreme maxmin v acc) res
           (point_values m p_blob n_bytes byteOrder dimension ordinate k index)"
proof (induction k arbitrary: index res res2)
  case 0
  then show ?case by simp
next
  case (Suc k)
  from Suc.prems obtain ok i1 d where
    step: "readWKBPointOrd m p_blob n_bytes index byteOrder dimension ordinate res2 = Inr (ok, i1, d)"
    and ok: "ok \<noteq> 0"
    and rest: "readWKBLineStringEnv_loop m p_blob n_bytes byteOrder dimension ordinate maxmin k i1
                 (keep_extreme maxmin d res) d = Inr (1, index', r)"
    by (auto simp: bnd_eq_Inr split: if_splits)
  have first: "readWKBPointOrd m p_blob n_bytes index byteOrder dimension ordinate uninitialised
                 = Inr (ok, i1, d)"
    using step ok
    by (subst readWKBPointOrd_res [where res' = res2]) simp
  show ?case
    using Suc.IH [OF rest] ok by (simp add: first)
qed

lemma fold_min_nan:
  "isnan d0 \<Longrightarrow> foldl (\<lambda>acc v. if dbl_lt v acc then v else acc) d0 vs = d0"
  by (induction vs) (auto simp: dbl_lt_def)

lemma fold_max_nan:
  "isnan d0 \<Longrightarrow> foldl (\<lambda>acc v. if dbl_lt acc v then v else acc) d0 vs = d0"
  by (induction vs) (auto simp: dbl_lt_def)

lemma fold_min_le:
  "\<not> isnan d0 \<Longrightarrow>
   \<not> isnan (foldl (\<lambda>acc v. if dbl_lt v acc then v else acc) d0 vs)
   \<and> dbl_key (foldl (\<lambda>acc v. if dbl_lt v acc then v else acc) d0 vs) \<le> dbl_key d0"
proof (induction vs arbitrary: d0)
  case Nil
  then show ?case by simp
next
  case (Cons v vs)
  show ?case
  proof (cases "dbl_lt v d0")
    case True
    then have "\<not> isnan v" "dbl_key v < dbl_key d0"
      by (auto simp: dbl_lt_def)
    then show ?thesis
      using Cons.IH [of v] True by auto
  next
    case False
    then show ?thesis
      using Cons.IH [of d0] Cons.prems by auto
  qed
qed

lemma fold_max_ge:
  "\<not> isnan d0 \<Longrightarrow>
   \<not> isnan (foldl (\<lambda>acc v. if dbl_lt acc v then v else acc) d0 vs)
   \<and> dbl_key d0 \<le> dbl_key (foldl (\<lambda>acc v. if dbl_lt acc v then v else acc) d0 vs)"
proof (induction vs arbitrary: d0)
  case Nil
  then show ?case by simp
next
  case (Cons v vs)
  show ?case
  proof (cases "dbl_lt d0 v")
    case True
    then have "\<not> isnan v" "dbl_key d0 < dbl_key v"
      by (auto simp: dbl_lt_def)
    then show ?thesis
      using Cons.IH [of v] True by auto
  next
    case False
    then show ?thesis
      using Cons.IH [of d0] Cons.prems by auto
  qed
qed

lemma keep_extreme_MIN: "keep_extreme fn_MIN v acc = (if dbl_lt v acc then v else acc)"
  by (simp add: keep_extreme_def)

lemma keep_extreme_MAX: "keep_extreme fn_MAX v acc = (if dbl_lt acc v then v else acc)"
  by (simp add: keep_extreme_def)

text \<open>A successful read of a LineString: the count is at least 1, every point
  was read, and the result is the fold of \<open>keep_extreme\<close> over the ordinates
  after the first, started at the first.\<close>

lemma readWKBLineStringEnv_fold:
  assumes "getInt m p_blob index byteOrder = Inr (numPoints, index0)"
    and "readWKBLineStringEnv m p_blob n_bytes index byteOrder dimension ordinate maxmin res
           = Inr (1, index', r)"
  shows "\<exists>d0 rest. point_values m p_blob n_bytes byteOrder dimension ordinate (nat numPoints) index0
                      = d0 # rest
           \<and> 1 \<le> numPoints \<and> length rest = nat (numPoints - 1)
           \<and> r = foldl (\<lambda>acc v. keep_extreme maxmin v acc) d0 rest"
proof -
  from assms obtain ok i1 d0 where
    count: "1 \<le> numPoints"
    and step: "readWKBPointOrd m p_blob n_bytes index0 byteOrder dimension ordinate res
                 = Inr (ok, i1, d0)"
    and ok: "ok \<noteq> 0"
    and rest: "readWKBLineStringEnv_loop m p_blob n_bytes byteOrder dimension ordinate maxmin
                 (nat (numPoints - 1)) i1 d0 uninitialised = Inr (1, index', r)"
    by (auto simp: readWKBLineStringEnv_def bnd_eq_Inr split: if_splits)
  have first: "readWKBPointOrd m p_blob n_bytes index0 byteOrder dimension ordinate uninitialised
                 = Inr (ok, i1, d0)"
    using step ok
    by (subst readWKBPointOrd_res [where res' = res]) simp
  have "nat numPoints = Suc (nat (numPoints - 1))"
    using count by simp
  then have "point_values m p_blob n_bytes byteOrder dimension ordinate (nat numPoints) index0
               = d0 # point_values m p_blob n_bytes byteOrder dimension ordinate
                        (nat (numPoints - 1)) i1"
    using first ok by simp
  then show ?thesis
    using readWKBLineStringEnv_loop_fold [OF rest] count by simp
qed

text \<open>
  Claim C8, as amended.  A point count below 1 makes \<open>readWKBLineStringEnv\<close>
  return 0.  When it returns 1 for the minimum and for the maximum, each result
  is the fold over the ordinates of the points after the first, started at the
  first point's ordinate, replacing the running value only by a strictly
  smaller (strictly greater) one.  If the first point's ordinate is not a NaN,
  the minimum is \<open>\<le>\<close> the maximum; if it is a NaN, both results are that NaN.
\<close>

theorem readWKBLineStringEnv_min_le_max:
  assumes "getInt m p_blob index byteOrder = Inr (numPoints, index0)"
  shows "(numPoints < 1 \<longrightarrow>
            readWKBLineStringEnv m p_blob n_bytes index byteOrder dimension ordinate maxmin res
              = Inr (0, index0, res))
       \<and> (readWKBLineStringEnv m p_blob n_bytes index byteOrder dimension ordinate fn_MIN res
              = Inr (1, i_min, lo)
          \<and> readWKBLineStringEnv m p_blob n_bytes index byteOrder dimension ordinate fn_MAX res'
              = Inr (1, i_max, hi) \<longrightarrow>
            (\<exists>d0 rest.
               point_values m p_blob n_bytes byteOrder dimension ordinate (nat numPoints) index0
                 = d0 # rest
               \<and> 1 \<le> numPoints \<and> length rest = nat (numPoints - 1)
               \<and> lo = foldl (\<lambda>acc v. if dbl_lt v acc then v else acc) d0 rest
               \<and> hi = foldl (\<lambda>acc v. if dbl_lt acc v then v else acc) d0 rest
               \<and> (if isnan d0 then lo = d0 \<and> hi = d0 else dbl_le lo hi)))"
proof (intro conjI impI)
  assume "numPoints < 1"
  then show "readWKBLineStringEnv m p_blob n_bytes index byteOrder dimension ordinate maxmin res
               = Inr (0, index0, res)"
    using assms by (simp add: readWKBLineStringEnv_def)
next
  assume both: "readWKBLineStringEnv m p_blob n_bytes index byteOrder dimension ordinate fn_MIN res
                  = Inr (1, i_min, lo)
                \<and> readWKBLineStringEnv m p_blob n_bytes index byteOrder dimension ordinate fn_MAX
                    res' = Inr (1, i_max, hi)"
  from readWKBLineStringEnv_fold [OF assms conjunct1 [OF both]] obtain d0 rest where
    vals: "point_values m p_blob n_bytes byteOrder dimension ordinate (nat numPoints) index0
             = d0 # rest"
    and count: "1 \<le> numPoints" "length rest = nat (numPoints - 1)"
    and lo: "lo = foldl (\<lambda>acc v. if dbl_lt v acc then v else acc) d0 rest"
    by (auto simp: keep_extreme_MIN)
  from readWKBLineStringEnv_fold [OF assms conjunct2 [OF both]] vals
  have hi: "hi = foldl (\<lambda>acc v. if dbl_lt acc v then v else acc) d0 rest"
    by (auto simp: keep_extreme_MAX)
  have "if isnan d0 then lo = d0 \<and> hi = d0 else dbl_le lo hi"
  proof (cases "isnan d0")
    case True
    then show ?thesis
      by (simp add: lo hi fold_min_nan fold_max_nan)
  next
    case False
    then show ?thesis
      using fold_min_le [OF False, of rest] fold_max_ge [OF False, of rest]
      by (auto simp: lo hi dbl_le_def)
  qed
  then show "\<exists>d0 rest.
               point_values m p_blob n_bytes byteOrder dimension ordinate (nat numPoints) index0
                 = d0 # rest
               \<and> 1 \<le> numPoints \<and> length rest = nat (numPoints - 1)
               \<and> lo = foldl (\<lambda>acc v. if dbl_lt v acc then v else acc) d0 rest
               \<and> hi = foldl (\<lambda>acc v. if dbl_lt acc v then v else acc) d0 rest
               \<and> (if isnan d0 then lo = d0 \<and> hi = d0 else dbl_le lo hi)"
    using vals count lo hi by blast
qed

lemmas sample_floats = f64_0_def f64_1_def f64_2_def f64_3_def f64_7_def f64_nan_def

lemmas run_reader = getInt_def getDouble_def peek_def endian_def load_int_def load_double_def
  in_memory_order_def i32_def

lemmas run_double = isnan_def dbl_key_def dbl_lt_def dbl_le_def keep_extreme_def

lemma linestring_3_1_count:
  "getInt LittleEndianCPU linestring_3_1 0 LITTLE_ENDIAN = Inr (2, 4)"
  by (simp add: linestring_3_1_def sample_floats run_reader)

lemma linestring_3_1_min:
  "readWKBLineStringEnv LittleEndianCPU linestring_3_1 36 0 LITTLE_ENDIAN 2 ord_X fn_MIN 0
     = Inr (1, 36, 0x3FF0000000000000)"
  by (simp add: linestring_3_1_def sample_floats run_reader run_double
      readWKBLineStringEnv_def readWKBPointOrd_def)

lemma linestring_3_1_max:
  "readWKBLineStringEnv LittleEndianCPU linestring_3_1 36 0 LITTLE_ENDIAN 2 ord_X fn_MAX 0
     = Inr (1, 36, 0x4008000000000000)"
  by (simp add: linestring_3_1_def sample_floats run_reader run_double
      readWKBLineStringEnv_def readWKBPointOrd_def)

text \<open>The LineString (3.0, 0.0), (1.0, 0.0): X runs from 1.0 to 3.0.\<close>

theorem readWKBLineStringEnv_min_le_max_witness:
  "getInt LittleEndianCPU linestring_3_1 0 LITTLE_ENDIAN = Inr (2, 4)
   \<and> readWKBLineStringEnv LittleEndianCPU linestring_3_1 36 0 LITTLE_ENDIAN 2 ord_X fn_MIN 0
       = Inr (1, 36, 0x3FF0000000000000)
   \<and> readWKBLineStringEnv LittleEndianCPU linestring_3_1 36 0 LITTLE_ENDIAN 2 ord_X fn_MAX 0
       = Inr (1, 36, 0x4008000000000000)
   \<and> dbl_le 0x3FF0000000000000 0x4008000000000000"
proof -
  from readWKBLineStringEnv_min_le_max [OF linestring_3_1_count,
      where n_bytes = 36 and dimension = 2 and ordinate = ord_X and res = 0 and res' = 0
        and i_min = 36 and lo = "0x3FF0000000000000" and i_max = 36 and hi = "0x4008000000000000"]
    linestring_3_1_min linestring_3_1_max
  obtain d0 where "if isnan d0 then 0x3FF0000000000000 = d0 \<and> 0x4008000000000000 = d0
                   else dbl_le 0x3FF0000000000000 0x4008000000000000"
    by blast
  then have "dbl_le 0x3FF0000000000000 0x4008000000000000"
    by (cases "isnan d0") auto
  then show ?thesis
    using linestring_3_1_count linestring_3_1_min linestring_3_1_max by simp
qed

text \<open>
  The claim as stated fails when the first point's ordinate is a NaN: for the
  LineString with the single point (NaN, 0.0) the minimum and the maximum of X
  are both that NaN, and a NaN is not \<open>\<le>\<close> itself.
\<close>

theorem readWKBLineStringEnv_nan_counterexample:
  "readWKBLineStringEnv LittleEndianCPU linestring_nan 20 0 LITTLE_ENDIAN 2 ord_X fn_MIN 0
     = Inr (1, 20, 0x7FF8000000000000)
   \<and> readWKBLineStringEnv LittleEndianCPU linestring_nan 20 0 LITTLE_ENDIAN 2 ord_X fn_MAX 0
       = Inr (1, 20, 0x7FF8000000000000)
   \<and> \<not> dbl_le 0x7FF8000000000000 0x7FF8000000000000"
  by (simp add: linestring_nan_def sample_floats run_reader run_double
      readWKBLineStringEnv_def readWKBPointOrd_def)

section \<open>Unrolling loops at a numeral\<close>

lemma isEmptyWKBPoint_loop_numeral:
  "isEmptyWKBPoint_loop m p_blob byteOrder dimension i (numeral v) index =
     isEmptyWKBPoint_loop m p_blob byteOrder dimension i (Suc (pred_numeral v)) index"
  by (simp only: numeral_eq_Suc)

lemma readWKBLineStringEnv_loop_numeral:
  "readWKBLineStringEnv_loop m p_blob n_bytes byteOrder dimension ordinate maxmin (numeral v) index
     res res2 =
   readWKBLineStringEnv_loop m p_blob n_bytes byteOrder dimension ordinate maxmin
     (Suc (pred_numeral v)) index res res2"
  by (simp only: numeral_eq_Suc)

lemma readWKBPolygonEnv_skip_numeral:
  "readWKBPolygonEnv_skip m p_blob n_bytes byteOrder dimension (numeral v) index res =
     readWKBPolygonEnv_skip m p_blob n_bytes byteOrder dimension (Suc (pred_numeral v)) index res"
  by (simp only: numeral_eq_Suc)

lemma readWKBPolygonEnv_read_numeral:
  "readWKBPolygonEnv_read m p_blob n_bytes byteOrder dimension ordinate maxmin (numeral v) index
     res res2 =
   readWKBPolygonEnv_read m p_blob n_bytes byteOrder dimension ordinate maxmin
     (Suc (pred_numeral v)) index res res2"
  by (simp only: numeral_eq_Suc)

lemma isEmptyWKBPolygon_loop_numeral:
  "isEmptyWKBPolygon_loop m p_blob n_bytes byteOrder dimension (numeral v) index =
     isEmptyWKBPolygon_loop m p_blob n_bytes byteOrder dimension (Suc (pred_numeral v)) index"
  by (simp only: numeral_eq_Suc)

lemma readWKBElementsEnv_loop_numeral:
  "readWKBElementsEnv_loop g m p_blob n_bytes byteOrder ordinate maxmin expected (numeral v) index
     res res2 =
   readWKBElementsEnv_loop g m p_blob n_bytes byteOrder ordinate maxmin expected
     (Suc (pred_numeral v)) index res res2"
  by (simp only: numeral_eq_Suc)

lemma isEmptyWKBElements_loop_numeral:
  "isEmptyWKBElements_loop g m p_blob n_bytes byteOrder expected (numeral v) index res =
     isEmptyWKBElements_loop g m p_blob n_bytes byteOrder expected (Suc (pred_numeral v)) index res"
  by (simp only: numeral_eq_Suc)

lemma readWKBGeometryEnv_numeral:
  "readWKBGeometryEnv (numeral v) = readWKBGeometryEnv (Suc (pred_numeral v))"
  by (simp only: numeral_eq_Suc)

lemma isEmptyWKBGeometry_numeral:
  "isEmptyWKBGeometry (numeral v) = isEmptyWKBGeometry (Suc (pred_numeral v))"
  by (simp only: numeral_eq_Suc)

lemma skip_rings_numeral:
  "skip_rings m p_blob n_bytes byteOrder dimension (numeral v) index =
     skip_rings m p_blob n_bytes byteOrder dimension (Suc (pred_numeral v)) index"
  by (simp only: numeral_eq_Suc)

lemma point_values_numeral:
  "point_values m p_blob n_bytes byteOrder dimension ordinate (numeral v) index =
     point_values m p_blob n_bytes byteOrder dimension ordinate (Suc (pred_numeral v)) index"
  by (simp only: numeral_eq_Suc)

lemmas unroll = isEmptyWKBPoint_loop_numeral readWKBLineStringEnv_loop_numeral
  readWKBPolygonEnv_skip_numeral readWKBPolygonEnv_read_numeral isEmptyWKBPolygon_loop_numeral
  readWKBElementsEnv_loop_numeral isEmptyWKBElements_loop_numeral readWKBGeometryEnv_numeral
  isEmptyWKBGeometry_numeral skip_rings_numeral point_values_numeral

section \<open>The emptiness of a Polygon\<close>

lemma isEmptyWKBPolygon_loop_skipped:
  "skip_rings m p_blob n_bytes byteOrder dimension k index = Some i \<Longrightarrow>
   isEmptyWKBPolygon_loop m p_blob n_bytes byteOrder dimension k index = Inr (0, i)"
proof (induction k arbitrary: index)
  case 0
  then show ?case by simp
next
  case (Suc k)
  then show ?case
    by (auto split: sum.splits if_splits)
qed

lemma isEmptyWKBPolygon_loop_failed:
  "skip_rings m p_blob n_bytes byteOrder dimension k index = None \<Longrightarrow>
   (\<exists>e. isEmptyWKBPolygon_loop m p_blob n_bytes byteOrder dimension k index = Inl e)
   \<or> (\<exists>j. isEmptyWKBPolygon_loop m p_blob n_bytes byteOrder dimension k index = Inr (- 1, j))"
proof (induction k arbitrary: index)
  case 0
  then show ?case by simp
next
  case (Suc k)
  show ?case
  proof (cases "skipWKBLineString m p_blob n_bytes index byteOrder dimension")
    case (Inl e)
    then show ?thesis by simp
  next
    case (Inr r)
    obtain ok index1 where r: "r = (ok, index1)" by (cases r)
    show ?thesis
    proof (cases "ok = 0")
      case True
      then show ?thesis by (simp add: Inr r)
    next
      case False
      then have "skip_rings m p_blob n_bytes byteOrder dimension k index1 = None"
        using Suc.prems by (simp add: Inr r)
      from Suc.IH [OF this] show ?thesis
        using False by (simp add: Inr r)
    qed
  qed
qed

lemma isEmptyWKBPolygon_loop_Inr:
  "isEmptyWKBPolygon_loop m p_blob n_bytes byteOrder dimension k index = Inr (r, i) \<Longrightarrow>
   (r = 0 \<and> skip_rings m p_blob n_bytes byteOrder dimension k index = Some i)
   \<or> (r = - 1 \<and> skip_rings m p_blob n_bytes byteOrder dimension k index = None)"
proof (cases "skip_rings m p_blob n_bytes byteOrder dimension k index")
  case None
  assume "isEmptyWKBPolygon_loop m p_blob n_bytes byteOrder dimension k index = Inr (r, i)"
  then show ?thesis
    using isEmptyWKBPolygon_loop_failed [OF None] None by auto
next
  case (Some j)
  assume "isEmptyWKBPolygon_loop m p_blob n_bytes byteOrder dimension k index = Inr (r, i)"
  then show ?thesis
    using isEmptyWKBPolygon_loop_skipped [OF Some] Some by auto
qed

text \<open>When a ring can be skipped, and where the cursor is then.\<close>

lemma skipWKBLineString_ok:
  assumes "getInt m p_blob index byteOrder = Inr (numPoints, index1)"
  shows "skipWKBLineString m p_blob n_bytes index byteOrder dimension =
           (if 1 \<le> numPoints \<and> i32 (index1 + numPoints * dimension * 8) \<le> n_bytes
            then Inr (1, i32 (index1 + numPoints * dimension * 8))
            else Inr (0, index1))"
  using assms by (simp add: skipWKBLineString_def)

subsection \<open>The rings as the bytes give them\<close>

lemma peeks_outside:
  "j \<in> set js \<Longrightarrow> peek p j = Inl OutOfBounds \<Longrightarrow> peeks p js = Inl OutOfBounds"
proof (induction js)
  case Nil
  then show ?case by simp
next
  case (Cons a js)
  show ?case
  proof (cases "peek p a")
    case (Inl e)
    then have "e = OutOfBounds" by (simp add: peek_def split: if_splits)
    then show ?thesis using Inl by simp
  next
    case (Inr b)
    then have "j \<in> set js" using Cons.prems by auto
    from Cons.IH [OF this Cons.prems(2)] show ?thesis by (simp add: Inr)
  qed
qed

lemma getInt_outside:
  assumes "0 \<le> index" and "int (length p_blob) < index + 4"
    and "index \<le> 2147483647"
  shows "getInt m p_blob index byteOrder = Inl OutOfBounds"
proof -
  have last: "peek p_blob (index + 3) = Inl OutOfBounds"
    using assms by (simp add: peek_def)
  have "peek p_blob (i32 (index + 3)) = Inl OutOfBounds"
  proof (cases "index + 3 \<le> 2147483647")
    case True
    then have "i32 (index + 3) = index + 3" using assms(1) by (intro i32_id) auto
    then show ?thesis using last by simp
  next
    case False
    then have wrap: "(index + 3 + 2147483648) mod 4294967296
                       = index + 3 + 2147483648 - 4294967296"
      using assms(3) by (intro int_mod_pos_eq [where q = 1]) auto
    have "i32 (index + 3) = index + 3 - 2147483648 - 2147483648"
      unfolding i32_def wrap by simp
    then have "i32 (index + 3) < 0"
      using assms(3) by simp
    then show ?thesis by (simp add: peek_def)
  qed
  then have "peeks p_blob [i32 (index + 3), i32 (index + 2), i32 (index + 1), index]
               = Inl OutOfBounds"
    by (intro peeks_outside [of "i32 (index + 3)"]) simp_all
  moreover have "peeks p_blob [index, index + 1, index + 2, index + 3] = Inl OutOfBounds"
    by (intro peeks_outside [OF _ last]) simp
  ultimately show ?thesis
    by (simp add: getInt_def)
qed

text \<open>The loop over the rings does what the walk over the bytes says.\<close>

lemma skipWKBLineString_ring:
  assumes "byteOrder = LITTLE_ENDIAN \<or> byteOrder = BIG_ENDIAN"
    and "0 \<le> index" and "index + 4 \<le> int (length p_blob)"
    and "int (length p_blob) \<le> 2147483647"
    and "index + 4 + int_at p_blob index byteOrder * dimension * 8 \<le> 2147483647"
    and "0 \<le> dimension"
  shows "skipWKBLineString m p_blob n_bytes index byteOrder dimension =
           (if 1 \<le> int_at p_blob index byteOrder
               \<and> index + 4 + int_at p_blob index byteOrder * dimension * 8 \<le> n_bytes
            then Inr (1, index + 4 + int_at p_blob index byteOrder * dimension * 8)
            else Inr (0, index + 4))"
proof (cases "1 \<le> int_at p_blob index byteOrder")
  case True
  then have "0 \<le> int_at p_blob index byteOrder * dimension * 8"
    using assms(6) by simp
  then have "i32 (index + 4 + int_at p_blob index byteOrder * dimension * 8)
               = index + 4 + int_at p_blob index byteOrder * dimension * 8"
    using assms(2,5) by (intro i32_id) auto
  then show ?thesis
    using skipWKBLineString_ok [OF getInt_value [OF assms(1,2,3,4), of m], of n_bytes dimension]
    by (simp add: int_at_def)
next
  case False
  then show ?thesis
    using skipWKBLineString_ok [OF getInt_value [OF assms(1,2,3,4), of m], of n_bytes dimension]
    by (simp add: int_at_def)
qed

lemma isEmptyWKBPolygon_loop_walk:
  assumes "byteOrder = LITTLE_ENDIAN \<or> byteOrder = BIG_ENDIAN"
    and "n_bytes \<le> int (length p_blob)" and "int (length p_blob) \<le> 2147483647"
    and "0 \<le> dimension"
  shows "0 \<le> index \<Longrightarrow> index \<le> int (length p_blob) \<Longrightarrow>
         (case walk_rings p_blob n_bytes byteOrder dimension k index of
            AllRings j \<Rightarrow>
              isEmptyWKBPolygon_loop m p_blob n_bytes byteOrder dimension k index = Inr (0, j)
          | MalformedRing r \<Rightarrow>
              isEmptyWKBPolygon_loop m p_blob n_bytes byteOrder dimension k index
                = Inr (- 1, r + 4)
          | RingOutside r \<Rightarrow>
              isEmptyWKBPolygon_loop m p_blob n_bytes byteOrder dimension k index
                = Inl OutOfBounds
          | RingTooLong r \<Rightarrow> True)"
proof (induction k arbitrary: index)
  case 0
  then show ?case by simp
next
  case (Suc k)
  show ?case
  proof (cases "int (length p_blob) < index + 4")
    case True
    have "getInt m p_blob index byteOrder = Inl OutOfBounds"
      using Suc.prems assms(3) True by (intro getInt_outside) auto
    then show ?thesis
      using True by (simp add: skipWKBLineString_def)
  next
    case inside: False
    define numPoints where "numPoints = int_at p_blob index byteOrder"
    define j where "j = index + 4 + numPoints * dimension * 8"
    show ?thesis
    proof (cases "numPoints < 1")
      case True
      have "skipWKBLineString m p_blob n_bytes index byteOrder dimension = Inr (0, index + 4)"
        using skipWKBLineString_ok [OF getInt_value [OF assms(1) Suc.prems(1) _ assms(3), of m],
            of n_bytes dimension] inside True
        by (simp add: int_at_def numPoints_def)
      then show ?thesis
        using inside True by (simp add: numPoints_def)
    next
      case some: False
      show ?thesis
      proof (cases "2147483647 < j")
        case True
        then show ?thesis
          using inside some by (simp add: numPoints_def j_def)
      next
        case False
        have skip: "skipWKBLineString m p_blob n_bytes index byteOrder dimension =
                      (if j \<le> n_bytes then Inr (1, j) else Inr (0, index + 4))"
          using skipWKBLineString_ring [OF assms(1) Suc.prems(1) _ assms(3) _ assms(4),
              of m n_bytes] inside some False
          by (simp add: numPoints_def j_def)
        show ?thesis
        proof (cases "n_bytes < j")
          case True
          then show ?thesis
            using inside some False skip by (simp add: numPoints_def j_def)
        next
          case fits: False
          have "0 \<le> numPoints * dimension * 8"
            using some assms(4) by simp
          then have "0 \<le> j" "j \<le> int (length p_blob)"
            using Suc.prems(1) fits assms(2) by (simp_all add: j_def)
          note IH = Suc.IH [OF this]
          have step: "isEmptyWKBPolygon_loop m p_blob n_bytes byteOrder dimension (Suc k) index
                        = isEmptyWKBPolygon_loop m p_blob n_bytes byteOrder dimension k j"
            using skip fits by simp
          have walk: "walk_rings p_blob n_bytes byteOrder dimension (Suc k) index
                        = walk_rings p_blob n_bytes byteOrder dimension k j"
            using inside some False fits by (simp add: numPoints_def j_def)
          show ?thesis
            unfolding step walk by (rule IH)
        qed
      qed
    qed
  qed
qed

text \<open>
  Claim C6, as amended.  With \<open>numRings\<close> the ring count read at the cursor:
  a count below 1 is Malformed (-1); \<open>isEmptyWKBPolygon\<close> returns Empty (1)
  exactly when the count is 1 and the point count of that ring is below 1, the
  cursor then standing behind that point count, so that a Polygon with 2 or more
  rings is never Empty.  For 2 or more rings in an array of at most \<^verbatim>\<open>INT_MAX\<close>
  bytes, of which the first \<open>n_bytes\<close> count, and a dimension of 2, 3 or 4, the
  answer follows the rings as \<open>walk_rings\<close> finds them in the bytes: NotEmpty (0)
  with the cursor behind the last ring when every ring has a point count of at
  least 1 and fits in the buffer; Malformed (-1), the cursor behind the point
  count of the first ring that has not; a read outside the array when the point
  count of that ring is itself not inside the array.  Nothing is said of a ring
  whose end is beyond \<^verbatim>\<open>INT_MAX\<close>.
\<close>

theorem isEmptyWKBPolygon_rings:
  assumes "getInt m p_blob index byteOrder = Inr (numRings, index0)"
  shows "(numRings < 1 \<longrightarrow>
            isEmptyWKBPolygon m p_blob n_bytes index byteOrder dimension = Inr (- 1, index0))
       \<and> (isEmptyWKBPolygon m p_blob n_bytes index byteOrder dimension = Inr (1, i)
            \<longleftrightarrow> numRings = 1
                \<and> (\<exists>numPoints. getInt m p_blob index0 byteOrder = Inr (numPoints, i)
                      \<and> numPoints < 1))
       \<and> (2 \<le> numRings
            \<and> (byteOrder = LITTLE_ENDIAN \<or> byteOrder = BIG_ENDIAN)
            \<and> 0 \<le> index0 \<and> index0 \<le> int (length p_blob)
            \<and> n_bytes \<le> int (length p_blob) \<and> int (length p_blob) \<le> 2147483647
            \<and> (dimension = 2 \<or> dimension = 3 \<or> dimension = 4) \<longrightarrow>
            (case walk_rings p_blob n_bytes byteOrder dimension (nat numRings) index0 of
               AllRings j \<Rightarrow>
                 isEmptyWKBPolygon m p_blob n_bytes index byteOrder dimension = Inr (0, j)
             | MalformedRing r \<Rightarrow>
                 isEmptyWKBPolygon m p_blob n_bytes index byteOrder dimension = Inr (- 1, r + 4)
             | RingOutside r \<Rightarrow>
                 isEmptyWKBPolygon m p_blob n_bytes index byteOrder dimension = Inl OutOfBounds
             | RingTooLong r \<Rightarrow> True))"
proof (intro conjI impI)
  assume "numRings < 1"
  then show "isEmptyWKBPolygon m p_blob n_bytes index byteOrder dimension = Inr (- 1, index0)"
    using assms by (simp add: isEmptyWKBPolygon_def)
next
  show "isEmptyWKBPolygon m p_blob n_bytes index byteOrder dimension = Inr (1, i)
          \<longleftrightarrow> numRings = 1
              \<and> (\<exists>numPoints. getInt m p_blob index0 byteOrder = Inr (numPoints, i)
                    \<and> numPoints < 1)"
  proof (cases "numRings = 1")
    case True
    then show ?thesis
      using assms
      by (auto simp: isEmptyWKBPolygon_def isEmptyWKBLineString_def bnd_eq_Inr split: if_splits)
  next
    case False
    then show ?thesis
      using assms
      by (auto simp: isEmptyWKBPolygon_def dest: isEmptyWKBPolygon_loop_Inr)
  qed
next
  assume a: "2 \<le> numRings
             \<and> (byteOrder = LITTLE_ENDIAN \<or> byteOrder = BIG_ENDIAN)
             \<and> 0 \<le> index0 \<and> index0 \<le> int (length p_blob)
             \<and> n_bytes \<le> int (length p_blob) \<and> int (length p_blob) \<le> 2147483647
             \<and> (dimension = 2 \<or> dimension = 3 \<or> dimension = 4)"
  then have loop: "isEmptyWKBPolygon m p_blob n_bytes index byteOrder dimension
                     = isEmptyWKBPolygon_loop m p_blob n_bytes byteOrder dimension
                         (nat numRings) index0"
    using assms by (simp add: isEmptyWKBPolygon_def)
  from a have dim: "0 \<le> dimension" by auto
  from a have valid: "byteOrder = LITTLE_ENDIAN \<or> byteOrder = BIG_ENDIAN" by simp
  from a have n: "n_bytes \<le> int (length p_blob)" and len: "int (length p_blob) \<le> 2147483647"
    and lo: "0 \<le> index0" and hi: "index0 \<le> int (length p_blob)"
    by simp_all
  show "case walk_rings p_blob n_bytes byteOrder dimension (nat numRings) index0 of
          AllRings j \<Rightarrow>
            isEmptyWKBPolygon m p_blob n_bytes index byteOrder dimension = Inr (0, j)
        | MalformedRing r \<Rightarrow>
            isEmptyWKBPolygon m p_blob n_bytes index byteOrder dimension = Inr (- 1, r + 4)
        | RingOutside r \<Rightarrow>
            isEmptyWKBPolygon m p_blob n_bytes index byteOrder dimension = Inl OutOfBounds
        | RingTooLong r \<Rightarrow> True"
    unfolding loop by (rule isEmptyWKBPolygon_loop_walk [OF valid n len dim lo hi])
qed

lemma polygon_two_rings_count:
  "getInt LittleEndianCPU polygon_two_rings 0 LITTLE_ENDIAN = Inr (2, 4)"
  by (simp add: polygon_two_rings_def sample_floats run_reader)

lemma walk_rings_numeral:
  "walk_rings p_blob n_bytes byteOrder dimension (numeral v) index =
     walk_rings p_blob n_bytes byteOrder dimension (Suc (pred_numeral v)) index"
  by (simp only: numeral_eq_Suc)

lemma polygon_two_rings_walk:
  "walk_rings polygon_two_rings 44 LITTLE_ENDIAN 2 (nat 2) 4 = AllRings 44"
  by (simp add: polygon_two_rings_def sample_floats int_at_def field_def i32_def
      walk_rings_numeral del: Suc_numeral)

text \<open>Two rings of one point each: NotEmpty, the cursor at the end.\<close>

theorem isEmptyWKBPolygon_rings_witness:
  "getInt LittleEndianCPU polygon_two_rings 0 LITTLE_ENDIAN = Inr (2, 4)
   \<and> walk_rings polygon_two_rings 44 LITTLE_ENDIAN 2 (nat 2) 4 = AllRings 44
   \<and> isEmptyWKBPolygon LittleEndianCPU polygon_two_rings 44 0 LITTLE_ENDIAN 2 = Inr (0, 44)"
proof -
  have len: "int (length polygon_two_rings) = 44"
    by (simp add: polygon_two_rings_def sample_floats)
  from isEmptyWKBPolygon_rings [OF polygon_two_rings_count, where n_bytes = 44
      and dimension = 2]
  have "case walk_rings polygon_two_rings 44 LITTLE_ENDIAN 2 (nat 2) 4 of
          AllRings j \<Rightarrow>
            isEmptyWKBPolygon LittleEndianCPU polygon_two_rings 44 0 LITTLE_ENDIAN 2 = Inr (0, j)
        | MalformedRing r \<Rightarrow>
            isEmptyWKBPolygon LittleEndianCPU polygon_two_rings 44 0 LITTLE_ENDIAN 2
              = Inr (- 1, r + 4)
        | RingOutside r \<Rightarrow>
            isEmptyWKBPolygon LittleEndianCPU polygon_two_rings 44 0 LITTLE_ENDIAN 2
              = Inl OutOfBounds
        | RingTooLong r \<Rightarrow> True"
    by (simp add: len)
  moreover have "walk_rings polygon_two_rings 44 LITTLE_ENDIAN 2 2 4 = AllRings 44"
    using polygon_two_rings_walk by simp
  ultimately have "isEmptyWKBPolygon LittleEndianCPU polygon_two_rings 44 0 LITTLE_ENDIAN 2
                     = Inr (0, 44)"
    by simp
  then show ?thesis
    by (intro conjI polygon_two_rings_count polygon_two_rings_walk)
qed

text \<open>
  Where the end of a ring is beyond \<^verbatim>\<open>INT_MAX\<close> the result is left open.  Two
  rings that announce \<^verbatim>\<open>0x10000000\<close> points each in an array of 12 bytes are
  NotEmpty: \<^verbatim>\<open>numPoints * dimension * 8\<close> is \<open>2\<^sup>3\<^sup>2\<close>, which the 32-bit
  arithmetic takes for 0.
\<close>

lemma polygon_two_long_rings_wrap:
  "isEmptyWKBPolygon LittleEndianCPU polygon_two_long_rings 12 0 LITTLE_ENDIAN 2 = Inr (0, 12)"
  "walk_rings polygon_two_long_rings 12 LITTLE_ENDIAN 2 (nat 2) 4 = RingTooLong 4"
  by (simp_all add: polygon_two_long_rings_def run_reader isEmptyWKBPolygon_def
      skipWKBLineString_def int_at_def field_def unroll walk_rings_numeral del: Suc_numeral)

text \<open>
  The claim as stated fails for a Polygon with two rings whose exterior ring
  has no points: the second ring does not make it NotEmpty, the ring without
  points makes it Malformed.
\<close>

theorem isEmptyWKBPolygon_two_rings_counterexample:
  "getInt LittleEndianCPU polygon_empty_ring_and_hole 0 LITTLE_ENDIAN = Inr (2, 4)
   \<and> isEmptyWKBPolygon LittleEndianCPU polygon_empty_ring_and_hole 28 0 LITTLE_ENDIAN 2
       = Inr (- 1, 8)"
  by (simp add: polygon_empty_ring_and_hole_def sample_floats run_reader
      isEmptyWKBPolygon_def skipWKBLineString_def unroll)

lemmas sample_records = wkb_point_2d_def wkb_point_z_def wkb_linestring_empty_def
  gpkg_point_2d_def gpkg_point_2d_flagged_empty_def gpkg_linestring_empty_def gpkg_point_1_1_def
  gpkg_envelope_1_2_3_7_def gpkg_header_xyz_def

section \<open>Ordinates that the geometry does not have\<close>

text \<open>
  Claim C4 fails on the code.  For the 2-D Point (1.0, 2.0) and the ordinate Z
  the test \<^verbatim>\<open>dimension < ordinate\<close> is \<open>2 < 2\<close>, so \<open>readWKBGeometryEnv\<close> does not
  return 0: it reads the 8 bytes behind the two ordinates.  When the record ends
  the array, that read is outside the array; when the float 7.0 follows the
  record, 7.0 is returned as Z with the return value 1.  The same happens through
  the entry point \<open>readGPKGGeometryEnv\<close> as distributed.
\<close>

theorem readWKBGeometryEnv_Z_of_2d_point:
  "readWKBGeometryEnv 1 LittleEndianCPU wkb_point_2d 21 0 LITTLE_ENDIAN ord_Z fn_MIN wkbGeometry 0
     = Inl OutOfBounds
   \<and> readWKBGeometryEnv 1 LittleEndianCPU (wkb_point_2d @ f64_7) 29 0 LITTLE_ENDIAN ord_Z fn_MIN
       wkbGeometry 0
     = Inr (1, 21, 0x401C000000000000)
   \<and> readGPKGGeometryEnv False 1 LittleEndianCPU gpkg_point_2d 29 0 (endian LittleEndianCPU)
       ord_Z fn_MIN wkbGeometry 0
     = Inl OutOfBounds"
  by (simp add: sample_records sample_floats run_reader readWKBPointOrd_def
      readGPKGGeometryEnv_def skipGPKGHeader_def envelope_bytes_def)

text \<open>The run that returns a value for Z, taken from the theorem above.\<close>

theorem readWKBGeometryEnv_Z_of_2d_point_witness:
  "readWKBGeometryEnv 1 LittleEndianCPU (wkb_point_2d @ f64_7) 29 0 LITTLE_ENDIAN ord_Z fn_MIN
     wkbGeometry 0
   = Inr (1, 21, 0x401C000000000000)"
  using readWKBGeometryEnv_Z_of_2d_point by (rule conjunct1 [OF conjunct2])

text \<open>
  Claim C5 fails on the code.  For the Point Z (1.0, 2.0, 3.0), whose type code
  1001 signals Z only, and the ordinate M, \<open>readWKBGeometryEnv\<close> returns 1 with
  the Z value 3.0: the substitution \<^verbatim>\<open>if (dimension == 3 && ordinate == M)\<close> does
  not look at which of Z and M the record has.  The header decoder does: for an
  XYZ envelope and the ordinate M, \<open>readGPKGHeaderEnv\<close> returns 0.
\<close>

theorem readWKBGeometryEnv_M_of_point_z:
  "readWKBGeometryEnv 1 LittleEndianCPU wkb_point_z 29 0 LITTLE_ENDIAN ord_M fn_MIN wkbGeometry 0
     = Inr (1, 29, 0x4008000000000000)
   \<and> readWKBGeometryEnv 1 LittleEndianCPU wkb_point_z 29 0 LITTLE_ENDIAN ord_Z fn_MIN wkbGeometry 0
     = Inr (1, 29, 0x4008000000000000)
   \<and> readGPKGHeaderEnv LittleEndianCPU gpkg_header_xyz 56 0 ord_M fn_MIN 0 = Inr (0, 8, 0)"
  by (simp add: sample_records sample_floats run_reader readWKBPointOrd_def
      readGPKGHeaderEnv_def envelope_bytes_def)

text \<open>The run that returns the Z value for M, taken from the theorem above.\<close>

theorem readWKBGeometryEnv_M_of_point_z_witness:
  "readWKBGeometryEnv 1 LittleEndianCPU wkb_point_z 29 0 LITTLE_ENDIAN ord_M fn_MIN wkbGeometry 0
   = Inr (1, 29, 0x4008000000000000)"
  using readWKBGeometryEnv_M_of_point_z by (rule conjunct1)

section \<open>The envelope of the header\<close>

text \<open>
  Claim C1 fails on the code.  The envelope of \<open>gpkg_envelope_1_2_3_7\<close> starts at
  byte 8 and its dimension is 2.  For the minimum of Y, \<open>readGPKGHeaderEnv\<close>
  returns the float at float position 1, which is 2.0.  For the maximum of X
  the float at float position \<open>dimension + ordinate = 2\<close> is 3.0, at byte 24; the
  source advances by \<^verbatim>\<open>dimension + ordinate * 8\<close>, that is by 2 bytes, and returns
  the 8 bytes from byte 10 on, which are the last six bytes of 1.0 and the first
  two of 2.0.
\<close>

theorem readGPKGHeaderEnv_max_offset:
  "readGPKGHeaderEnv LittleEndianCPU gpkg_envelope_1_2_3_7 61 0 ord_Y fn_MIN 0
     = Inr (1, 24, 0x4000000000000000)
   \<and> getDouble LittleEndianCPU gpkg_envelope_1_2_3_7 (8 + (2 + ord_X) * 8) LITTLE_ENDIAN
     = Inr (0x4008000000000000, 32)
   \<and> readGPKGHeaderEnv LittleEndianCPU gpkg_envelope_1_2_3_7 61 0 ord_X fn_MAX 0
     = Inr (1, 18, 0x00003FF000000000)"
  by (simp add: sample_records sample_floats run_reader run_double readGPKGHeaderEnv_def
      envelope_bytes_def)

text \<open>
  Claim C3 fails on the code, by the same offset.  The header of
  \<open>gpkg_point_1_1\<close> is right for its body: every extreme of the point (1.0, 1.0)
  is 1.0 and every float of the envelope is 1.0.  Reading the body (the source
  as distributed) gives 1.0 for the maximum of X; answering from the header gives
  the float made of bytes 10 to 17.
\<close>

theorem header_and_body_disagree:
  "readGPKGGeometryEnv False 1 LittleEndianCPU gpkg_point_1_1 61 0 (endian LittleEndianCPU)
     ord_X fn_MAX wkbGeometry 0
     = Inr (1, 61, 0x3FF0000000000000)
   \<and> readGPKGGeometryEnv True 1 LittleEndianCPU gpkg_point_1_1 61 0 (endian LittleEndianCPU)
       ord_X fn_MAX wkbGeometry 0
     = Inr (1, 18, 0x00003FF000000000)
   \<and> readGPKGGeometryEnv True 1 LittleEndianCPU gpkg_point_1_1 61 0 (endian LittleEndianCPU)
       ord_X fn_MIN wkbGeometry 0
     = Inr (1, 16, 0x3FF0000000000000)"
  by (simp add: sample_records sample_floats run_reader run_double readGPKGGeometryEnv_def
      readGPKGHeaderEnv_def skipGPKGHeader_def envelope_bytes_def readWKBPointOrd_def)

section \<open>The entry points as distributed\<close>


text \<open>\<open>skipGPKGHeader\<close> and \<open>readEmptyGPKGHeader\<close> accept the same headers and
  leave the same cursor.\<close>

lemma readEmptyGPKGHeader_skip:
  "readEmptyGPKGHeader p_blob n_bytes index e0 = Inr (1, body, isEmpty) \<Longrightarrow>
   skipGPKGHeader p_blob n_bytes index = Inr (1, body)"
  unfolding readEmptyGPKGHeader_def skipGPKGHeader_def
  by (cases "peek p_blob index"; cases "peek p_blob (i32 (index + 1))";
      cases "peek p_blob (i32 (i32 (index + 1) + 1))";
      cases "peek p_blob (i32 (i32 (i32 (index + 1) + 1) + 1))")
    (simp_all add: Let_def split: if_splits option.splits)








section \<open>The kinds with elements\<close>

subsection \<open>The return values of the emptiness tests\<close>








lemma isEmptyWKBGeometry_Suc:
  "isEmptyWKBGeometry (Suc fuel) m p_blob n_bytes index byteOrder geometryTypeExpected =
     bnd (peek p_blob index)
       (\<lambda>newByteOrder.
          bnd (getInt m p_blob (i32 (index + 1)) (wkb_byteOrder newByteOrder byteOrder))
            (\<lambda>(typeInt, index).
               isEmptyWKB_dispatch (isEmptyWKBGeometry fuel) m p_blob n_bytes
                 (wkb_body typeInt index) (wkb_byteOrder newByteOrder byteOrder)
                 geometryTypeExpected (wkb_dimension typeInt) (wkb_geometryType typeInt)))"
  by (simp add: Let_def wkb_byteOrder_def wkb_hasZ_def wkb_hasM_def wkb_dimension_def
      wkb_body_def wkb_geometryType_def isEmptyWKB_dispatch_def cong: if_cong)




subsection \<open>The loop over the elements and the list of their tests\<close>

lemma tested_empty_simps [simp]:
  "tested_empty (Inl e) = False" "tested_empty (Inr (r, i)) = (r = 1)"
  by (simp_all add: tested_empty_def)

lemma test_failed_simps [simp]:
  "test_failed (Inl e) = True" "test_failed (Inr (r, i)) = (r < 0)"
  by (simp_all add: test_failed_def)

lemma element_tests_nonempty [simp]:
  "element_tests g m p_blob n_bytes byteOrder kind (Suc k) index \<noteq> []"
  by (simp split: sum.splits prod.splits)




subsection \<open>The envelope of a kind with elements\<close>




text \<open>For running the model on a sample: the scrutinee of a \<open>bnd\<close> or a \<open>case\<close>
  is evaluated before its branches are looked at.\<close>

lemma bnd_weak_cong: "m = m' \<Longrightarrow> bnd m f = bnd m' f"
  by simp

lemmas run_cong = bnd_weak_cong prod.case_cong_weak sum.case_cong_weak option.case_cong_weak








section \<open>The same geometry in the other byte order\<close>

text \<open>
  The arrays \<open>p\<close> and \<open>q\<close> hold the same geometry in opposite byte orders
  (\<open>reenc\<close>).  The walkers are followed over the two side by side: field by
  field they read the same integers and floats, so they take the same branches,
  return the same results and, where they do not fail, leave the cursor at the
  end of the record.  The arrays are no longer than \<^verbatim>\<open>INT_MAX\<close> bytes, so that no
  cursor inside them wraps around.
\<close>

subsection \<open>Fields\<close>

lemma field_swapped:
  assumes "byteOrder = LITTLE_ENDIAN \<or> byteOrder = BIG_ENDIAN" and "swapped p q index w"
  shows "field q index w (opposite byteOrder) = field p index w byteOrder"
  using assms by (auto simp: field_def opposite_def swapped_def)

lemma getInt_swapped:
  assumes "byteOrder = LITTLE_ENDIAN \<or> byteOrder = BIG_ENDIAN" and "swapped p q index 4"
    and "length q = length p" and "int (length p) \<le> 2147483647"
  shows "getInt m p index byteOrder = Inr (int_at p index byteOrder, index + 4)"
    and "getInt m q index (opposite byteOrder) = Inr (int_at p index byteOrder, index + 4)"
proof -
  have i: "0 \<le> index" and b: "index + 4 \<le> int (length p)"
    using assms(2) by (auto simp: swapped_def)
  show "getInt m p index byteOrder = Inr (int_at p index byteOrder, index + 4)"
    unfolding int_at_def by (rule getInt_value [OF assms(1) i b assms(4)])
  have "getInt m q index (opposite byteOrder)
          = Inr (i32 (le_value (field q index 4 (opposite byteOrder))), index + 4)"
    by (rule getInt_value [OF opposite_order [OF assms(1)] i]) (use b assms(3,4) in simp_all)
  then show "getInt m q index (opposite byteOrder) = Inr (int_at p index byteOrder, index + 4)"
    by (simp add: int_at_def field_swapped [OF assms(1,2)])
qed

lemma getDouble_swapped:
  assumes "byteOrder = LITTLE_ENDIAN \<or> byteOrder = BIG_ENDIAN" and "swapped p q index 8"
    and "length q = length p" and "int (length p) \<le> 2147483647"
  shows "getDouble m q index (opposite byteOrder) = getDouble m p index byteOrder"
    and "\<exists>d. getDouble m p index byteOrder = Inr (d, index + 8)"
proof -
  have i: "0 \<le> index" and b: "index + 8 \<le> int (length p)"
    using assms(2) by (auto simp: swapped_def)
  have v: "getDouble m p index byteOrder
             = Inr (word_of_int (le_value (field p index 8 byteOrder)), index + 8)"
    by (rule getDouble_value [OF assms(1) i b assms(4)])
  then show "\<exists>d. getDouble m p index byteOrder = Inr (d, index + 8)"
    by simp
  have "getDouble m q index (opposite byteOrder)
          = Inr (word_of_int (le_value (field q index 8 (opposite byteOrder))), index + 8)"
    by (rule getDouble_value [OF opposite_order [OF assms(1)] i]) (use b assms(3,4) in simp_all)
  then show "getDouble m q index (opposite byteOrder) = getDouble m p index byteOrder"
    by (simp add: v field_swapped [OF assms(1,2)])
qed

lemma wkb_dimension_range: "wkb_dimension typeInt = 2 \<or> wkb_dimension typeInt = 3
                            \<or> wkb_dimension typeInt = 4"
  by (simp add: wkb_dimension_def)

lemma swapped_floats_first: "swapped_floats p q index count \<Longrightarrow> 0 < count \<Longrightarrow>
                             swapped p q index 8"
  unfolding swapped_floats_def by (drule spec [of _ 0]) simp

lemma swapped_floats_at: "swapped_floats p q index count \<Longrightarrow> 0 \<le> k \<Longrightarrow> k < count \<Longrightarrow>
                          swapped p q (index + 8 * k) 8"
  unfolding swapped_floats_def by blast

lemma swapped_floats_rest: "swapped_floats p q index count \<Longrightarrow> 0 \<le> k \<Longrightarrow>
                            swapped_floats p q (index + 8 * k) (count - k)"
  unfolding swapped_floats_def
proof (intro allI impI)
  fix t
  assume all: "\<forall>k. 0 \<le> k \<and> k < count \<longrightarrow> swapped p q (index + 8 * k) 8"
    and k: "0 \<le> k" and t: "0 \<le> t \<and> t < count - k"
  then have "swapped p q (index + 8 * (k + t)) 8"
    by (intro all [rule_format]) auto
  then show "swapped p q (index + 8 * k + 8 * t) 8"
    by (simp add: algebra_simps)
qed

text \<open>The end of a run of swapped floats lies inside the array.\<close>

lemma swapped_floats_end:
  assumes "swapped_floats p q index count" and "0 < count"
  shows "0 \<le> index \<and> index + 8 * count \<le> int (length p)"
proof -
  from swapped_floats_at [OF assms(1), of 0] assms(2) have "0 \<le> index"
    by (simp add: swapped_def)
  moreover from swapped_floats_at [OF assms(1), of "count - 1"] assms(2)
  have "index + 8 * (count - 1) + 8 \<le> int (length p)"
    by (simp add: swapped_def) linarith
  ultimately show ?thesis by simp
qed

subsection \<open>The head of a record\<close>

lemma wkb_byteOrder_valid:
  "b = LITTLE_ENDIAN \<or> b = BIG_ENDIAN \<Longrightarrow> wkb_byteOrder b a = b"
  by (auto simp: wkb_byteOrder_def)

lemma wkb_byteOrder_opposite: "wkb_byteOrder (opposite b) a = opposite b"
  by (auto simp: wkb_byteOrder_def opposite_def)

lemma record_head_reads:
  assumes "record_head p q index byteOrder typeInt body"
    and "length q = length p" and "int (length p) \<le> 2147483647"
  shows "peek p index = Inr byteOrder" and "peek q index = Inr (opposite byteOrder)"
    and "byteOrder = LITTLE_ENDIAN \<or> byteOrder = BIG_ENDIAN"
    and "getInt m p (i32 (index + 1)) byteOrder = Inr (typeInt, index + 5)"
    and "getInt m q (i32 (index + 1)) (opposite byteOrder) = Inr (typeInt, index + 5)"
    and "wkb_body typeInt (index + 5) = body"
proof -
  show v: "byteOrder = LITTLE_ENDIAN \<or> byteOrder = BIG_ENDIAN"
    and "peek p index = Inr byteOrder" and "peek q index = Inr (opposite byteOrder)"
    and "wkb_body typeInt (index + 5) = body"
    using assms(1) by (auto simp: record_head_def)
  have s: "swapped p q (index + 1) 4" and t: "typeInt = int_at p (index + 1) byteOrder"
    using assms(1) by (auto simp: record_head_def)
  have "0 \<le> index + 1" "index + 1 + 4 \<le> int (length p)"
    using s by (auto simp: swapped_def)
  then have w: "i32 (index + 1) = index + 1"
    using assms(3) by (intro i32_id) auto
  show "getInt m p (i32 (index + 1)) byteOrder = Inr (typeInt, index + 5)"
    using getInt_swapped(1) [OF v s assms(2,3), of m] by (simp add: w t)
  show "getInt m q (i32 (index + 1)) (opposite byteOrder) = Inr (typeInt, index + 5)"
    using getInt_swapped(2) [OF v s assms(2,3), of m] by (simp add: w t)
qed

lemma isEmptyWKBGeometry_head:
  assumes "record_head p q index byteOrder typeInt body"
    and "length q = length p" and "int (length p) \<le> 2147483647"
  shows "isEmptyWKBGeometry (Suc fuel) m p n_bytes index a kind =
           isEmptyWKB_dispatch (isEmptyWKBGeometry fuel) m p n_bytes body byteOrder kind
             (wkb_dimension typeInt) (wkb_geometryType typeInt)"
    and "isEmptyWKBGeometry (Suc fuel) m q n_bytes index a' kind =
           isEmptyWKB_dispatch (isEmptyWKBGeometry fuel) m q n_bytes body (opposite byteOrder) kind
             (wkb_dimension typeInt) (wkb_geometryType typeInt)"
  using record_head_reads [OF assms]
  by (simp_all add: isEmptyWKBGeometry_Suc wkb_byteOrder_valid wkb_byteOrder_opposite
      del: isEmptyWKBGeometry.simps)

subsection \<open>Emptiness of the kinds without elements\<close>

lemma isEmptyWKBPoint_loop_swapped:
  assumes "byteOrder = LITTLE_ENDIAN \<or> byteOrder = BIG_ENDIAN"
    and "length q = length p" and "int (length p) \<le> 2147483647"
  shows "swapped_floats p q index (int k) \<Longrightarrow> 0 \<le> i \<Longrightarrow> i + int k = dimension \<Longrightarrow>
         dimension \<le> 4 \<Longrightarrow>
         isEmptyWKBPoint_loop m q (opposite byteOrder) dimension i k index
           = isEmptyWKBPoint_loop m p byteOrder dimension i k index
         \<and> (\<forall>r c. isEmptyWKBPoint_loop m p byteOrder dimension i k index = Inr (r, c)
               \<longrightarrow> c = index + 8 * int k)"
proof (induction k arbitrary: i index)
  case 0
  then show ?case by simp
next
  case (Suc k)
  have here: "swapped p q index 8"
    using swapped_floats_first [OF Suc.prems(1)] by simp
  have rest: "swapped_floats p q (index + 8) (int k)"
    using swapped_floats_rest [OF Suc.prems(1), of 1] by simp
  have "index + 8 * int (Suc k) \<le> int (length p)" "0 \<le> index"
    using swapped_floats_end [OF Suc.prems(1)] by auto
  then have stop: "i32 (index + 8 + (dimension - i - 1) * 8) = index + 8 * int (Suc k)"
    using Suc.prems(3) assms(3) by (subst i32_id) auto
  have next_i: "i32 (i + 1) = i + 1"
    using Suc.prems(2,3,4) by (intro i32_id) auto
  from getDouble_swapped [OF assms(1) here assms(2,3), of m] obtain d where
    q: "getDouble m q index (opposite byteOrder) = Inr (d, index + 8)"
    and p: "getDouble m p index byteOrder = Inr (d, index + 8)"
    by auto
  have IH: "isEmptyWKBPoint_loop m q (opposite byteOrder) dimension (i + 1) k (index + 8)
              = isEmptyWKBPoint_loop m p byteOrder dimension (i + 1) k (index + 8)
            \<and> (\<forall>r c. isEmptyWKBPoint_loop m p byteOrder dimension (i + 1) k (index + 8)
                        = Inr (r, c) \<longrightarrow> c = index + 8 + 8 * int k)"
    using Suc.prems(2,3,4) by (intro Suc.IH [OF rest]) auto
  show ?case
    using IH stop by (auto simp: p q next_i)
qed

lemma isEmptyWKBPoint_swapped:
  assumes "byteOrder = LITTLE_ENDIAN \<or> byteOrder = BIG_ENDIAN"
    and "length q = length p" and "int (length p) \<le> 2147483647"
    and "swapped_floats p q index dimension"
    and "dimension = 2 \<or> dimension = 3 \<or> dimension = 4"
  shows "isEmptyWKBPoint m q n_bytes index (opposite byteOrder) dimension
           = isEmptyWKBPoint m p n_bytes index byteOrder dimension"
    and "isEmptyWKBPoint m p n_bytes index byteOrder dimension = Inr (r, c) \<Longrightarrow> 0 \<le> r \<Longrightarrow>
         c = index + 8 * dimension"
proof -
  have run: "swapped_floats p q index (int (nat dimension))"
    using assms(4,5) by auto
  note loop = isEmptyWKBPoint_loop_swapped [OF assms(1,2,3) run, of 0 dimension m]
  show "isEmptyWKBPoint m q n_bytes index (opposite byteOrder) dimension
          = isEmptyWKBPoint m p n_bytes index byteOrder dimension"
    using loop assms(5) by (auto simp: isEmptyWKBPoint_def)
  show "isEmptyWKBPoint m p n_bytes index byteOrder dimension = Inr (r, c) \<Longrightarrow> 0 \<le> r \<Longrightarrow>
        c = index + 8 * dimension"
    using loop assms(5) by (auto simp: isEmptyWKBPoint_def split: if_splits)
qed

text \<open>The cursor behind the points of a LineString or ring with at least one
  point.\<close>

lemma linestring_end:
  assumes "swapped_floats p q (index + 4) (numPoints * dimension)"
    and "1 \<le> numPoints" and "2 \<le> dimension" and "int (length p) \<le> 2147483647"
  shows "i32 (index + 4 + numPoints * dimension * 8) = index + 4 + 8 * (numPoints * dimension)"
proof -
  have some: "0 < numPoints * dimension"
    using assms(2,3) by simp
  have "0 \<le> index + 4 + 8 * (numPoints * dimension)"
    and "index + 4 + 8 * (numPoints * dimension) \<le> 2147483647"
    using swapped_floats_end [OF assms(1) some] assms(4) some by auto
  then have "i32 (index + 4 + 8 * (numPoints * dimension))
               = index + 4 + 8 * (numPoints * dimension)"
    by (intro i32_id) auto
  then show ?thesis
    by (simp add: mult.commute mult.left_commute)
qed

lemma isEmptyWKBLineString_swapped:
  assumes "byteOrder = LITTLE_ENDIAN \<or> byteOrder = BIG_ENDIAN"
    and "length q = length p" and "int (length p) \<le> 2147483647"
    and "reenc_linestring p q dimension byteOrder index j" and "2 \<le> dimension"
  shows "isEmptyWKBLineString m q n_bytes index (opposite byteOrder) dimension
           = isEmptyWKBLineString m p n_bytes index byteOrder dimension"
    and "isEmptyWKBLineString m p n_bytes index byteOrder dimension = Inr (r, c) \<Longrightarrow> 0 \<le> r \<Longrightarrow>
         c = j"
proof -
  have count: "swapped p q index 4"
    using assms(4) by (simp add: reenc_linestring_def)
  note reads = getInt_swapped [OF assms(1) count assms(2,3), of m]
  show "isEmptyWKBLineString m q n_bytes index (opposite byteOrder) dimension
          = isEmptyWKBLineString m p n_bytes index byteOrder dimension"
    by (simp add: isEmptyWKBLineString_def reads)
  show "isEmptyWKBLineString m p n_bytes index byteOrder dimension = Inr (r, c) \<Longrightarrow> 0 \<le> r \<Longrightarrow>
        c = j"
    using assms(4) linestring_end [of p q index "int_at p index byteOrder" dimension] assms(3,5)
    by (auto simp: isEmptyWKBLineString_def reads reenc_linestring_def split: if_splits)
qed

lemma skipWKBLineString_swapped:
  assumes "byteOrder = LITTLE_ENDIAN \<or> byteOrder = BIG_ENDIAN"
    and "length q = length p" and "int (length p) \<le> 2147483647"
    and "reenc_linestring p q dimension byteOrder index j" and "2 \<le> dimension"
  shows "skipWKBLineString m q n_bytes index (opposite byteOrder) dimension
           = skipWKBLineString m p n_bytes index byteOrder dimension"
    and "skipWKBLineString m p n_bytes index byteOrder dimension = Inr (ok, c) \<Longrightarrow> ok \<noteq> 0 \<Longrightarrow>
         c = j"
proof -
  have count: "swapped p q index 4"
    using assms(4) by (simp add: reenc_linestring_def)
  note reads = getInt_swapped [OF assms(1) count assms(2,3), of m]
  show "skipWKBLineString m q n_bytes index (opposite byteOrder) dimension
          = skipWKBLineString m p n_bytes index byteOrder dimension"
    by (simp add: skipWKBLineString_def reads)
  show "skipWKBLineString m p n_bytes index byteOrder dimension = Inr (ok, c) \<Longrightarrow> ok \<noteq> 0 \<Longrightarrow>
        c = j"
    using assms(4) linestring_end [of p q index "int_at p index byteOrder" dimension] assms(3,5)
    by (auto simp: skipWKBLineString_def reads reenc_linestring_def split: if_splits)
qed

lemma reenc_rings_0: "reenc_rings p q dimension byteOrder 0 index j \<Longrightarrow> j = index"
  by (erule reenc_rings.cases) auto

lemma reenc_rings_Suc:
  "reenc_rings p q dimension byteOrder (Suc k) index j \<Longrightarrow>
   \<exists>j1. reenc_linestring p q dimension byteOrder index j1
        \<and> reenc_rings p q dimension byteOrder k j1 j"
  by (erule reenc_rings.cases) auto

lemma isEmptyWKBPolygon_loop_swapped:
  assumes "byteOrder = LITTLE_ENDIAN \<or> byteOrder = BIG_ENDIAN"
    and "length q = length p" and "int (length p) \<le> 2147483647" and "2 \<le> dimension"
  shows "reenc_rings p q dimension byteOrder k index j \<Longrightarrow>
         isEmptyWKBPolygon_loop m q n_bytes (opposite byteOrder) dimension k index
           = isEmptyWKBPolygon_loop m p n_bytes byteOrder dimension k index
         \<and> (\<forall>r c. isEmptyWKBPolygon_loop m p n_bytes byteOrder dimension k index = Inr (r, c)
                    \<and> 0 \<le> r \<longrightarrow> c = j)"
proof (induction k arbitrary: index)
  case 0
  then show ?case by (auto dest: reenc_rings_0)
next
  case (Suc k)
  from reenc_rings_Suc [OF Suc.prems] obtain j1 where
    first: "reenc_linestring p q dimension byteOrder index j1"
    and rest: "reenc_rings p q dimension byteOrder k j1 j"
    by blast
  note skip = skipWKBLineString_swapped [OF assms(1,2,3) first assms(4), of m n_bytes]
  show ?case
  proof (cases "skipWKBLineString m p n_bytes index byteOrder dimension")
    case (Inl e)
    then show ?thesis using skip(1) by simp
  next
    case (Inr x)
    obtain ok c where x: "x = (ok, c)" by (cases x)
    show ?thesis
    proof (cases "ok = 0")
      case True
      then show ?thesis using skip(1) by (simp add: Inr x)
    next
      case False
      then have "c = j1"
        using skip(2) [of ok c] by (simp add: Inr x)
      then show ?thesis
        using Suc.IH [OF rest] skip(1) False by (auto simp: Inr x)
    qed
  qed
qed

lemma isEmptyWKBPolygon_swapped:
  assumes "byteOrder = LITTLE_ENDIAN \<or> byteOrder = BIG_ENDIAN"
    and "length q = length p" and "int (length p) \<le> 2147483647" and "2 \<le> dimension"
    and "swapped p q index 4"
    and "reenc_rings p q dimension byteOrder (nat (int_at p index byteOrder)) (index + 4) j"
  shows "isEmptyWKBPolygon m q n_bytes index (opposite byteOrder) dimension
           = isEmptyWKBPolygon m p n_bytes index byteOrder dimension"
    and "isEmptyWKBPolygon m p n_bytes index byteOrder dimension = Inr (r, c) \<Longrightarrow> 0 \<le> r \<Longrightarrow>
         c = j"
proof -
  note reads = getInt_swapped [OF assms(1,5,2,3), of m]
  note loop = isEmptyWKBPolygon_loop_swapped [OF assms(1,2,3,4,6), of m n_bytes]
  have one: "int_at p index byteOrder = 1 \<Longrightarrow>
             reenc_linestring p q dimension byteOrder (index + 4) j"
  proof -
    assume "int_at p index byteOrder = 1"
    then have "reenc_rings p q dimension byteOrder (Suc 0) (index + 4) j"
      using assms(6) by simp
    then show ?thesis
      by (auto dest!: reenc_rings_Suc dest: reenc_rings_0)
  qed
  show "isEmptyWKBPolygon m q n_bytes index (opposite byteOrder) dimension
          = isEmptyWKBPolygon m p n_bytes index byteOrder dimension"
    using loop isEmptyWKBLineString_swapped(1) [OF assms(1,2,3) one assms(4), of m n_bytes]
    by (simp add: isEmptyWKBPolygon_def reads)
  show "isEmptyWKBPolygon m p n_bytes index byteOrder dimension = Inr (r, c) \<Longrightarrow> 0 \<le> r \<Longrightarrow>
        c = j"
    using loop isEmptyWKBLineString_swapped(2) [OF assms(1,2,3) one assms(4), of m n_bytes r c]
    by (auto simp: isEmptyWKBPolygon_def reads split: if_splits)
qed

subsection \<open>Emptiness of a record and of its elements\<close>

lemma agree_at_Inl [simp]: "agree_at (Inl e) (Inl e) j"
  by (simp add: agree_at_def)

lemma agree_at_failure [simp]: "r < 0 \<Longrightarrow> agree_at (Inr (r, c)) (Inr (r, c)) j"
  by (simp add: agree_at_def)

lemma agree_at_Inr [simp]: "0 \<le> r \<Longrightarrow> agree_at (Inr (r, c)) (Inr (r, c)) j \<longleftrightarrow> c = j"
  by (simp add: agree_at_def)

lemma agree_atI:
  "x = y \<Longrightarrow> (\<And>r c. y = Inr (r, c) \<Longrightarrow> 0 \<le> r \<Longrightarrow> c = j) \<Longrightarrow> agree_at x y j"
  by (simp add: agree_at_def)

lemma reenc_elems_0: "reenc_elems p q ord 0 index j \<Longrightarrow> j = index"
  by (erule reenc_elems.cases) auto

lemma isEmptyWKB_elements_swapped:
  assumes "byteOrder = LITTLE_ENDIAN \<or> byteOrder = BIG_ENDIAN"
    and "length q = length p" and "int (length p) \<le> 2147483647"
    and "swapped p q index 4"
    and "int_at p index byteOrder < 1 \<Longrightarrow> j = index + 4"
    and "\<And>kind. agree_at
           (isEmptyWKBElements_loop g m q n_bytes (opposite byteOrder) kind
              (nat (int_at p index byteOrder)) (index + 4) 1)
           (isEmptyWKBElements_loop g m p n_bytes byteOrder kind
              (nat (int_at p index byteOrder)) (index + 4) 1) j"
  shows "agree_at (isEmptyWKBMultiPoint_with g m q n_bytes index (opposite byteOrder) d)
           (isEmptyWKBMultiPoint_with g m p n_bytes index byteOrder d) j"
    and "agree_at (isEmptyWKBMultiLineString_with g m q n_bytes index (opposite byteOrder) d)
           (isEmptyWKBMultiLineString_with g m p n_bytes index byteOrder d) j"
    and "agree_at (isEmptyWKBMultiPolygon_with g m q n_bytes index (opposite byteOrder) d)
           (isEmptyWKBMultiPolygon_with g m p n_bytes index byteOrder d) j"
    and "agree_at (isEmptyWKBGeometryCollection_with g m q n_bytes index (opposite byteOrder) d)
           (isEmptyWKBGeometryCollection_with g m p n_bytes index byteOrder d) j"
  using assms(5,6) getInt_swapped [OF assms(1,4,2,3), of m]
  by (simp_all add: isEmptyWKBMultiPoint_with_def isEmptyWKBMultiLineString_with_def
      isEmptyWKBMultiPolygon_with_def isEmptyWKBGeometryCollection_with_def)

text \<open>By induction on the structure of the record: it is tested the same in
  the two byte orders, whatever the fuel, the machine, the byte order in force
  before it and the kind expected.\<close>

lemma isEmptyWKBGeometry_reenc:
  assumes "length q = length p" and "int (length p) \<le> 2147483647"
  shows "reenc p q ord index j \<Longrightarrow>
         agree_at (isEmptyWKBGeometry fuel m q n_bytes index a' kind)
           (isEmptyWKBGeometry fuel m p n_bytes index a kind) j"
    and "reenc_elems p q ord k index j \<Longrightarrow>
         agree_at (isEmptyWKBElements_loop (isEmptyWKBGeometry fuel) m q n_bytes b' kind k index res)
           (isEmptyWKBElements_loop (isEmptyWKBGeometry fuel) m p n_bytes b kind k index res) j"
proof (induct arbitrary: fuel a a' kind and fuel b b' kind res rule: reenc_reenc_elems.inducts)
  case (point index byteOrder typeInt body ord j)
  note head = record_head_reads(3) [OF point(1) assms]
  show ?case
  proof (cases fuel)
    case 0
    then show ?thesis by simp
  next
    case (Suc f)
    have "agree_at (isEmptyWKBPoint m q n_bytes body (opposite byteOrder) (wkb_dimension typeInt))
            (isEmptyWKBPoint m p n_bytes body byteOrder (wkb_dimension typeInt)) j"
      using isEmptyWKBPoint_swapped [OF head assms point(4) wkb_dimension_range, of m n_bytes]
        point(5)
      by (intro agree_atI) auto
    then show ?thesis
      unfolding Suc isEmptyWKBGeometry_head [OF point(1) assms]
      by (simp add: isEmptyWKB_dispatch_def point(2))
  qed
next
  case (linestring index byteOrder typeInt body ord j)
  note head = record_head_reads(3) [OF linestring(1) assms]
  have dim: "2 \<le> wkb_dimension typeInt"
    using wkb_dimension_range [of typeInt] by auto
  show ?case
  proof (cases fuel)
    case 0
    then show ?thesis by simp
  next
    case (Suc f)
    have "agree_at
            (isEmptyWKBLineString m q n_bytes body (opposite byteOrder) (wkb_dimension typeInt))
            (isEmptyWKBLineString m p n_bytes body byteOrder (wkb_dimension typeInt)) j"
      using isEmptyWKBLineString_swapped [OF head assms linestring(4) dim, of m n_bytes]
      by (intro agree_atI) auto
    then show ?thesis
      unfolding Suc isEmptyWKBGeometry_head [OF linestring(1) assms]
      by (simp add: isEmptyWKB_dispatch_def linestring(2))
  qed
next
  case (polygon index byteOrder typeInt body ord j)
  note head = record_head_reads(3) [OF polygon(1) assms]
  have dim: "2 \<le> wkb_dimension typeInt"
    using wkb_dimension_range [of typeInt] by auto
  show ?case
  proof (cases fuel)
    case 0
    then show ?thesis by simp
  next
    case (Suc f)
    have "agree_at
            (isEmptyWKBPolygon m q n_bytes body (opposite byteOrder) (wkb_dimension typeInt))
            (isEmptyWKBPolygon m p n_bytes body byteOrder (wkb_dimension typeInt)) j"
      using isEmptyWKBPolygon_swapped [OF head assms dim polygon(4,5), of m n_bytes]
      by (intro agree_atI) auto
    then show ?thesis
      unfolding Suc isEmptyWKBGeometry_head [OF polygon(1) assms]
      by (simp add: isEmptyWKB_dispatch_def polygon(2))
  qed
next
  case (elements index byteOrder typeInt body ord j)
  note head = record_head_reads(3) [OF elements(1) assms]
  show ?case
  proof (cases fuel)
    case 0
    then show ?thesis by simp
  next
    case (Suc f)
    have none: "int_at p body byteOrder < 1 \<Longrightarrow> j = body + 4"
      using elements(4) by (auto dest: reenc_elems_0)
    note parts = isEmptyWKB_elements_swapped [OF head assms elements(3) none,
        of "isEmptyWKBGeometry f" m n_bytes "wkb_dimension typeInt", OF _ elements(5)]
    show ?thesis
      unfolding Suc isEmptyWKBGeometry_head [OF elements(1) assms]
      using elements(2) parts by (auto simp: isEmptyWKB_dispatch_def)
  qed
next
  case (no_elems ord index)
  show ?case by (simp add: agree_at_def)
next
  case (elem ord index j k j')
  note first = elem(2) [of fuel b' kind b]
  note rest = elem(4) [of fuel b' kind _ b]
  show ?case
  proof (cases "isEmptyWKBGeometry fuel m p n_bytes index b kind")
    case (Inl e)
    then show ?thesis using first by (simp add: agree_at_def)
  next
    case (Inr x)
    obtain r c where x: "x = (r, c)" by (cases x)
    show ?thesis
    proof (cases "r < 0")
      case True
      then show ?thesis using first by (simp add: agree_at_def Inr x)
    next
      case False
      then have "c = j" using first by (simp add: agree_at_def Inr x)
      then show ?thesis
        using first rest False by (simp add: agree_at_def Inr x)
    qed
  qed
qed

subsection \<open>The envelope of the kinds without elements\<close>

lemma readWKBGeometryEnv_Suc:
  "readWKBGeometryEnv (Suc fuel) m p_blob n_bytes index byteOrder ordinate maxmin
     geometryTypeExpected res =
     bnd (peek p_blob index)
       (\<lambda>newByteOrder.
          bnd (getInt m p_blob (i32 (index + 1)) (wkb_byteOrder newByteOrder byteOrder))
            (\<lambda>(typeInt, index).
               if \<not> (wkb_dimension typeInt = 3 \<and> ordinate = ord_M)
                    \<and> wkb_dimension typeInt < ordinate
               then Inr (0, index, res)
               else readWKB_dispatch (readWKBGeometryEnv fuel) m p_blob n_bytes
                      (wkb_body typeInt index) (wkb_byteOrder newByteOrder byteOrder)
                      (wkb_ordinate typeInt ordinate) maxmin geometryTypeExpected
                      (wkb_dimension typeInt) (wkb_geometryType typeInt) res))"
  by (simp add: Let_def wkb_byteOrder_def wkb_hasZ_def wkb_hasM_def wkb_dimension_def
      wkb_body_def wkb_geometryType_def wkb_ordinate_def readWKB_dispatch_def cong: if_cong)

lemma readWKBGeometryEnv_head:
  assumes "record_head p q index byteOrder typeInt body"
    and "length q = length p" and "int (length p) \<le> 2147483647"
  shows "readWKBGeometryEnv (Suc fuel) m p n_bytes index a ordinate maxmin kind res =
           (if \<not> (wkb_dimension typeInt = 3 \<and> ordinate = ord_M)
                \<and> wkb_dimension typeInt < ordinate
            then Inr (0, index + 5, res)
            else readWKB_dispatch (readWKBGeometryEnv fuel) m p n_bytes body byteOrder
                   (wkb_ordinate typeInt ordinate) maxmin kind (wkb_dimension typeInt)
                   (wkb_geometryType typeInt) res)"
    and "readWKBGeometryEnv (Suc fuel) m q n_bytes index a' ordinate maxmin kind res =
           (if \<not> (wkb_dimension typeInt = 3 \<and> ordinate = ord_M)
                \<and> wkb_dimension typeInt < ordinate
            then Inr (0, index + 5, res)
            else readWKB_dispatch (readWKBGeometryEnv fuel) m q n_bytes body (opposite byteOrder)
                   (wkb_ordinate typeInt ordinate) maxmin kind (wkb_dimension typeInt)
                   (wkb_geometryType typeInt) res)"
  using record_head_reads [OF assms]
  by (simp_all add: readWKBGeometryEnv_Suc wkb_byteOrder_valid wkb_byteOrder_opposite
      del: readWKBGeometryEnv.simps)

lemma agree_env_Inl [simp]: "agree_env (Inl e) (Inl e) j"
  by (simp add: agree_env_def)

lemma agree_env_failure [simp]: "agree_env (Inr (0, c, d)) (Inr (0, c, d)) j"
  by (simp add: agree_env_def)

lemma agree_env_Inr [simp]:
  "ok \<noteq> 0 \<Longrightarrow> agree_env (Inr (ok, c, d)) (Inr (ok, c, d)) j \<longleftrightarrow> c = j"
  by (simp add: agree_env_def)

lemma swapped_floats_mono:
  "swapped_floats p q index count \<Longrightarrow> c \<le> count \<Longrightarrow> swapped_floats p q index c"
  unfolding swapped_floats_def by auto

lemma readWKBPointOrd_swapped:
  assumes "byteOrder = LITTLE_ENDIAN \<or> byteOrder = BIG_ENDIAN"
    and "length q = length p" and "int (length p) \<le> 2147483647"
    and "swapped_floats p q index dimension"
    and "0 \<le> ordinate" and "ordinate < dimension"
  shows "agree_env
           (readWKBPointOrd m q n_bytes index (opposite byteOrder) dimension ordinate res)
           (readWKBPointOrd m p n_bytes index byteOrder dimension ordinate res)
           (index + 8 * dimension)"
proof -
  have here: "swapped p q (index + 8 * ordinate) 8"
    using swapped_floats_at [OF assms(4,5,6)] .
  have inside: "0 \<le> index" "index + 8 * dimension \<le> int (length p)"
    using swapped_floats_end [OF assms(4)] assms(5,6) by auto
  have at: "i32 (index + ordinate * 8) = index + 8 * ordinate"
    using inside assms(3,5,6) by (subst i32_id) auto
  have stop: "i32 (index + 8 * ordinate + 8 + (dimension - ordinate - 1) * 8)
                = index + 8 * dimension"
    using inside assms(3,5,6) by (subst i32_id) auto
  from getDouble_swapped [OF assms(1) here assms(2,3), of m] obtain d where
    "getDouble m q (index + 8 * ordinate) (opposite byteOrder)
       = Inr (d, index + 8 * ordinate + 8)"
    and "getDouble m p (index + 8 * ordinate) byteOrder = Inr (d, index + 8 * ordinate + 8)"
    by auto
  then show ?thesis
    using stop by (auto simp: readWKBPointOrd_def at)
qed

lemma readWKBLineStringEnv_loop_swapped:
  assumes "byteOrder = LITTLE_ENDIAN \<or> byteOrder = BIG_ENDIAN"
    and "length q = length p" and "int (length p) \<le> 2147483647"
    and "0 \<le> ordinate" and "ordinate < dimension"
  shows "swapped_floats p q index (int k * dimension) \<Longrightarrow>
         agree_env
           (readWKBLineStringEnv_loop m q n_bytes (opposite byteOrder) dimension ordinate maxmin
              k index res res2)
           (readWKBLineStringEnv_loop m p n_bytes byteOrder dimension ordinate maxmin
              k index res res2)
           (index + 8 * (int k * dimension))"
proof (induction k arbitrary: index res res2)
  case 0
  show ?case by simp
next
  case (Suc k)
  have dim: "0 < dimension" using assms(4,5) by simp
  have "dimension \<le> int (Suc k) * dimension"
    using dim by (simp add: algebra_simps)
  then have first: "swapped_floats p q index dimension"
    by (rule swapped_floats_mono [OF Suc.prems])
  have "swapped_floats p q (index + 8 * dimension) (int (Suc k) * dimension - dimension)"
    using swapped_floats_rest [OF Suc.prems, of dimension] dim by simp
  then have rest: "swapped_floats p q (index + 8 * dimension) (int k * dimension)"
    by (simp add: algebra_simps)
  note point = readWKBPointOrd_swapped [OF assms(1,2,3) first assms(4,5), of m n_bytes res2]
  note IH = Suc.IH [OF rest]
  have stop: "index + 8 * dimension + 8 * (int k * dimension)
                = index + 8 * (int (Suc k) * dimension)"
    by (simp add: algebra_simps)
  show ?case
  proof (cases "readWKBPointOrd m p n_bytes index byteOrder dimension ordinate res2")
    case (Inl e)
    then show ?thesis using point by (simp add: agree_env_def)
  next
    case (Inr x)
    obtain ok c d where x: "x = (ok, c, d)" by (cases x)
    show ?thesis
    proof (cases "ok = 0")
      case True
      then show ?thesis using point by (simp add: agree_env_def Inr x)
    next
      case False
      then have "c = index + 8 * dimension"
        using point by (simp add: agree_env_def Inr x)
      then show ?thesis
        using point IH [of "keep_extreme maxmin d res" d] False
        unfolding stop by (simp add: agree_env_def Inr x)
    qed
  qed
qed

lemma readWKBLineStringEnv_swapped:
  assumes "byteOrder = LITTLE_ENDIAN \<or> byteOrder = BIG_ENDIAN"
    and "length q = length p" and "int (length p) \<le> 2147483647"
    and "reenc_linestring p q dimension byteOrder index j"
    and "0 \<le> ordinate" and "ordinate < dimension"
  shows "agree_env
           (readWKBLineStringEnv m q n_bytes index (opposite byteOrder) dimension ordinate maxmin
              res)
           (readWKBLineStringEnv m p n_bytes index byteOrder dimension ordinate maxmin res) j"
proof -
  define numPoints where "numPoints = int_at p index byteOrder"
  have count: "swapped p q index 4"
    using assms(4) by (simp add: reenc_linestring_def)
  note reads = getInt_swapped [OF assms(1) count assms(2,3), of m, folded numPoints_def]
  show ?thesis
  proof (cases "numPoints < 1 \<or> i32 (index + 4 + numPoints * dimension * 8) > n_bytes")
    case True
    then show ?thesis
      by (auto simp: readWKBLineStringEnv_def reads)
  next
    case False
    then have some: "1 \<le> numPoints" by simp
    have dim: "0 < dimension" using assms(5,6) by simp
    have run: "swapped_floats p q (index + 4) (numPoints * dimension)"
      and j: "j = index + 4 + 8 * (numPoints * dimension)"
      using assms(4) some by (simp_all add: reenc_linestring_def numPoints_def)
    have "dimension \<le> numPoints * dimension"
      using some dim by (simp add: mult_le_cancel_right1)
    then have first: "swapped_floats p q (index + 4) dimension"
      by (rule swapped_floats_mono [OF run])
    have "swapped_floats p q (index + 4 + 8 * dimension) (numPoints * dimension - dimension)"
      using swapped_floats_rest [OF run, of dimension] dim by simp
    then have rest: "swapped_floats p q (index + 4 + 8 * dimension)
                       (int (nat (numPoints - 1)) * dimension)"
      using some by (simp add: algebra_simps)
    have stop: "index + 4 + 8 * dimension + 8 * (int (nat (numPoints - 1)) * dimension) = j"
      using some by (simp add: j algebra_simps)
    note point = readWKBPointOrd_swapped [OF assms(1,2,3) first assms(5,6), of m n_bytes res]
    note loop = readWKBLineStringEnv_loop_swapped [OF assms(1,2,3,5,6) rest,
        of m n_bytes maxmin, unfolded stop]
    show ?thesis
    proof (cases "readWKBPointOrd m p n_bytes (index + 4) byteOrder dimension ordinate res")
      case (Inl e)
      then show ?thesis
        using point False by (simp add: readWKBLineStringEnv_def reads agree_env_def)
    next
      case (Inr x)
      obtain ok c d where x: "x = (ok, c, d)" by (cases x)
      show ?thesis
      proof (cases "ok = 0")
        case True
        then show ?thesis
          using point False by (simp add: readWKBLineStringEnv_def reads agree_env_def Inr x)
      next
        case nz: False
        then have "c = index + 4 + 8 * dimension"
          using point by (simp add: agree_env_def Inr x)
        then show ?thesis
          using point loop [of d uninitialised] False nz
          by (simp add: readWKBLineStringEnv_def reads agree_env_def Inr x)
      qed
    qed
  qed
qed

lemma readWKBPolygonEnv_skip_swapped:
  assumes "byteOrder = LITTLE_ENDIAN \<or> byteOrder = BIG_ENDIAN"
    and "length q = length p" and "int (length p) \<le> 2147483647" and "2 \<le> dimension"
  shows "reenc_rings p q dimension byteOrder k index j \<Longrightarrow>
         agree_env
           (readWKBPolygonEnv_skip m q n_bytes (opposite byteOrder) dimension k index res)
           (readWKBPolygonEnv_skip m p n_bytes byteOrder dimension k index res) j"
proof (induction k arbitrary: index)
  case 0
  then show ?case by (auto dest: reenc_rings_0)
next
  case (Suc k)
  from reenc_rings_Suc [OF Suc.prems] obtain j1 where
    first: "reenc_linestring p q dimension byteOrder index j1"
    and rest: "reenc_rings p q dimension byteOrder k j1 j"
    by blast
  note skip = skipWKBLineString_swapped [OF assms(1,2,3) first assms(4), of m n_bytes]
  show ?case
  proof (cases "skipWKBLineString m p n_bytes index byteOrder dimension")
    case (Inl e)
    then show ?thesis using skip(1) by simp
  next
    case (Inr x)
    obtain ok c where x: "x = (ok, c)" by (cases x)
    show ?thesis
    proof (cases "ok = 0")
      case True
      then show ?thesis using skip(1) by (simp add: Inr x)
    next
      case False
      then have "c = j1"
        using skip(2) [of ok c] by (simp add: Inr x)
      then show ?thesis
        using Suc.IH [OF rest] skip(1) False by (simp add: Inr x)
    qed
  qed
qed

lemma readWKBPolygonEnv_read_swapped:
  assumes "byteOrder = LITTLE_ENDIAN \<or> byteOrder = BIG_ENDIAN"
    and "length q = length p" and "int (length p) \<le> 2147483647"
    and "0 \<le> ordinate" and "ordinate < dimension"
  shows "reenc_rings p q dimension byteOrder k index j \<Longrightarrow>
         agree_env
           (readWKBPolygonEnv_read m q n_bytes (opposite byteOrder) dimension ordinate maxmin
              k index res res2)
           (readWKBPolygonEnv_read m p n_bytes byteOrder dimension ordinate maxmin
              k index res res2) j"
proof (induction k arbitrary: index res res2)
  case 0
  then show ?case by (auto dest: reenc_rings_0)
next
  case (Suc k)
  from reenc_rings_Suc [OF Suc.prems] obtain j1 where
    first: "reenc_linestring p q dimension byteOrder index j1"
    and rest: "reenc_rings p q dimension byteOrder k j1 j"
    by blast
  note ring = readWKBLineStringEnv_swapped [OF assms(1,2,3) first assms(4,5),
      of m n_bytes maxmin res2]
  show ?case
  proof (cases "readWKBLineStringEnv m p n_bytes index byteOrder dimension ordinate maxmin res2")
    case (Inl e)
    then show ?thesis using ring by (simp add: agree_env_def)
  next
    case (Inr x)
    obtain ok c d where x: "x = (ok, c, d)" by (cases x)
    show ?thesis
    proof (cases "ok = 0")
      case True
      then show ?thesis using ring by (simp add: agree_env_def Inr x)
    next
      case False
      then have "c = j1"
        using ring by (simp add: agree_env_def Inr x)
      then show ?thesis
        using ring Suc.IH [OF rest, of "keep_extreme maxmin d res" d] False
        by (simp add: agree_env_def Inr x)
    qed
  qed
qed

lemma readWKBPolygonEnv_swapped:
  assumes "byteOrder = LITTLE_ENDIAN \<or> byteOrder = BIG_ENDIAN"
    and "length q = length p" and "int (length p) \<le> 2147483647"
    and "0 \<le> ordinate" and "ordinate < dimension" and "2 \<le> dimension"
    and "swapped p q index 4"
    and "reenc_rings p q dimension byteOrder (nat (int_at p index byteOrder)) (index + 4) j"
  shows "agree_env
           (readWKBPolygonEnv m q n_bytes index (opposite byteOrder) dimension ordinate maxmin res)
           (readWKBPolygonEnv m p n_bytes index byteOrder dimension ordinate maxmin res) j"
proof -
  define numRings where "numRings = int_at p index byteOrder"
  note reads = getInt_swapped [OF assms(1,7,2,3), of m, folded numRings_def]
  show ?thesis
  proof (cases "numRings < 1")
    case True
    then show ?thesis
      by (simp add: readWKBPolygonEnv_def reads)
  next
    case False
    then have "nat numRings = Suc (nat (numRings - 1))" by simp
    with assms(8) have "reenc_rings p q dimension byteOrder (Suc (nat (numRings - 1))) (index + 4) j"
      by (simp add: numRings_def)
    from reenc_rings_Suc [OF this] obtain j1 where
      first: "reenc_linestring p q dimension byteOrder (index + 4) j1"
      and rest: "reenc_rings p q dimension byteOrder (nat (numRings - 1)) j1 j"
      by blast
    note ring = readWKBLineStringEnv_swapped [OF assms(1,2,3) first assms(4,5),
        of m n_bytes maxmin res]
    note skip = readWKBPolygonEnv_skip_swapped [OF assms(1,2,3,6) rest, of m n_bytes]
    note read = readWKBPolygonEnv_read_swapped [OF assms(1,2,3,4,5) rest, of m n_bytes maxmin]
    show ?thesis
    proof (cases "readWKBLineStringEnv m p n_bytes (index + 4) byteOrder dimension ordinate
                    maxmin res")
      case (Inl e)
      then show ?thesis
        using ring False by (simp add: readWKBPolygonEnv_def reads agree_env_def)
    next
      case (Inr x)
      obtain ok c d where x: "x = (ok, c, d)" by (cases x)
      show ?thesis
      proof (cases "ok = 0")
        case True
        then show ?thesis
          using ring False by (simp add: readWKBPolygonEnv_def reads agree_env_def Inr x)
      next
        case nz: False
        then have "c = j1"
          using ring by (simp add: agree_env_def Inr x)
        then show ?thesis
          using ring skip [of d] read [of d uninitialised] False nz
          by (simp add: readWKBPolygonEnv_def reads agree_env_def Inr x)
      qed
    qed
  qed
qed

subsection \<open>The envelope of a record and of its elements\<close>

lemma wkb_ordinate_range:
  "0 \<le> ordinate \<Longrightarrow> ordinate \<le> 3 \<Longrightarrow>
   0 \<le> wkb_ordinate typeInt ordinate \<and> wkb_ordinate typeInt ordinate \<le> 3"
  by (simp add: wkb_ordinate_def)

lemma wkb_ordinate_inside:
  assumes "0 \<le> ordinate" and "ordinate \<le> 3"
    and "\<not> (wkb_dimension typeInt = 2 \<and> ordinate = ord_Z)"
    and "\<not> (\<not> (wkb_dimension typeInt = 3 \<and> ordinate = ord_M)
            \<and> wkb_dimension typeInt < ordinate)"
  shows "0 \<le> wkb_ordinate typeInt ordinate"
    and "wkb_ordinate typeInt ordinate < wkb_dimension typeInt"
  using assms wkb_dimension_range [of typeInt] by (auto simp: wkb_ordinate_def)

lemma agree_env_return:
  "agree_env x y j \<Longrightarrow>
   agree_env (bnd x (\<lambda>(ok, index, res). Inr (if ok = 0 then 0 else 1, index, res)))
     (bnd y (\<lambda>(ok, index, res). Inr (if ok = 0 then 0 else (1 :: int), index, res))) j"
  by (cases y) (auto simp: agree_env_def)

lemma readWKB_elements_swapped:
  assumes "byteOrder = LITTLE_ENDIAN \<or> byteOrder = BIG_ENDIAN"
    and "length q = length p" and "int (length p) \<le> 2147483647"
    and "swapped p q index 4"
    and "\<And>kind. \<not> int_at p index byteOrder < 1 \<Longrightarrow> agree_env
           (bnd (g m q n_bytes (index + 4) (opposite byteOrder) ordinate maxmin kind res)
              (\<lambda>(ok, i, r).
                 if ok = 0 then Inr (0, i, r)
                 else readWKBElementsEnv_loop g m q n_bytes (opposite byteOrder) ordinate maxmin
                        kind (nat (int_at p index byteOrder - 1)) i r uninitialised))
           (bnd (g m p n_bytes (index + 4) byteOrder ordinate maxmin kind res)
              (\<lambda>(ok, i, r).
                 if ok = 0 then Inr (0, i, r)
                 else readWKBElementsEnv_loop g m p n_bytes byteOrder ordinate maxmin
                        kind (nat (int_at p index byteOrder - 1)) i r uninitialised)) j"
  shows "agree_env
           (readWKBMultiPointEnv_with g m q n_bytes index (opposite byteOrder) d ordinate maxmin res)
           (readWKBMultiPointEnv_with g m p n_bytes index byteOrder d ordinate maxmin res) j"
    and "agree_env
           (readWKBMultiLineStringEnv_with g m q n_bytes index (opposite byteOrder) d ordinate
              maxmin res)
           (readWKBMultiLineStringEnv_with g m p n_bytes index byteOrder d ordinate maxmin res) j"
    and "agree_env
           (readWKBMultiPolygonEnv_with g m q n_bytes index (opposite byteOrder) d ordinate
              maxmin res)
           (readWKBMultiPolygonEnv_with g m p n_bytes index byteOrder d ordinate maxmin res) j"
    and "agree_env
           (readWKBGeometryCollectionEnv_with g m q n_bytes index (opposite byteOrder) d ordinate
              maxmin res)
           (readWKBGeometryCollectionEnv_with g m p n_bytes index byteOrder d ordinate maxmin
              res) j"
proof -
  note reads = getInt_swapped [OF assms(1,4,2,3), of m]
  have common: "agree_env
      (bnd (getInt m q index (opposite byteOrder))
         (\<lambda>(numGeoms, index).
            if numGeoms < 1 then Inr (0, index, res)
            else bnd (g m q n_bytes index (opposite byteOrder) ordinate maxmin kind res)
                   (\<lambda>(ok, index, res).
                      if ok = 0 then Inr (0, index, res)
                      else readWKBElementsEnv_loop g m q n_bytes (opposite byteOrder) ordinate
                             maxmin kind (nat (numGeoms - 1)) index res uninitialised)))
      (bnd (getInt m p index byteOrder)
         (\<lambda>(numGeoms, index).
            if numGeoms < 1 then Inr (0, index, res)
            else bnd (g m p n_bytes index byteOrder ordinate maxmin kind res)
                   (\<lambda>(ok, index, res).
                      if ok = 0 then Inr (0, index, res)
                      else readWKBElementsEnv_loop g m p n_bytes byteOrder ordinate
                             maxmin kind (nat (numGeoms - 1)) index res uninitialised))) j"
    for kind
  proof (cases "int_at p index byteOrder < 1")
    case True
    then show ?thesis by (simp add: reads)
  next
    case False
    from assms(5) [OF False, of kind] show ?thesis
      by (simp only: reads bnd_Inr prod.case False if_False)
  qed
  show "agree_env
          (readWKBMultiPointEnv_with g m q n_bytes index (opposite byteOrder) d ordinate maxmin res)
          (readWKBMultiPointEnv_with g m p n_bytes index byteOrder d ordinate maxmin res) j"
    unfolding readWKBMultiPointEnv_with_def by (rule common)
  show "agree_env
          (readWKBMultiLineStringEnv_with g m q n_bytes index (opposite byteOrder) d ordinate
             maxmin res)
          (readWKBMultiLineStringEnv_with g m p n_bytes index byteOrder d ordinate maxmin res) j"
    unfolding readWKBMultiLineStringEnv_with_def by (rule common)
  show "agree_env
          (readWKBMultiPolygonEnv_with g m q n_bytes index (opposite byteOrder) d ordinate
             maxmin res)
          (readWKBMultiPolygonEnv_with g m p n_bytes index byteOrder d ordinate maxmin res) j"
    unfolding readWKBMultiPolygonEnv_with_def by (rule common)
  show "agree_env
          (readWKBGeometryCollectionEnv_with g m q n_bytes index (opposite byteOrder) d ordinate
             maxmin res)
          (readWKBGeometryCollectionEnv_with g m p n_bytes index byteOrder d ordinate maxmin
             res) j"
    unfolding readWKBGeometryCollectionEnv_with_def by (rule common)
qed

lemma readWKBElementsEnv_step:
  assumes "agree_env (g m q n_bytes index b' ordinate maxmin kind old)
             (g m p n_bytes index b ordinate maxmin kind old) j1"
    and "\<And>res res2. agree_env
           (readWKBElementsEnv_loop g m q n_bytes b' ordinate maxmin kind k j1 res res2)
           (readWKBElementsEnv_loop g m p n_bytes b ordinate maxmin kind k j1 res res2) j"
  shows "agree_env
           (readWKBElementsEnv_loop g m q n_bytes b' ordinate maxmin kind (Suc k) index res old)
           (readWKBElementsEnv_loop g m p n_bytes b ordinate maxmin kind (Suc k) index res old) j"
    and "agree_env
           (bnd (g m q n_bytes index b' ordinate maxmin kind old)
              (\<lambda>(ok, index, res).
                 if ok = 0 then Inr (0, index, res)
                 else readWKBElementsEnv_loop g m q n_bytes b' ordinate maxmin kind k index res
                        uninitialised))
           (bnd (g m p n_bytes index b ordinate maxmin kind old)
              (\<lambda>(ok, index, res).
                 if ok = 0 then Inr (0, index, res)
                 else readWKBElementsEnv_loop g m p n_bytes b ordinate maxmin kind k index res
                        uninitialised)) j"
proof -
  show "agree_env
          (readWKBElementsEnv_loop g m q n_bytes b' ordinate maxmin kind (Suc k) index res old)
          (readWKBElementsEnv_loop g m p n_bytes b ordinate maxmin kind (Suc k) index res old) j"
  proof (cases "g m p n_bytes index b ordinate maxmin kind old")
    case (Inl e)
    then show ?thesis using assms(1) by (simp add: agree_env_def)
  next
    case (Inr x)
    obtain ok c d where x: "x = (ok, c, d)" by (cases x)
    show ?thesis
    proof (cases "ok = 0")
      case True
      then show ?thesis using assms(1) by (simp add: agree_env_def Inr x)
    next
      case False
      then have "c = j1" using assms(1) by (simp add: agree_env_def Inr x)
      then show ?thesis
        using assms(1) assms(2) [of "keep_extreme maxmin d res" d] False
        by (simp add: agree_env_def Inr x)
    qed
  qed
  show "agree_env
          (bnd (g m q n_bytes index b' ordinate maxmin kind old)
             (\<lambda>(ok, index, res).
                if ok = 0 then Inr (0, index, res)
                else readWKBElementsEnv_loop g m q n_bytes b' ordinate maxmin kind k index res
                       uninitialised))
          (bnd (g m p n_bytes index b ordinate maxmin kind old)
             (\<lambda>(ok, index, res).
                if ok = 0 then Inr (0, index, res)
                else readWKBElementsEnv_loop g m p n_bytes b ordinate maxmin kind k index res
                       uninitialised)) j"
  proof (cases "g m p n_bytes index b ordinate maxmin kind old")
    case (Inl e)
    then show ?thesis using assms(1) by (simp add: agree_env_def)
  next
    case (Inr x)
    obtain ok c d where x: "x = (ok, c, d)" by (cases x)
    show ?thesis
    proof (cases "ok = 0")
      case True
      then show ?thesis using assms(1) by (simp add: agree_env_def Inr x)
    next
      case False
      then have "c = j1" using assms(1) by (simp add: agree_env_def Inr x)
      then show ?thesis
        using assms(1) assms(2) [of d uninitialised] False
        by (simp add: agree_env_def Inr x)
    qed
  qed
qed

lemma reenc_elems_Suc:
  "reenc_elems p q ord (Suc k) index j \<Longrightarrow>
   \<exists>j1. reenc p q ord index j1 \<and> reenc_elems p q ord k j1 j"
  by (erule reenc_elems.cases) auto

text \<open>By the same induction: the envelope reader returns the same value in the
  two byte orders for an ordinate from X to M.  The second statement is about
  the elements of a record: the loop over them, and the read of the first
  element followed by the loop over the others.\<close>

lemma readWKBGeometryEnv_reenc:
  assumes "length q = length p" and "int (length p) \<le> 2147483647"
  shows "reenc p q ord index j \<Longrightarrow> 0 \<le> ord \<Longrightarrow> ord \<le> 3 \<Longrightarrow>
         agree_env (readWKBGeometryEnv fuel m q n_bytes index a' ord maxmin kind res)
           (readWKBGeometryEnv fuel m p n_bytes index a ord maxmin kind res) j"
    and "reenc_elems p q ord k index j \<Longrightarrow> 0 \<le> ord \<Longrightarrow> ord \<le> 3 \<Longrightarrow>
         agree_env
           (readWKBElementsEnv_loop (readWKBGeometryEnv fuel) m q n_bytes b' ord maxmin kind k
              index res res2)
           (readWKBElementsEnv_loop (readWKBGeometryEnv fuel) m p n_bytes b ord maxmin kind k
              index res res2) j
         \<and> (0 < k \<longrightarrow> agree_env
           (bnd (readWKBGeometryEnv fuel m q n_bytes index b' ord maxmin kind res)
              (\<lambda>(ok, i, r).
                 if ok = 0 then Inr (0, i, r)
                 else readWKBElementsEnv_loop (readWKBGeometryEnv fuel) m q n_bytes b' ord maxmin
                        kind (k - 1) i r uninitialised))
           (bnd (readWKBGeometryEnv fuel m p n_bytes index b ord maxmin kind res)
              (\<lambda>(ok, i, r).
                 if ok = 0 then Inr (0, i, r)
                 else readWKBElementsEnv_loop (readWKBGeometryEnv fuel) m p n_bytes b ord maxmin
                        kind (k - 1) i r uninitialised)) j)"
proof (induct arbitrary: fuel a a' kind res and fuel b b' kind res res2
    rule: reenc_reenc_elems.inducts)
  case (point index byteOrder typeInt body ord j)
  note head = record_head_reads(3) [OF point(1) assms]
  show ?case
  proof (cases fuel)
    case 0
    then show ?thesis by simp
  next
    case (Suc f)
    show ?thesis
    proof (cases "\<not> (wkb_dimension typeInt = 3 \<and> ord = ord_M) \<and> wkb_dimension typeInt < ord")
      case True
      then show ?thesis
        unfolding Suc readWKBGeometryEnv_head [OF point(1) assms] by simp
    next
      case False
      note inside = wkb_ordinate_inside [OF point(6,7,3) False]
      have "agree_env
              (readWKBPointOrd m q n_bytes body (opposite byteOrder) (wkb_dimension typeInt)
                 (wkb_ordinate typeInt ord) res)
              (readWKBPointOrd m p n_bytes body byteOrder (wkb_dimension typeInt)
                 (wkb_ordinate typeInt ord) res) j"
        unfolding point(5)
        by (rule readWKBPointOrd_swapped [OF head assms point(4) inside])
      from agree_env_return [OF this] show ?thesis
        unfolding Suc readWKBGeometryEnv_head [OF point(1) assms] if_not_P [OF False]
        by (simp add: readWKB_dispatch_def point(2))
    qed
  qed
next
  case (linestring index byteOrder typeInt body ord j)
  note head = record_head_reads(3) [OF linestring(1) assms]
  show ?case
  proof (cases fuel)
    case 0
    then show ?thesis by simp
  next
    case (Suc f)
    show ?thesis
    proof (cases "\<not> (wkb_dimension typeInt = 3 \<and> ord = ord_M) \<and> wkb_dimension typeInt < ord")
      case True
      then show ?thesis
        unfolding Suc readWKBGeometryEnv_head [OF linestring(1) assms] by simp
    next
      case False
      note inside = wkb_ordinate_inside [OF linestring(5,6,3) False]
      have "agree_env
              (readWKBLineStringEnv m q n_bytes body (opposite byteOrder) (wkb_dimension typeInt)
                 (wkb_ordinate typeInt ord) maxmin res)
              (readWKBLineStringEnv m p n_bytes body byteOrder (wkb_dimension typeInt)
                 (wkb_ordinate typeInt ord) maxmin res) j"
        by (rule readWKBLineStringEnv_swapped [OF head assms linestring(4) inside])
      from agree_env_return [OF this] show ?thesis
        unfolding Suc readWKBGeometryEnv_head [OF linestring(1) assms] if_not_P [OF False]
        by (simp add: readWKB_dispatch_def linestring(2))
    qed
  qed
next
  case (polygon index byteOrder typeInt body ord j)
  note head = record_head_reads(3) [OF polygon(1) assms]
  have dim: "2 \<le> wkb_dimension typeInt"
    using wkb_dimension_range [of typeInt] by auto
  show ?case
  proof (cases fuel)
    case 0
    then show ?thesis by simp
  next
    case (Suc f)
    show ?thesis
    proof (cases "\<not> (wkb_dimension typeInt = 3 \<and> ord = ord_M) \<and> wkb_dimension typeInt < ord")
      case True
      then show ?thesis
        unfolding Suc readWKBGeometryEnv_head [OF polygon(1) assms] by simp
    next
      case False
      note inside = wkb_ordinate_inside [OF polygon(6,7,3) False]
      have "agree_env
              (readWKBPolygonEnv m q n_bytes body (opposite byteOrder) (wkb_dimension typeInt)
                 (wkb_ordinate typeInt ord) maxmin res)
              (readWKBPolygonEnv m p n_bytes body byteOrder (wkb_dimension typeInt)
                 (wkb_ordinate typeInt ord) maxmin res) j"
        by (rule readWKBPolygonEnv_swapped [OF head assms inside dim polygon(4,5)])
      from agree_env_return [OF this] show ?thesis
        unfolding Suc readWKBGeometryEnv_head [OF polygon(1) assms] if_not_P [OF False]
        by (simp add: readWKB_dispatch_def polygon(2))
    qed
  qed
next
  case (elements index byteOrder typeInt body ord j)
  note head = record_head_reads(3) [OF elements(1) assms]
  note range = wkb_ordinate_range [OF elements(6,7), of typeInt]
  show ?case
  proof (cases fuel)
    case 0
    then show ?thesis by simp
  next
    case (Suc f)
    show ?thesis
    proof (cases "\<not> (wkb_dimension typeInt = 3 \<and> ord = ord_M) \<and> wkb_dimension typeInt < ord")
      case True
      then show ?thesis
        unfolding Suc readWKBGeometryEnv_head [OF elements(1) assms] by simp
    next
      case False
      have some: "nat (int_at p body byteOrder) - 1 = nat (int_at p body byteOrder - 1)"
        by simp
      have first: "agree_env
           (bnd (readWKBGeometryEnv f m q n_bytes (body + 4) (opposite byteOrder)
                   (wkb_ordinate typeInt ord) maxmin kind' res)
              (\<lambda>(ok, i, r).
                 if ok = 0 then Inr (0, i, r)
                 else readWKBElementsEnv_loop (readWKBGeometryEnv f) m q n_bytes
                        (opposite byteOrder) (wkb_ordinate typeInt ord) maxmin
                        kind' (nat (int_at p body byteOrder - 1)) i r uninitialised))
           (bnd (readWKBGeometryEnv f m p n_bytes (body + 4) byteOrder
                   (wkb_ordinate typeInt ord) maxmin kind' res)
              (\<lambda>(ok, i, r).
                 if ok = 0 then Inr (0, i, r)
                 else readWKBElementsEnv_loop (readWKBGeometryEnv f) m p n_bytes byteOrder
                        (wkb_ordinate typeInt ord) maxmin
                        kind' (nat (int_at p body byteOrder - 1)) i r uninitialised)) j"
        if "\<not> int_at p body byteOrder < 1" for kind'
        using elements(5) [OF range [THEN conjunct1] range [THEN conjunct2],
            of f "opposite byteOrder" kind' res uninitialised byteOrder, THEN conjunct2] that
        unfolding some by simp
      note parts = readWKB_elements_swapped [OF head assms elements(3),
          of "readWKBGeometryEnv f" m n_bytes "wkb_ordinate typeInt ord" maxmin res j
             "wkb_dimension typeInt", OF first]
      have "agree_env
              (if wkb_geometryType typeInt = wkbMultiPoint
               then readWKBMultiPointEnv_with (readWKBGeometryEnv f) m q n_bytes body
                      (opposite byteOrder) (wkb_dimension typeInt) (wkb_ordinate typeInt ord)
                      maxmin res
               else if wkb_geometryType typeInt = wkbMultiLineString
               then readWKBMultiLineStringEnv_with (readWKBGeometryEnv f) m q n_bytes body
                      (opposite byteOrder) (wkb_dimension typeInt) (wkb_ordinate typeInt ord)
                      maxmin res
               else if wkb_geometryType typeInt = wkbMultiPolygon
               then readWKBMultiPolygonEnv_with (readWKBGeometryEnv f) m q n_bytes body
                      (opposite byteOrder) (wkb_dimension typeInt) (wkb_ordinate typeInt ord)
                      maxmin res
               else readWKBGeometryCollectionEnv_with (readWKBGeometryEnv f) m q n_bytes body
                      (opposite byteOrder) (wkb_dimension typeInt) (wkb_ordinate typeInt ord)
                      maxmin res)
              (if wkb_geometryType typeInt = wkbMultiPoint
               then readWKBMultiPointEnv_with (readWKBGeometryEnv f) m p n_bytes body
                      byteOrder (wkb_dimension typeInt) (wkb_ordinate typeInt ord) maxmin res
               else if wkb_geometryType typeInt = wkbMultiLineString
               then readWKBMultiLineStringEnv_with (readWKBGeometryEnv f) m p n_bytes body
                      byteOrder (wkb_dimension typeInt) (wkb_ordinate typeInt ord) maxmin res
               else if wkb_geometryType typeInt = wkbMultiPolygon
               then readWKBMultiPolygonEnv_with (readWKBGeometryEnv f) m p n_bytes body
                      byteOrder (wkb_dimension typeInt) (wkb_ordinate typeInt ord) maxmin res
               else readWKBGeometryCollectionEnv_with (readWKBGeometryEnv f) m p n_bytes body
                      byteOrder (wkb_dimension typeInt) (wkb_ordinate typeInt ord) maxmin res) j"
        using parts by simp
      from agree_env_return [OF this] show ?thesis
        unfolding Suc readWKBGeometryEnv_head [OF elements(1) assms] if_not_P [OF False]
        using elements(2) by (auto simp: readWKB_dispatch_def)
    qed
  qed
next
  case (no_elems ord index)
  show ?case by simp
next
  case (elem ord index j k j')
  note first = elem(2) [OF elem(5,6)]
  note rest = elem(4) [OF elem(5,6), THEN conjunct1]
  show ?case
    unfolding diff_Suc_1
    by (intro conjI impI readWKBElementsEnv_step(1) [OF first rest]
        readWKBElementsEnv_step(2) [OF first rest])
qed

subsection \<open>The entry points\<close>

lemma flags_flipped:
  "(flags XOR GPKG_BYTEORDER_BIT) AND GPKG_ENV_BITS = flags AND GPKG_ENV_BITS"
  "(flags XOR GPKG_BYTEORDER_BIT) AND GPKG_EMPTY_BIT = flags AND GPKG_EMPTY_BIT"
  by (simp_all add: bit.conj_xor_distrib2)

lemma flags_flipped_drop:
  "drop_bit 4 (flags XOR GPKG_BYTEORDER_BIT) = drop_bit 4 flags"
  "drop_bit (Suc 0) (flags XOR GPKG_BYTEORDER_BIT) = drop_bit (Suc 0) flags"
  by (rule bit_eqI, simp add: bit_drop_bit_eq bit_xor_iff bit_1_iff)+

lemma header_peeks:
  assumes "header_flipped p q index"
    and "length q = length p" and "int (length p) \<le> 2147483647"
  shows "peek p index = Inr (p ! nat index)" and "peek q index = Inr (p ! nat index)"
    and "i32 (index + 1) = index + 1"
    and "peek p (index + 1) = Inr (p ! nat (index + 1))"
    and "peek q (index + 1) = Inr (p ! nat (index + 1))"
    and "i32 (2 + index) = index + 2"
    and "peek p (index + 2) = Inr (p ! nat (index + 2))"
    and "peek q (index + 2) = Inr (p ! nat (index + 2))"
    and "i32 (3 + index) = index + 3"
    and "peek p (index + 3) = Inr (p ! nat (index + 3))"
    and "peek q (index + 3) = Inr (p ! nat (index + 3) XOR GPKG_BYTEORDER_BIT)"
  using assms by (simp_all add: header_flipped_def peek_def i32_id)

lemma skipGPKGHeader_flipped:
  assumes "header_flipped p q index"
    and "length q = length p" and "int (length p) \<le> 2147483647"
  shows "skipGPKGHeader q n_bytes index = skipGPKGHeader p n_bytes' index"
  by (simp add: skipGPKGHeader_def header_peeks [OF assms] flags_flipped flags_flipped_drop Let_def
      cong: option.case_cong)

lemma readEmptyGPKGHeader_flipped:
  assumes "header_flipped p q index"
    and "length q = length p" and "int (length p) \<le> 2147483647"
  shows "readEmptyGPKGHeader q n_bytes index isEmpty = readEmptyGPKGHeader p n_bytes index isEmpty"
  by (simp add: readEmptyGPKGHeader_def header_peeks [OF assms] flags_flipped flags_flipped_drop Let_def
      cong: option.case_cong)

lemma readEmptyGPKGHeader_ok:
  "readEmptyGPKGHeader p_blob n_bytes index e0 = Inr (ok, body, isEmpty) \<Longrightarrow> ok = 0 \<or> ok = 1"
  unfolding readEmptyGPKGHeader_def
  by (cases "peek p_blob index"; cases "peek p_blob (i32 (index + 1))";
      cases "peek p_blob (i32 (i32 (index + 1) + 1))";
      cases "peek p_blob (i32 (i32 (i32 (index + 1) + 1) + 1))")
    (auto simp: Let_def split: if_splits option.splits)

lemma readEmptyGPKGHeader_body:
  assumes "readEmptyGPKGHeader p n_bytes index isEmpty = Inr (ok, body, e)" and "ok \<noteq> 0"
  shows "gpkg_body p index = Some body"
proof -
  have "ok = 1"
    using readEmptyGPKGHeader_ok [OF assms(1)] assms(2) by simp
  then have "skipGPKGHeader p (int (length p)) index = Inr (1, body)"
    using assms(1) readEmptyGPKGHeader_skip [of p "int (length p)" index isEmpty body e]
      readEmptyGPKGHeader_skip [of p n_bytes index isEmpty body e]
    by (simp add: skipGPKGHeader_def)
  then show ?thesis by (simp add: gpkg_body_def)
qed

text \<open>
  The emptiness test and, as distributed (without \<^verbatim>\<open>GPKG_ALLWAYS_USE_HEADER\<close>),
  the envelope functions give the same result for a blob and for its
  re-encoding in the other byte order, on every machine and for every fuel,
  provided the envelope function is not asked for the Z of a Point, LineString
  or Polygon of dimension 2.
\<close>

lemma isEmptyGPKGGeometry_reenc:
  assumes "length q = length p" and "int (length p) \<le> 2147483647"
    and "header_flipped p q index"
    and "\<And>body. gpkg_body p index = Some body \<Longrightarrow> reenc p q ord body j"
  shows "isEmptyGPKGGeometry use_header fuel m q n_bytes index a' kind
           = isEmptyGPKGGeometry use_header fuel m p n_bytes index a kind"
proof (cases "readEmptyGPKGHeader p n_bytes index 0")
  case (Inl e)
  then show ?thesis
    by (simp add: isEmptyGPKGGeometry_def readEmptyGPKGHeader_flipped [OF assms(3,1,2)])
next
  case (Inr x)
  obtain ok body e where x: "x = (ok, body, e)" by (cases x)
  show ?thesis
  proof (cases "ok = 0")
    case True
    then show ?thesis
      by (simp add: isEmptyGPKGGeometry_def readEmptyGPKGHeader_flipped [OF assms(3,1,2)] Inr x)
  next
    case False
    have "gpkg_body p index = Some body"
      using Inr False by (intro readEmptyGPKGHeader_body [of p n_bytes index 0 ok body e])
        (simp_all add: x)
    from isEmptyWKBGeometry_reenc(1) [OF assms(1,2) assms(4) [OF this], of fuel m n_bytes a' kind a]
    have "isEmptyWKBGeometry fuel m q n_bytes body a' kind
            = isEmptyWKBGeometry fuel m p n_bytes body a kind"
      by (simp add: agree_at_def)
    then show ?thesis
      by (simp add: isEmptyGPKGGeometry_def readEmptyGPKGHeader_flipped [OF assms(3,1,2)] Inr x)
  qed
qed

lemma readGPKGGeometryEnv_reenc:
  assumes "length q = length p" and "int (length p) \<le> 2147483647"
    and "header_flipped p q index"
    and "\<And>body. gpkg_body p index = Some body \<Longrightarrow> reenc p q ord body j"
    and "0 \<le> ord" and "ord \<le> 3"
  shows "readGPKGGeometryEnv False fuel m q n_bytes index a' ord maxmin kind res
           = readGPKGGeometryEnv False fuel m p n_bytes index a ord maxmin kind res"
proof (cases "skipGPKGHeader p (int (length p)) index")
  case (Inl e)
  have "skipGPKGHeader p n_bytes index = Inl e"
    using Inl by (simp add: skipGPKGHeader_def)
  moreover have "skipGPKGHeader q n_bytes index = Inl e"
    using skipGPKGHeader_flipped [OF assms(3,1,2), of n_bytes "int (length p)"] Inl by simp
  ultimately show ?thesis
    by (simp add: readGPKGGeometryEnv_def)
next
  case (Inr x)
  obtain ok body where x: "x = (ok, body)" by (cases x)
  have q: "skipGPKGHeader q n_bytes index = Inr (ok, body)"
    using skipGPKGHeader_flipped [OF assms(3,1,2), of n_bytes "int (length p)"] Inr x by simp
  have p: "skipGPKGHeader p n_bytes index = Inr (ok, body)"
    using Inr x by (simp add: skipGPKGHeader_def)
  show ?thesis
  proof (cases "ok = 0")
    case True
    then show ?thesis
      by (simp add: readGPKGGeometryEnv_def p q)
  next
    case False
    have "gpkg_body p index = Some body"
      using Inr False by (simp add: gpkg_body_def x)
    from readWKBGeometryEnv_reenc(1) [OF assms(1,2) assms(4) [OF this] assms(5,6),
        of fuel m n_bytes a' maxmin kind res a]
    have "readWKBGeometryEnv fuel m q n_bytes body a' ord maxmin kind res
            = readWKBGeometryEnv fuel m p n_bytes body a ord maxmin kind res"
      by (simp add: agree_env_def)
    then show ?thesis
      using False by (simp add: readGPKGGeometryEnv_def p q)
  qed
qed

subsection \<open>The sample collection in the two byte orders\<close>

lemmas sample_collections = wkb_collection_2d_z_def wkb_collection_2d_z_swapped_def
  gpkg_collection_2d_z_def gpkg_collection_2d_z_swapped_def

lemma swapped_floats_none: "count \<le> 0 \<Longrightarrow> swapped_floats p q index count"
  by (auto simp: swapped_floats_def)

lemma swapped_floats_step:
  assumes "swapped p q index 8" and "swapped_floats p q (index + 8) (count - 1)"
  shows "swapped_floats p q index count"
  unfolding swapped_floats_def
proof (intro allI impI)
  fix k :: int
  assume k: "0 \<le> k \<and> k < count"
  show "swapped p q (index + 8 * k) 8"
  proof (cases "k = 0")
    case True
    then show ?thesis using assms(1) by simp
  next
    case False
    then have "swapped p q (index + 8 + 8 * (k - 1)) 8"
      using k by (intro swapped_floats_at [OF assms(2)]) auto
    then show ?thesis by (simp add: algebra_simps)
  qed
qed

lemmas run_fields = record_head_def swapped_def int_at_def field_def peek_def opposite_def
  wkb_body_def wkb_geometryType_def wkb_dimension_def wkb_hasZ_def wkb_hasM_def wkb_ordinate_def
  i32_def

lemma collection_head:
  "record_head gpkg_collection_2d_z gpkg_collection_2d_z_swapped 8 LITTLE_ENDIAN 7 13"
  by (simp add: sample_collections sample_records sample_floats run_fields)

lemma collection_count:
  "swapped gpkg_collection_2d_z gpkg_collection_2d_z_swapped 13 4"
  "nat (int_at gpkg_collection_2d_z 13 LITTLE_ENDIAN) = Suc (Suc 0)"
  by (simp_all add: sample_collections sample_records sample_floats run_fields)

lemma collection_point_2d_head:
  "record_head gpkg_collection_2d_z gpkg_collection_2d_z_swapped 17 LITTLE_ENDIAN 1 22"
  by (simp add: sample_collections sample_records sample_floats run_fields)

lemma collection_point_2d_floats:
  "swapped_floats gpkg_collection_2d_z gpkg_collection_2d_z_swapped 22 2"
  by (rule swapped_floats_step,
      simp add: sample_collections sample_records sample_floats swapped_def,
      rule swapped_floats_step,
      simp add: sample_collections sample_records sample_floats swapped_def,
      rule swapped_floats_none, simp)

lemma collection_point_z_head:
  "record_head gpkg_collection_2d_z gpkg_collection_2d_z_swapped 38 LITTLE_ENDIAN 1001 43"
  by (simp add: sample_collections sample_records sample_floats run_fields)

lemma collection_point_z_floats:
  "swapped_floats gpkg_collection_2d_z gpkg_collection_2d_z_swapped 43 3"
  by (rule swapped_floats_step,
      simp add: sample_collections sample_records sample_floats swapped_def,
      rule swapped_floats_step,
      simp add: sample_collections sample_records sample_floats swapped_def,
      rule swapped_floats_step,
      simp add: sample_collections sample_records sample_floats swapped_def,
      rule swapped_floats_none, simp)

lemma collection_header:
  "header_flipped gpkg_collection_2d_z gpkg_collection_2d_z_swapped 0"
  "gpkg_body gpkg_collection_2d_z 0 = Some 8"
  "length gpkg_collection_2d_z_swapped = length gpkg_collection_2d_z"
  "int (length gpkg_collection_2d_z) \<le> 2147483647"
  by (simp_all add: sample_collections sample_records sample_floats header_flipped_def
      gpkg_body_def skipGPKGHeader_def peek_def i32_def envelope_bytes_def)

lemma collection_reenc:
  assumes "ord \<noteq> ord_Z"
  shows "reenc gpkg_collection_2d_z gpkg_collection_2d_z_swapped ord 8 67"
proof -
  have first: "reenc gpkg_collection_2d_z gpkg_collection_2d_z_swapped ord 17 38"
    using assms
    by (intro reenc_reenc_elems.point [OF collection_point_2d_head])
      (simp_all add: collection_point_2d_floats wkb_geometryType_def wkb_dimension_def
        wkb_hasZ_def wkb_hasM_def)
  have second: "reenc gpkg_collection_2d_z gpkg_collection_2d_z_swapped ord 38 67"
    by (intro reenc_reenc_elems.point [OF collection_point_z_head])
      (simp_all add: collection_point_z_floats wkb_geometryType_def wkb_dimension_def
        wkb_hasZ_def wkb_hasM_def)
  have "reenc_elems gpkg_collection_2d_z gpkg_collection_2d_z_swapped ord (Suc (Suc 0)) 17 67"
    by (intro reenc_reenc_elems.elem [OF first] reenc_reenc_elems.elem [OF second]
        reenc_reenc_elems.no_elems)
  then show ?thesis
    by (intro reenc_reenc_elems.elements [OF collection_head _ collection_count(1)])
      (simp_all add: collection_count(2) wkb_geometryType_def wkb_dimension_def
        wkb_hasZ_def wkb_hasM_def wkb_ordinate_def)
qed

text \<open>For the sample collection, every ordinate but Z and the emptiness test
  are the same in the two byte orders.\<close>

lemma collection_same_envelope:
  assumes "ord = ord_X \<or> ord = ord_Y \<or> ord = ord_M"
  shows "readGPKGGeometryEnv False fuel m gpkg_collection_2d_z_swapped n_bytes 0 a' ord maxmin
           kind res
         = readGPKGGeometryEnv False fuel m gpkg_collection_2d_z n_bytes 0 a ord maxmin kind res"
  using assms
  by (intro readGPKGGeometryEnv_reenc [OF collection_header(3,4,1), where j = 67])
    (auto simp: collection_header(2) intro: collection_reenc)

lemma collection_same_emptiness:
  "isEmptyGPKGGeometry use_header fuel m gpkg_collection_2d_z_swapped n_bytes 0 a' kind
   = isEmptyGPKGGeometry use_header fuel m gpkg_collection_2d_z n_bytes 0 a kind"
  by (intro isEmptyGPKGGeometry_reenc [OF collection_header(3,4,1), where j = 67 and ord = ord_X])
    (auto simp: collection_header(2) intro: collection_reenc)

subsection \<open>A collection whose minimum of Z depends on the byte order\<close>

text \<open>The second blob is the first with the byte-order flag of the header and
  the byte-order bytes of the three records flipped, and the ten integers and
  floats swapped.\<close>

lemma gpkg_collection_2d_z_reencoded:
  "gpkg_collection_2d_z_swapped
   = fold (\<lambda>(index, w) p_blob. swap_field p_blob index w)
       [(4, 4), (9, 4), (13, 4), (18, 4), (22, 8), (30, 8), (39, 4), (43, 8), (51, 8), (59, 8)]
       (gpkg_collection_2d_z [3 := 0, 8 := 0, 17 := 0, 38 := 0])"
  by (simp add: sample_collections sample_records sample_floats swap_field_def)

lemma gpkg_collection_2d_z_min:
  "readGPKGGeometryEnv False 2 m gpkg_collection_2d_z 67 0 (endian m) ord_Z fn_MIN wkbGeometry 0
   = Inr (1, 67, 0x3E901)"
  by (cases m)
    (simp_all add: sample_collections sample_records sample_floats run_reader run_double
      readGPKGGeometryEnv_def skipGPKGHeader_def envelope_bytes_def
      readWKBGeometryCollectionEnv_with_def readWKBPointOrd_def unroll
      del: Suc_numeral cong: run_cong)

lemma gpkg_collection_2d_z_swapped_min:
  "readGPKGGeometryEnv False 2 m gpkg_collection_2d_z_swapped 67 0 (endian m) ord_Z fn_MIN
     wkbGeometry 0
   = Inr (1, 67, 0x3E93FF000)"
  by (cases m)
    (simp_all add: sample_collections sample_records sample_floats run_reader run_double
      readGPKGGeometryEnv_def skipGPKGHeader_def envelope_bytes_def
      readWKBGeometryCollectionEnv_with_def readWKBPointOrd_def unroll
      del: Suc_numeral cong: run_cong)

lemma gpkg_collection_2d_z_header_min:
  "readGPKGGeometryEnv True 2 m gpkg_collection_2d_z 67 0 (endian m) ord_Z fn_MIN wkbGeometry 0
   = Inr (1, 67, 0x3E901)"
  by (cases m)
    (simp_all add: sample_collections sample_records sample_floats run_reader run_double
      readGPKGGeometryEnv_def readGPKGHeaderEnv_def envelope_bytes_def
      readWKBGeometryCollectionEnv_with_def readWKBPointOrd_def unroll
      del: Suc_numeral cong: run_cong)

lemma gpkg_collection_2d_z_swapped_header_min:
  "readGPKGGeometryEnv True 2 m gpkg_collection_2d_z_swapped 67 0 (endian m) ord_Z fn_MIN
     wkbGeometry 0
   = Inr (1, 67, 0x3E93FF000)"
  by (cases m)
    (simp_all add: sample_collections sample_records sample_floats run_reader run_double
      readGPKGGeometryEnv_def readGPKGHeaderEnv_def envelope_bytes_def
      readWKBGeometryCollectionEnv_with_def readWKBPointOrd_def unroll
      del: Suc_numeral cong: run_cong)

lemma gpkg_collection_2d_z_max:
  "readGPKGGeometryEnv False 2 m gpkg_collection_2d_z 67 0 (endian m) ord_Z fn_MAX wkbGeometry 0
   = Inr (1, 67, 0x4008000000000000)"
  by (cases m)
    (simp_all add: sample_collections sample_records sample_floats run_reader run_double
      readGPKGGeometryEnv_def skipGPKGHeader_def envelope_bytes_def
      readWKBGeometryCollectionEnv_with_def readWKBPointOrd_def unroll
      del: Suc_numeral cong: run_cong)

text \<open>
  Claim C9 fails on the code.  \<open>getInt\<close> and \<open>getDouble\<close> do read a swapped field
  under the opposite declared order as the same value (theorem
  \<open>byte_order_reencoding\<close>), the emptiness test is the same for a blob and its
  re-encoding (lemma \<open>isEmptyGPKGGeometry_reenc\<close>), and so is every envelope value
  that the walker takes from fields of the record it is in (lemma
  \<open>readGPKGGeometryEnv_reenc\<close>).  But for the Z of a record of dimension 2 it does
  not.  For the GeometryCollection of the 2-D Point (1.0, 2.0) and the Point Z
  (1.0, 2.0, 3.0) and the ordinate Z, the test \<^verbatim>\<open>dimension < ordinate\<close> lets the
  2-D Point through, and its Z is read from the 8 bytes behind its two ordinates:
  the byte-order byte, the type code and three bytes of the first ordinate of the
  Point Z.  Re-encoded, these 8 bytes are not the same bytes reversed.  The
  minimum of Z is the float with the bit pattern \<^verbatim>\<open>0x3E901\<close> for the little-endian
  blob and \<^verbatim>\<open>0x3E93FF000\<close> for the big-endian one, on either machine and with or
  without \<^verbatim>\<open>GPKG_ALLWAYS_USE_HEADER\<close>.
\<close>

theorem reencoding_changes_min_Z:
  "gpkg_collection_2d_z_swapped
     = fold (\<lambda>(index, w) p_blob. swap_field p_blob index w)
         [(4, 4), (9, 4), (13, 4), (18, 4), (22, 8), (30, 8), (39, 4), (43, 8), (51, 8), (59, 8)]
         (gpkg_collection_2d_z [3 := 0, 8 := 0, 17 := 0, 38 := 0])
   \<and> readGPKGGeometryEnv False 2 m gpkg_collection_2d_z 67 0 (endian m) ord_Z fn_MIN
       wkbGeometry 0
     = Inr (1, 67, 0x3E901)
   \<and> readGPKGGeometryEnv False 2 m gpkg_collection_2d_z_swapped 67 0 (endian m) ord_Z fn_MIN
       wkbGeometry 0
     = Inr (1, 67, 0x3E93FF000)
   \<and> readGPKGGeometryEnv True 2 m gpkg_collection_2d_z 67 0 (endian m) ord_Z fn_MIN
       wkbGeometry 0
     = Inr (1, 67, 0x3E901)
   \<and> readGPKGGeometryEnv True 2 m gpkg_collection_2d_z_swapped 67 0 (endian m) ord_Z fn_MIN
       wkbGeometry 0
     = Inr (1, 67, 0x3E93FF000)"
  by (intro conjI gpkg_collection_2d_z_reencoded gpkg_collection_2d_z_min
      gpkg_collection_2d_z_swapped_min gpkg_collection_2d_z_header_min
      gpkg_collection_2d_z_swapped_header_min)

text \<open>The two runs on a little-endian machine, taken from the theorem above.\<close>

theorem reencoding_changes_min_Z_witness:
  "readGPKGGeometryEnv False 2 LittleEndianCPU gpkg_collection_2d_z 67 0
     (endian LittleEndianCPU) ord_Z fn_MIN wkbGeometry 0
     = Inr (1, 67, 0x3E901)
   \<and> readGPKGGeometryEnv False 2 LittleEndianCPU gpkg_collection_2d_z_swapped 67 0
       (endian LittleEndianCPU) ord_Z fn_MIN wkbGeometry 0
     = Inr (1, 67, 0x3E93FF000)"
  using reencoding_changes_min_Z [of LittleEndianCPU] by blast

section \<open>More fuel\<close>

text \<open>A result that the walkers return with some fuel is the result with any
  more fuel: the fuel decides only whether the recursion is followed to its
  end.\<close>

lemma isEmptyWKBElements_loop_mono:
  assumes "\<And>m p n i b k x. g m p n i b k = Inr x \<Longrightarrow> g' m p n i b k = Inr x"
  shows "isEmptyWKBElements_loop g m p_blob n_bytes byteOrder kind k index res = Inr x \<Longrightarrow>
         isEmptyWKBElements_loop g' m p_blob n_bytes byteOrder kind k index res = Inr x"
proof (induction k arbitrary: index res)
  case 0
  then show ?case by simp
next
  case (Suc k)
  from Suc.prems obtain r2 i2 where
    step: "g m p_blob n_bytes index byteOrder kind = Inr (r2, i2)"
    and rest: "(if r2 < 0 then Inr (r2, i2)
                else isEmptyWKBElements_loop g m p_blob n_bytes byteOrder kind k i2
                       (if r2 = 0 then r2 else res)) = Inr x"
    by (auto simp: bnd_eq_Inr)
  show ?case
    using assms [OF step] rest Suc.IH by (auto split: if_splits)
qed

lemma isEmptyWKB_dispatch_mono:
  assumes "\<And>m p n i b k x. g m p n i b k = Inr x \<Longrightarrow> g' m p n i b k = Inr x"
    and "isEmptyWKB_dispatch g m p_blob n_bytes index byteOrder kind dimension geometryType
           = Inr x"
  shows "isEmptyWKB_dispatch g' m p_blob n_bytes index byteOrder kind dimension geometryType
           = Inr x"
proof -
  note loop = isEmptyWKBElements_loop_mono [of g g', OF assms(1)]
  show ?thesis
    using assms(2)
    unfolding isEmptyWKB_dispatch_def isEmptyWKBMultiPoint_with_def
      isEmptyWKBMultiLineString_with_def isEmptyWKBMultiPolygon_with_def
      isEmptyWKBGeometryCollection_with_def
    by (cases "getInt m p_blob index byteOrder") (auto split: if_splits intro: loop)
qed

lemma isEmptyWKBGeometry_more_fuel:
  "isEmptyWKBGeometry fuel m p_blob n_bytes index byteOrder kind = Inr x \<Longrightarrow>
   isEmptyWKBGeometry (fuel + extra) m p_blob n_bytes index byteOrder kind = Inr x"
proof (induction fuel arbitrary: m p_blob n_bytes index byteOrder kind x)
  case 0
  then show ?case by simp
next
  case (Suc fuel)
  from Suc.prems obtain newByteOrder typeInt i where
    mark: "peek p_blob index = Inr newByteOrder"
    and code: "getInt m p_blob (i32 (index + 1)) (wkb_byteOrder newByteOrder byteOrder)
                 = Inr (typeInt, i)"
    and body: "isEmptyWKB_dispatch (isEmptyWKBGeometry fuel) m p_blob n_bytes
                 (wkb_body typeInt i) (wkb_byteOrder newByteOrder byteOrder) kind
                 (wkb_dimension typeInt) (wkb_geometryType typeInt) = Inr x"
    unfolding isEmptyWKBGeometry_Suc by (auto simp: bnd_eq_Inr)
  have "isEmptyWKB_dispatch (isEmptyWKBGeometry (fuel + extra)) m p_blob n_bytes
          (wkb_body typeInt i) (wkb_byteOrder newByteOrder byteOrder) kind
          (wkb_dimension typeInt) (wkb_geometryType typeInt) = Inr x"
    by (rule isEmptyWKB_dispatch_mono [OF Suc.IH body])
  then show ?case
    unfolding add_Suc isEmptyWKBGeometry_Suc by (simp add: mark code)
qed

lemma readWKBElementsEnv_loop_mono:
  assumes "\<And>m p n i b ordinate maxmin k res x.
             g m p n i b ordinate maxmin k res = Inr x \<Longrightarrow>
             g' m p n i b ordinate maxmin k res = Inr x"
  shows "readWKBElementsEnv_loop g m p_blob n_bytes byteOrder ordinate maxmin kind k index res
           res2 = Inr x \<Longrightarrow>
         readWKBElementsEnv_loop g' m p_blob n_bytes byteOrder ordinate maxmin kind k index res
           res2 = Inr x"
proof (induction k arbitrary: index res res2)
  case 0
  then show ?case by simp
next
  case (Suc k)
  from Suc.prems obtain ok i2 d where
    step: "g m p_blob n_bytes index byteOrder ordinate maxmin kind res2 = Inr (ok, i2, d)"
    and rest: "(if ok = 0 then Inr (0, i2, res)
                else readWKBElementsEnv_loop g m p_blob n_bytes byteOrder ordinate maxmin kind k
                       i2 (keep_extreme maxmin d res) d) = Inr x"
    by (auto simp: bnd_eq_Inr)
  show ?case
    using assms [OF step] rest Suc.IH by (auto split: if_splits)
qed

lemma readWKB_elements_mono:
  assumes "\<And>m p n i b ordinate maxmin k res x.
             g m p n i b ordinate maxmin k res = Inr x \<Longrightarrow>
             g' m p n i b ordinate maxmin k res = Inr x"
  shows "readWKBMultiPointEnv_with g m p_blob n_bytes index byteOrder dimension ordinate maxmin
           res = Inr x \<Longrightarrow>
         readWKBMultiPointEnv_with g' m p_blob n_bytes index byteOrder dimension ordinate maxmin
           res = Inr x"
    and "readWKBMultiLineStringEnv_with g m p_blob n_bytes index byteOrder dimension ordinate
           maxmin res = Inr x \<Longrightarrow>
         readWKBMultiLineStringEnv_with g' m p_blob n_bytes index byteOrder dimension ordinate
           maxmin res = Inr x"
    and "readWKBMultiPolygonEnv_with g m p_blob n_bytes index byteOrder dimension ordinate
           maxmin res = Inr x \<Longrightarrow>
         readWKBMultiPolygonEnv_with g' m p_blob n_bytes index byteOrder dimension ordinate
           maxmin res = Inr x"
    and "readWKBGeometryCollectionEnv_with g m p_blob n_bytes index byteOrder dimension ordinate
           maxmin res = Inr x \<Longrightarrow>
         readWKBGeometryCollectionEnv_with g' m p_blob n_bytes index byteOrder dimension
           ordinate maxmin res = Inr x"
proof -
  note loop = readWKBElementsEnv_loop_mono [of g g', OF assms]
  have common: "bnd (getInt m p_blob index byteOrder)
       (\<lambda>(numGeoms, i).
          if numGeoms < 1 then Inr (0, i, res)
          else bnd (g' m p_blob n_bytes i byteOrder ordinate maxmin kind res)
                 (\<lambda>(ok, i, r).
                    if ok = 0 then Inr (0, i, r)
                    else readWKBElementsEnv_loop g' m p_blob n_bytes byteOrder ordinate
                           maxmin kind (nat (numGeoms - 1)) i r uninitialised)) = Inr x"
    if "bnd (getInt m p_blob index byteOrder)
       (\<lambda>(numGeoms, i).
          if numGeoms < 1 then Inr (0, i, res)
          else bnd (g m p_blob n_bytes i byteOrder ordinate maxmin kind res)
                 (\<lambda>(ok, i, r).
                    if ok = 0 then Inr (0, i, r)
                    else readWKBElementsEnv_loop g m p_blob n_bytes byteOrder ordinate
                           maxmin kind (nat (numGeoms - 1)) i r uninitialised)) = Inr x"
    for kind
  proof -
    from that obtain numGeoms i where
      count: "getInt m p_blob index byteOrder = Inr (numGeoms, i)"
      and rest: "(if numGeoms < 1 then Inr (0, i, res)
                  else bnd (g m p_blob n_bytes i byteOrder ordinate maxmin kind res)
                         (\<lambda>(ok, i, r).
                            if ok = 0 then Inr (0, i, r)
                            else readWKBElementsEnv_loop g m p_blob n_bytes byteOrder ordinate
                                   maxmin kind (nat (numGeoms - 1)) i r uninitialised)) = Inr x"
      by (auto simp: bnd_eq_Inr)
    show ?thesis
    proof (cases "numGeoms < 1")
      case True
      then show ?thesis using rest by (simp add: count)
    next
      case False
      with rest obtain ok i2 d where
        first: "g m p_blob n_bytes i byteOrder ordinate maxmin kind res = Inr (ok, i2, d)"
        and others: "(if ok = 0 then Inr (0, i2, d)
                      else readWKBElementsEnv_loop g m p_blob n_bytes byteOrder ordinate
                             maxmin kind (nat (numGeoms - 1)) i2 d uninitialised) = Inr x"
        by (auto simp: bnd_eq_Inr)
      show ?thesis
        using False assms [OF first] others loop by (auto simp: count split: if_splits)
    qed
  qed
  show "readWKBMultiPointEnv_with g m p_blob n_bytes index byteOrder dimension ordinate maxmin
          res = Inr x \<Longrightarrow>
        readWKBMultiPointEnv_with g' m p_blob n_bytes index byteOrder dimension ordinate maxmin
          res = Inr x"
    unfolding readWKBMultiPointEnv_with_def by (rule common)
  show "readWKBMultiLineStringEnv_with g m p_blob n_bytes index byteOrder dimension ordinate
          maxmin res = Inr x \<Longrightarrow>
        readWKBMultiLineStringEnv_with g' m p_blob n_bytes index byteOrder dimension ordinate
          maxmin res = Inr x"
    unfolding readWKBMultiLineStringEnv_with_def by (rule common)
  show "readWKBMultiPolygonEnv_with g m p_blob n_bytes index byteOrder dimension ordinate
          maxmin res = Inr x \<Longrightarrow>
        readWKBMultiPolygonEnv_with g' m p_blob n_bytes index byteOrder dimension ordinate
          maxmin res = Inr x"
    unfolding readWKBMultiPolygonEnv_with_def by (rule common)
  show "readWKBGeometryCollectionEnv_with g m p_blob n_bytes index byteOrder dimension ordinate
          maxmin res = Inr x \<Longrightarrow>
        readWKBGeometryCollectionEnv_with g' m p_blob n_bytes index byteOrder dimension
          ordinate maxmin res = Inr x"
    unfolding readWKBGeometryCollectionEnv_with_def by (rule common)
qed

lemma readWKB_dispatch_mono:
  assumes "\<And>m p n i b ordinate maxmin k res x.
             g m p n i b ordinate maxmin k res = Inr x \<Longrightarrow>
             g' m p n i b ordinate maxmin k res = Inr x"
    and "readWKB_dispatch g m p_blob n_bytes index byteOrder ordinate maxmin kind dimension
           geometryType res = Inr x"
  shows "readWKB_dispatch g' m p_blob n_bytes index byteOrder ordinate maxmin kind dimension
           geometryType res = Inr x"
proof -
  note parts = readWKB_elements_mono [of g g', OF assms(1)]
  define inner where "inner h =
     (if geometryType = wkbPoint
      then readWKBPointOrd m p_blob n_bytes index byteOrder dimension ordinate res
      else if geometryType = wkbLineString
      then readWKBLineStringEnv m p_blob n_bytes index byteOrder dimension ordinate maxmin res
      else if geometryType = wkbPolygon
      then readWKBPolygonEnv m p_blob n_bytes index byteOrder dimension ordinate maxmin res
      else if geometryType = wkbMultiPoint
      then readWKBMultiPointEnv_with h m p_blob n_bytes index byteOrder dimension
             ordinate maxmin res
      else if geometryType = wkbMultiLineString
      then readWKBMultiLineStringEnv_with h m p_blob n_bytes index byteOrder
             dimension ordinate maxmin res
      else if geometryType = wkbMultiPolygon
      then readWKBMultiPolygonEnv_with h m p_blob n_bytes index byteOrder dimension
             ordinate maxmin res
      else if geometryType = wkbGeometryCollection
      then readWKBGeometryCollectionEnv_with h m p_blob n_bytes index byteOrder
             dimension ordinate maxmin res
      else Inr (0, index, res))" for h
  have dispatch: "readWKB_dispatch h m p_blob n_bytes index byteOrder ordinate maxmin kind
                    dimension geometryType res =
                  (if kind \<noteq> wkbGeometry \<and> kind \<noteq> geometryType then Inr (0, index, res)
                   else bnd (inner h)
                          (\<lambda>(ok, index, res). Inr (if ok = 0 then 0 else 1, index, res)))"
    for h
    by (simp add: readWKB_dispatch_def inner_def)
  have sel: "inner g' = Inr y" if "inner g = Inr y" for y
    using that unfolding inner_def by (auto split: if_splits intro: parts)
  show ?thesis
  proof (cases "kind \<noteq> wkbGeometry \<and> kind \<noteq> geometryType")
    case True
    then show ?thesis using assms(2) by (simp add: dispatch)
  next
    case False
    with assms(2) obtain y where
      y: "inner g = Inr y"
      and ret: "(case y of (ok, index, res) \<Rightarrow> Inr (if ok = 0 then 0 else (1 :: int), index, res))
                  = Inr x"
      unfolding dispatch by (auto simp: bnd_eq_Inr)
    show ?thesis
      using False sel [OF y] ret unfolding dispatch by (cases y) auto
  qed
qed

lemma readWKBGeometryEnv_more_fuel:
  "readWKBGeometryEnv fuel m p_blob n_bytes index byteOrder ordinate maxmin kind res = Inr x \<Longrightarrow>
   readWKBGeometryEnv (fuel + extra) m p_blob n_bytes index byteOrder ordinate maxmin kind res
     = Inr x"
proof (induction fuel arbitrary: m p_blob n_bytes index byteOrder ordinate maxmin kind res x)
  case 0
  then show ?case by simp
next
  case (Suc fuel)
  from Suc.prems obtain newByteOrder typeInt i where
    mark: "peek p_blob index = Inr newByteOrder"
    and code: "getInt m p_blob (i32 (index + 1)) (wkb_byteOrder newByteOrder byteOrder)
                 = Inr (typeInt, i)"
    and body: "(if \<not> (wkb_dimension typeInt = 3 \<and> ordinate = ord_M)
                     \<and> wkb_dimension typeInt < ordinate
                then Inr (0, i, res)
                else readWKB_dispatch (readWKBGeometryEnv fuel) m p_blob n_bytes
                       (wkb_body typeInt i) (wkb_byteOrder newByteOrder byteOrder)
                       (wkb_ordinate typeInt ordinate) maxmin kind (wkb_dimension typeInt)
                       (wkb_geometryType typeInt) res) = Inr x"
    unfolding readWKBGeometryEnv_Suc by (auto simp: bnd_eq_Inr)
  show ?case
  proof (cases "\<not> (wkb_dimension typeInt = 3 \<and> ordinate = ord_M)
                  \<and> wkb_dimension typeInt < ordinate")
    case True
    then show ?thesis
      using body unfolding add_Suc readWKBGeometryEnv_Suc by (simp add: mark code)
  next
    case False
    from body have "readWKB_dispatch (readWKBGeometryEnv fuel) m p_blob n_bytes
                      (wkb_body typeInt i) (wkb_byteOrder newByteOrder byteOrder)
                      (wkb_ordinate typeInt ordinate) maxmin kind (wkb_dimension typeInt)
                      (wkb_geometryType typeInt) res = Inr x"
      unfolding if_not_P [OF False] .
    from readWKB_dispatch_mono [OF Suc.IH this]
    show ?thesis
      unfolding add_Suc readWKBGeometryEnv_Suc
      by (simp only: mark code bnd_Inr prod.case if_not_P [OF False])
  qed
qed

text \<open>So it is for the two entry points.\<close>

lemma isEmptyGPKGGeometry_more_fuel:
  assumes "isEmptyGPKGGeometry use_header fuel m p_blob n_bytes index byteOrder kind = Inr x"
  shows "isEmptyGPKGGeometry use_header (fuel + extra) m p_blob n_bytes index byteOrder kind
           = Inr x"
proof (cases "readEmptyGPKGHeader p_blob n_bytes index 0")
  case (Inl e)
  then show ?thesis using assms by (simp add: isEmptyGPKGGeometry_def)
next
  case (Inr y)
  obtain ok body e where y: "y = (ok, body, e)" by (cases y)
  show ?thesis
    using assms isEmptyWKBGeometry_more_fuel [of fuel m p_blob n_bytes body byteOrder kind x extra]
    by (auto simp: isEmptyGPKGGeometry_def Inr y split: if_splits)
qed

lemma readGPKGGeometryEnv_more_fuel:
  assumes "readGPKGGeometryEnv use_header fuel m p_blob n_bytes index byteOrder ordinate maxmin
             kind res = Inr x"
  shows "readGPKGGeometryEnv use_header (fuel + extra) m p_blob n_bytes index byteOrder ordinate
           maxmin kind res = Inr x"
proof (cases use_header)
  case True
  show ?thesis
  proof (cases "readGPKGHeaderEnv m p_blob n_bytes index ordinate maxmin res")
    case (Inl e)
    then show ?thesis using assms True by (simp add: readGPKGGeometryEnv_def)
  next
    case (Inr y)
    obtain ok body d where y: "y = (ok, body, d)" by (cases y)
    show ?thesis
      using assms True
        readWKBGeometryEnv_more_fuel [of fuel m p_blob n_bytes body byteOrder ordinate maxmin
          kind d x extra]
      by (auto simp: readGPKGGeometryEnv_def Inr y split: if_splits)
  qed
next
  case False
  show ?thesis
  proof (cases "skipGPKGHeader p_blob n_bytes index")
    case (Inl e)
    then show ?thesis using assms False by (simp add: readGPKGGeometryEnv_def)
  next
    case (Inr y)
    obtain ok body where y: "y = (ok, body)" by (cases y)
    show ?thesis
      using assms False
        readWKBGeometryEnv_more_fuel [of fuel m p_blob n_bytes body byteOrder ordinate maxmin
          kind res x extra]
      by (auto simp: readGPKGGeometryEnv_def Inr y split: if_splits)
  qed
qed

end
